(* ===== verification/Prelude.thy ===== *)
theory Prelude
  imports Main "HOL-Library.Word" "HOL-Library.Sublist"
begin

text \<open>
  Shared vocabulary of the TomcatScan development: the types that stand for Python's
  bytes and str, the Python exceptions the scanner can raise, big-endian 16-bit fields
  as \<open>16 word\<close>, and Python's string methods \<open>str.rstrip(chars)\<close>,
  \<open>str.endswith\<close> and \<open>str.split\<close> as list functions, with the generic lemmas the
  component theories use.
\<close>

unbundle bit_operations_syntax

named_theorems wire_simps "evaluation rules of the struct codec"
named_theorems url_simps "rules of the string helpers used on URLs"

type_synonym byte = "8 word"
type_synonym bytes = "byte list"

text \<open>A Python \<open>str\<close> as its sequence of Unicode code points (\<open>len\<close> counts them).\<close>
type_synonym pystr = "nat list"

text \<open>
  The exceptions the scanner's code can raise or catch: \<open>struct.error\<close>,
  \<open>ZeroDivisionError\<close>, \<open>ValueError\<close>, \<open>requests.exceptions.RequestException\<close>
  (transport failures and the \<open>HTTPError\<close> of \<open>raise_for_status\<close>), \<open>OSError\<close>,
  \<open>UnicodeError\<close> (both directions of the UTF-8 codec), \<open>KeyError\<close>,
  \<open>TypeError\<close> (\<open>in\<close> or indexing on a value of the wrong type) and
  \<open>AttributeError\<close> (a method the value's type does not have), \<open>OverflowError\<close>
  (a port outside 0-65535, a delay too large for \<open>time.sleep\<close>), \<open>YAMLError\<close> (a
  configuration file \<open>yaml.safe_load\<close> cannot parse) and
  \<open>requests.cookies.CookieConflictError\<close> (a cookie name the jar holds twice; a
  \<open>RuntimeError\<close>, not a \<open>RequestException\<close>).
\<close>
datatype py_error =
    StructError
  | ZeroDivisionError
  | ValueError
  | RequestException
  | OSError
  | UnicodeError
  | KeyError
  | TypeError
  | AttributeError
  | OverflowError
  | YAMLError
  | CookieConflictError

text \<open>Sequencing of computations that may raise: the first exception is the result.\<close>
definition rbind :: "py_error + 'a \<Rightarrow> ('a \<Rightarrow> py_error + 'b) \<Rightarrow> py_error + 'b" where
  "rbind r f = (case r of Inl e \<Rightarrow> Inl e | Inr a \<Rightarrow> f a)"

lemma rbind_simps [simp]: "rbind (Inl e) f = Inl e" "rbind (Inr a) f = f a"
  by (simp_all add: rbind_def)

section \<open>Big-endian 16-bit fields\<close>

definition be16 :: "16 word \<Rightarrow> bytes" where
  "be16 w = [ucast (drop_bit 8 w), ucast w]"

definition word16_of :: "byte \<Rightarrow> byte \<Rightarrow> 16 word" where
  "word16_of hi lo = push_bit 8 (ucast hi) OR ucast lo"

lemma be16_length [simp]: "length (be16 w) = 2"
  by (simp add: be16_def)

lemma word16_of_be16 [wire_simps]: "word16_of (ucast (drop_bit 8 w)) (ucast w) = w"
  unfolding word16_of_def
  by (rule bit_word_eqI) (auto simp: bit_simps)

lemma word16_of_be16_list [wire_simps]:
  "be16 w = [hi, lo] \<Longrightarrow> word16_of hi lo = w"
  by (auto simp: be16_def word16_of_be16)

lemma sint_word_of_int16 [wire_simps]:
  "- 32768 \<le> v \<Longrightarrow> v < 32768 \<Longrightarrow> sint (word_of_int v :: 16 word) = v"
  by (simp add: sint_sbintrunc' signed_take_bit_int_eq_self)

lemma uint_word_of_int16 [wire_simps]:
  "0 \<le> v \<Longrightarrow> v < 65536 \<Longrightarrow> uint (word_of_int v :: 16 word) = v"
  by (simp add: uint_word_of_int)

lemma sint_word_of_int16_wrap:
  "32768 \<le> v \<Longrightarrow> v < 65536 \<Longrightarrow> sint (word_of_int v :: 16 word) = v - 65536"
proof -
  assume a: "32768 \<le> v" "v < 65536"
  have "signed_take_bit 15 v = v - 65536"
  proof -
    have "signed_take_bit 15 v = take_bit 16 v - (if bit v 15 then 2 ^ 16 else 0)"
      by (simp add: signed_take_bit_eq_take_bit_minus)
    moreover have "take_bit 16 v = v"
      using a by (simp add: take_bit_int_eq_self)
    moreover have "bit v 15"
    proof -
      have "v div 2 ^ 15 = 1" using a by simp
      then show ?thesis by (simp add: bit_iff_odd)
    qed
    ultimately show ?thesis by simp
  qed
  then show ?thesis by (simp add: sint_sbintrunc')
qed

section \<open>Python string methods\<close>

text \<open>\<open>s.rstrip(chars)\<close> removes every trailing character that occurs in \<open>chars\<close>.\<close>

definition rstrip :: "'a list \<Rightarrow> 'a list \<Rightarrow> 'a list" where
  "rstrip cs s = rev (dropWhile (\<lambda>c. c \<in> set cs) (rev s))"

text \<open>\<open>s.endswith(suf)\<close>.\<close>

definition endswith :: "'a list \<Rightarrow> 'a list \<Rightarrow> bool" where
  "endswith s suf \<longleftrightarrow> length suf \<le> length s \<and> drop (length s - length suf) s = suf"

lemma endswith_iff_suffix [url_simps]: "endswith s suf \<longleftrightarrow> suffix suf s"
proof
  assume "endswith s suf"
  then have "s = take (length s - length suf) s @ suf"
    unfolding endswith_def by (metis append_take_drop_id)
  then show "suffix suf s" unfolding suffix_def by blast
next
  assume "suffix suf s"
  then obtain p where "s = p @ suf" by (auto simp: suffix_def)
  then show "endswith s suf" by (simp add: endswith_def)
qed

lemma endswith_append [url_simps]: "endswith (p @ suf) suf"
  by (simp add: endswith_def)

lemma rstrip_idem [url_simps]: "rstrip cs (rstrip cs s) = rstrip cs s"
  by (simp add: rstrip_def dropWhile_idem)

lemma rstrip_append_kept:
  assumes "set t \<subseteq> set cs" and "b = [] \<or> last b \<notin> set cs"
  shows "rstrip cs (b @ t) = b"
proof -
  have "dropWhile (\<lambda>c. c \<in> set cs) (rev t @ rev b) = rev b"
  proof (cases b rule: rev_cases)
    case Nil
    with assms(1) show ?thesis by (simp add: dropWhile_eq_Nil_conv subset_iff)
  next
    case (snoc b' x)
    with assms have "x \<notin> set cs" by simp
    with assms(1) snoc show ?thesis by (auto simp: dropWhile_append subset_iff)
  qed
  then show ?thesis by (simp add: rstrip_def)
qed

lemma rstrip_suffix: "\<exists>t. s = rstrip cs s @ t \<and> set t \<subseteq> set cs"
proof -
  let ?r = "rev s"
  have "?r = takeWhile (\<lambda>c. c \<in> set cs) ?r @ dropWhile (\<lambda>c. c \<in> set cs) ?r"
    by simp
  then have "s = rstrip cs s @ rev (takeWhile (\<lambda>c. c \<in> set cs) ?r)"
    unfolding rstrip_def by (metis rev_append rev_rev_ident)
  moreover have "set (rev (takeWhile (\<lambda>c. c \<in> set cs) ?r)) \<subseteq> set cs"
    by (auto dest: set_takeWhileD)
  ultimately show ?thesis by blast
qed

lemma rstrip_last: "rstrip cs s = [] \<or> last (rstrip cs s) \<notin> set cs"
proof (cases "dropWhile (\<lambda>c. c \<in> set cs) (rev s)")
  case Nil
  then show ?thesis by (simp add: rstrip_def)
next
  case (Cons x xs)
  then have "x \<notin> set cs" by (metis dropWhile_eq_Cons_conv)
  with Cons show ?thesis by (simp add: rstrip_def)
qed

text \<open>
  \<open>s.split(sep)\<close> for a non-empty separator: the pieces between the occurrences of
  \<open>sep\<close>, scanned from the left; the result is never empty.
\<close>

function split_on :: "'a list \<Rightarrow> 'a list \<Rightarrow> 'a list list" where
  "split_on sep s =
     (if s = [] \<or> sep = [] then [s]
      else if take (length sep) s = sep then [] # split_on sep (drop (length sep) s)
      else (case split_on sep (tl s) of
              [] \<Rightarrow> [[hd s]]
            | w # ws \<Rightarrow> (hd s # w) # ws))"
  by pat_completeness auto
termination
  by (relation "measure (\<lambda>(sep, s). length s)") auto

declare split_on.simps [simp del]

text \<open>Python's \<open>k in s\<close> for strings: \<open>k\<close> occurs contiguously in \<open>s\<close>, tried at
  every start position.\<close>

definition is_infix :: "'a list \<Rightarrow> 'a list \<Rightarrow> bool" where
  "is_infix k s \<longleftrightarrow> list_ex (\<lambda>i. take (length k) (drop i s) = k) [0..<Suc (length s)]"

lemma is_infix_iff_sublist [url_simps]: "is_infix k s \<longleftrightarrow> sublist k s"
proof
  assume "is_infix k s"
  then obtain i where "i \<in> set [0..<Suc (length s)]" and i: "take (length k) (drop i s) = k"
    unfolding is_infix_def list_ex_iff by blast
  from i have "s = take i s @ k @ drop (length k) (drop i s)"
    by (metis append_take_drop_id)
  then show "sublist k s" unfolding sublist_def by blast
next
  assume "sublist k s"
  then obtain ps ss where s: "s = ps @ k @ ss" by (auto simp: sublist_def)
  then have "length ps \<le> length s" "take (length k) (drop (length ps) s) = k" by simp_all
  then show "is_infix k s" unfolding is_infix_def list_ex_iff
    by (intro bexI [of _ "length ps"]) auto
qed

lemma split_on_nonempty [url_simps]: "split_on sep s \<noteq> []"
  by (subst split_on.simps) (auto split: list.split)

end
