(* ===== verification/Struct_Codec.thy ===== *)
theory Struct_Codec
  imports Prelude
begin

text \<open>
  The AJP13 string codec of \<open>src/TomcatScan.py\<close>: \<open>pack_string\<close> (lines 358-371),
  \<open>unpack\<close> (374-387) and \<open>unpack_string\<close> (390-405), over a model of the part of
  Python's \<open>struct\<close> module they use (big-endian formats built from \<open>b B h H ? Ns\<close>)
  and of \<open>str.encode('utf8')\<close>. A byte stream (\<open>io.BytesIO\<close>) is the list of its
  unread bytes; reading returns the rest of the stream.
\<close>

section \<open>Python's struct module, big-endian\<close>

datatype fmt_item = F_b | F_B | F_h | F_H | F_bool | F_s nat

text \<open>The Python values that go through \<open>struct\<close>: ints, bytes and bools.\<close>
datatype pyval = VInt int | VBytes bytes | VBool bool

fun item_size :: "fmt_item \<Rightarrow> nat" where
  "item_size F_b = 1"
| "item_size F_B = 1"
| "item_size F_h = 2"
| "item_size F_H = 2"
| "item_size F_bool = 1"
| "item_size (F_s n) = n"

definition calcsize :: "fmt_item list \<Rightarrow> nat" where
  "calcsize fmt = sum_list (map item_size fmt)"

text \<open>Integer formats accept ints and bools (a Python bool is an int).\<close>
fun as_int :: "pyval \<Rightarrow> int option" where
  "as_int (VInt v) = Some v"
| "as_int (VBool b) = Some (of_bool b)"
| "as_int (VBytes _) = None"

fun truthy :: "pyval \<Rightarrow> bool" where
  "truthy (VInt v) = (v \<noteq> 0)"
| "truthy (VBool b) = b"
| "truthy (VBytes bs) = (bs \<noteq> [])"

definition pack_int :: "int \<Rightarrow> int \<Rightarrow> (int \<Rightarrow> bytes) \<Rightarrow> pyval \<Rightarrow> py_error + bytes" where
  "pack_int lo hi enc v =
     (case as_int v of
        None \<Rightarrow> Inl StructError
      | Some i \<Rightarrow> if lo \<le> i \<and> i \<le> hi then Inr (enc i) else Inl StructError)"

text \<open>
  One field: a range check for the integer formats (\<open>struct.error\<close> outside it),
  two's complement bytes, and \<open>Ns\<close> truncating or zero-padding to \<open>N\<close> bytes.
\<close>
fun pack_item :: "fmt_item \<Rightarrow> pyval \<Rightarrow> py_error + bytes" where
  "pack_item F_b v = pack_int (- 128) 127 (\<lambda>i. [word_of_int i]) v"
| "pack_item F_B v = pack_int 0 255 (\<lambda>i. [word_of_int i]) v"
| "pack_item F_h v = pack_int (- 32768) 32767 (\<lambda>i. be16 (word_of_int i)) v"
| "pack_item F_H v = pack_int 0 65535 (\<lambda>i. be16 (word_of_int i)) v"
| "pack_item F_bool v = Inr [of_bool (truthy v)]"
| "pack_item (F_s n) (VBytes bs) = Inr (take n bs @ replicate (n - length bs) 0)"
| "pack_item (F_s n) _ = Inl StructError"

text \<open>\<open>struct.pack(fmt, *vs)\<close>: one value per field, else \<open>struct.error\<close>.\<close>
fun struct_pack :: "fmt_item list \<Rightarrow> pyval list \<Rightarrow> py_error + bytes" where
  "struct_pack [] [] = Inr []"
| "struct_pack (f # fs) (v # vs) =
     (case pack_item f v of
        Inl e \<Rightarrow> Inl e
      | Inr b \<Rightarrow> (case struct_pack fs vs of Inl e \<Rightarrow> Inl e | Inr bs \<Rightarrow> Inr (b @ bs)))"
| "struct_pack _ _ = Inl StructError"

text \<open>Reading one field from exactly \<open>item_size\<close> bytes.\<close>
fun unpack_item :: "fmt_item \<Rightarrow> bytes \<Rightarrow> pyval" where
  "unpack_item F_b bs = VInt (sint (hd bs))"
| "unpack_item F_B bs = VInt (uint (hd bs))"
| "unpack_item F_h bs = VInt (sint (word16_of (bs ! 0) (bs ! 1)))"
| "unpack_item F_H bs = VInt (uint (word16_of (bs ! 0) (bs ! 1)))"
| "unpack_item F_bool bs = VBool (hd bs \<noteq> 0)"
| "unpack_item (F_s n) bs = VBytes bs"

fun unpack_items :: "fmt_item list \<Rightarrow> bytes \<Rightarrow> pyval list" where
  "unpack_items [] bs = []"
| "unpack_items (f # fs) bs =
     unpack_item f (take (item_size f) bs) # unpack_items fs (drop (item_size f) bs)"

text \<open>\<open>struct.unpack(fmt, buf)\<close>: \<open>struct.error\<close> unless \<open>len(buf) == calcsize(fmt)\<close>.\<close>
definition struct_unpack :: "fmt_item list \<Rightarrow> bytes \<Rightarrow> py_error + pyval list" where
  "struct_unpack fmt buf =
     (if length buf = calcsize fmt then Inr (unpack_items fmt buf) else Inl StructError)"

section \<open>UTF-8 encoding of a str\<close>

fun utf8_char :: "nat \<Rightarrow> bytes" where
  "utf8_char c =
     (if c < 128 then [of_nat c]
      else if c < 2048 then [of_nat (192 + c div 64), of_nat (128 + c mod 64)]
      else if c < 65536 then
        [of_nat (224 + c div 4096), of_nat (128 + (c div 64) mod 64), of_nat (128 + c mod 64)]
      else [of_nat (240 + c div 262144), of_nat (128 + (c div 4096) mod 64),
            of_nat (128 + (c div 64) mod 64), of_nat (128 + c mod 64)])"

definition is_surrogate :: "nat \<Rightarrow> bool" where
  "is_surrogate c \<longleftrightarrow> 55296 \<le> c \<and> c < 57344"

text \<open>\<open>s.encode('utf8')\<close>: a lone surrogate raises \<open>UnicodeEncodeError\<close>.\<close>
definition utf8_encode :: "pystr \<Rightarrow> py_error + bytes" where
  "utf8_encode s =
     (if list_ex is_surrogate s then Inl UnicodeError else Inr (concat (map utf8_char s)))"

section \<open>The codec of the source\<close>

text \<open>
  \<open>pack_string(s)\<close>: \<open>None\<close> is the signed length -1; otherwise the length \<open>len(s)\<close>
  counted in code points, the \<open>len(s)\<close>-byte field \<open>%ds\<close> holding the UTF-8 bytes,
  and the terminator 0.
\<close>
definition pack_string :: "pystr option \<Rightarrow> py_error + bytes" where
  "pack_string s =
     (case s of
        None \<Rightarrow> struct_pack [F_h] [VInt (- 1)]
      | Some str \<Rightarrow>
          (let l = length str in
           case utf8_encode str of
             Inl e \<Rightarrow> Inl e
           | Inr enc \<Rightarrow> struct_pack [F_H, F_s l, F_b] [VInt (int l), VBytes enc, VInt 0]))"

text \<open>\<open>unpack(stream, fmt)\<close>: read \<open>calcsize(fmt)\<close> bytes (fewer at the end of the
  stream) and unpack them.\<close>
definition unpack :: "bytes \<Rightarrow> fmt_item list \<Rightarrow> py_error + pyval list \<times> bytes" where
  "unpack stream fmt =
     (let size = calcsize fmt; buf = take size stream in
      case struct_unpack fmt buf of
        Inl e \<Rightarrow> Inl e
      | Inr vs \<Rightarrow> Inr (vs, drop size stream))"

text \<open>
  \<open>unpack_string(stream)\<close>: a signed length, \<open>None\<close> for -1, otherwise that many bytes
  and one more byte (the terminator) read and discarded. A negative length other than -1
  makes the format \<open>"%ds" % size\<close> invalid: \<open>struct.error\<close>.
\<close>
definition unpack_string :: "bytes \<Rightarrow> py_error + bytes option \<times> bytes" where
  "unpack_string stream =
     (case unpack stream [F_h] of
        Inl e \<Rightarrow> Inl e
      | Inr ([VInt sz], rest) \<Rightarrow>
          (if sz = - 1 then Inr (None, rest)
           else if sz < 0 then Inl StructError
           else (case unpack rest [F_s (nat sz)] of
                   Inl e \<Rightarrow> Inl e
                 | Inr ([VBytes res], rest') \<Rightarrow> Inr (Some res, drop 1 rest')
                 | Inr _ \<Rightarrow> Inl StructError))
      | Inr _ \<Rightarrow> Inl StructError)"

text \<open>Struct formats with values as \<open>struct.unpack\<close> returns them.\<close>

fun item_canon :: "fmt_item \<Rightarrow> pyval \<Rightarrow> bool" where
  "item_canon F_b (VInt i) = (- 128 \<le> i \<and> i \<le> 127)"
| "item_canon F_B (VInt i) = (0 \<le> i \<and> i \<le> 255)"
| "item_canon F_h (VInt i) = (- 32768 \<le> i \<and> i \<le> 32767)"
| "item_canon F_H (VInt i) = (0 \<le> i \<and> i \<le> 65535)"
| "item_canon F_bool (VBool b) = True"
| "item_canon (F_s n) (VBytes bs) = (length bs = n)"
| "item_canon _ _ = False"

section \<open>Evaluation rules and helper lemmas\<close>

declare utf8_char.simps [simp del]

lemma utf8_char_length_cases [simp]:
  "length (utf8_char c) = (if c < 128 then 1 else if c < 2048 then 2 else if c < 65536 then 3 else 4)"
  by (simp add: utf8_char.simps)

lemma unpack_F_h [wire_simps]:
  "unpack stream [F_h] =
     (if 2 \<le> length stream
      then Inr ([VInt (sint (word16_of (stream ! 0) (stream ! 1)))], drop 2 stream)
      else Inl StructError)"
  by (auto simp: unpack_def struct_unpack_def calcsize_def min_def)

lemma unpack_F_s [wire_simps]:
  "unpack stream [F_s n] =
     (if n \<le> length stream then Inr ([VBytes (take n stream)], drop n stream)
      else Inl StructError)"
  by (auto simp: unpack_def struct_unpack_def calcsize_def min_def)

lemma unpack_string_be16 [wire_simps]:
  "unpack_string (be16 w @ rest) =
     (if sint w = - 1 then Inr (None, rest)
      else if sint w < 0 then Inl StructError
      else if length rest < nat (sint w) then Inl StructError
      else Inr (Some (take (nat (sint w)) rest), drop (Suc (nat (sint w))) rest))"
proof -
  obtain hi lo where hl: "be16 w = [hi, lo]" by (simp add: be16_def)
  then have "word16_of hi lo = w" by (rule word16_of_be16_list)
  with hl show ?thesis
    by (simp add: unpack_string_def unpack_F_h unpack_F_s)
qed

lemma unpack_string_short [wire_simps]:
  "length stream < 2 \<Longrightarrow> unpack_string stream = Inl StructError"
  by (simp add: unpack_string_def unpack_F_h)

lemma utf8_char_length: "1 \<le> length (utf8_char c)"
  by simp

lemma utf8_char_ascii: "length (utf8_char c) = 1 \<longleftrightarrow> c < 128"
  by simp

lemma utf8_concat_length: "length s \<le> length (concat (map utf8_char s))"
proof (induction s)
  case (Cons c s)
  have "1 \<le> length (utf8_char c)" by (rule utf8_char_length)
  with Cons.IH show ?case by simp
qed simp

lemma utf8_encode_length:
  "utf8_encode s = Inr enc \<Longrightarrow> length s \<le> length enc"
  using utf8_concat_length [of s] by (simp add: utf8_encode_def split: if_splits)

lemma utf8_concat_ascii:
  "list_all (\<lambda>c. c < 128) s \<Longrightarrow> concat (map utf8_char s) = map of_nat s"
  by (induction s) (auto simp: utf8_char.simps)

lemma utf8_encode_ascii:
  "list_all (\<lambda>c. c < 128) s \<Longrightarrow> utf8_encode s = Inr (map of_nat s)"
  by (auto simp: utf8_encode_def utf8_concat_ascii is_surrogate_def list_ex_iff list_all_iff)

lemma utf8_concat_non_ascii:
  "list_ex (\<lambda>c. 128 \<le> c) s \<Longrightarrow> length s < length (concat (map utf8_char s))"
proof (induction s)
  case (Cons c s)
  show ?case
  proof (cases "128 \<le> c")
    case True
    then have "2 \<le> length (utf8_char c)" by simp
    with utf8_concat_length [of s] show ?thesis by simp
  next
    case False
    with Cons have "length s < length (concat (map utf8_char s))" by simp
    moreover have "1 \<le> length (utf8_char c)" by (rule utf8_char_length)
    ultimately show ?thesis by simp
  qed
qed simp

lemma utf8_encode_non_ascii:
  "utf8_encode s = Inr enc \<Longrightarrow> list_ex (\<lambda>c. 128 \<le> c) s \<Longrightarrow> length s < length enc"
  using utf8_concat_non_ascii [of s] by (simp add: utf8_encode_def split: if_splits)

lemma pack_string_Some [wire_simps]:
  assumes "utf8_encode s = Inr enc"
  shows "pack_string (Some s) =
           (if length s \<le> 65535
            then Inr (be16 (word_of_nat (length s)) @ take (length s) enc @ [0])
            else Inl StructError)"
  using assms utf8_encode_length [OF assms]
  by (simp add: pack_string_def pack_int_def Let_def)

lemma pack_string_None: "pack_string None = Inr [255, 255]"
  by code_simp

lemma sint_word_of_nat16 [wire_simps]:
  "l \<le> 32767 \<Longrightarrow> sint (word_of_nat l :: 16 word) = int l"
  using sint_word_of_int16 [of "int l"] by simp

lemma pack_unpack_string_prefix:
  assumes enc: "utf8_encode s = Inr enc" and len: "length s \<le> 32767"
  shows "\<exists>bs. pack_string (Some s) = Inr bs \<and>
           unpack_string (bs @ rest) = Inr (Some (take (length s) enc), rest)"
proof -
  let ?l = "length s"
  have le: "?l \<le> length enc" using enc by (rule utf8_encode_length)
  have p: "pack_string (Some s) = Inr (be16 (word_of_nat ?l) @ take ?l enc @ [0])"
    using len by (simp add: pack_string_Some [OF enc])
  have "unpack_string ((be16 (word_of_nat ?l) @ take ?l enc @ [0]) @ rest) =
          Inr (Some (take ?l enc), rest)"
    using len le by (simp add: unpack_string_be16 sint_word_of_nat16 min_def)
  with p show ?thesis by blast
qed

lemma sint_word_of_int8:
  "- 128 \<le> v \<Longrightarrow> v < 128 \<Longrightarrow> sint (word_of_int v :: 8 word) = v"
  by (simp add: sint_sbintrunc' signed_take_bit_int_eq_self)

lemma pack_item_canon:
  "item_canon f v \<Longrightarrow>
     \<exists>b. pack_item f v = Inr b \<and> length b = item_size f \<and> unpack_item f b = v"
proof (induction f v rule: item_canon.induct)
  case (1 i)
  then show ?case by (simp add: pack_int_def sint_word_of_int8)
next
  case (2 i)
  then show ?case by (simp add: pack_int_def uint_word_of_int)
next
  case (3 i)
  obtain hi lo where hl: "be16 (word_of_int i :: 16 word) = [hi, lo]" by (simp add: be16_def)
  with 3 show ?case by (simp add: pack_int_def word16_of_be16_list sint_word_of_int16)
next
  case (4 i)
  obtain hi lo where hl: "be16 (word_of_int i :: 16 word) = [hi, lo]" by (simp add: be16_def)
  with 4 show ?case by (simp add: pack_int_def word16_of_be16_list uint_word_of_int16)
qed simp_all

lemma struct_pack_canon:
  "list_all2 item_canon fmt vs \<Longrightarrow>
     \<exists>bs. struct_pack fmt vs = Inr bs \<and> length bs = calcsize fmt \<and> unpack_items fmt bs = vs"
proof (induction rule: list_all2_induct)
  case Nil
  then show ?case by (simp add: calcsize_def)
next
  case (Cons f fmt v vs)
  from pack_item_canon [OF Cons.hyps(1)] obtain b where
    b: "pack_item f v = Inr b" "length b = item_size f" "unpack_item f b = v" by blast
  from Cons.IH obtain bs where
    bs: "struct_pack fmt vs = Inr bs" "length bs = calcsize fmt" "unpack_items fmt bs = vs" by blast
  from b bs show ?case by (simp add: calcsize_def)
qed

lemma take_shorter_neq: "n < length xs \<Longrightarrow> take n xs \<noteq> xs"
  by (metis length_take min.absorb4 nat_neq_iff)

section \<open>Properties of the codec\<close>

text \<open>C5: Round trip of \<open>pack_string\<close> and \<open>unpack_string\<close> for ASCII strings: a string of
  at most 32767 code points below 128 is packed, and reading the packed bytes from a stream
  gives back the string's bytes and leaves the stream just after the terminator.\<close>

theorem pack_unpack_string_ascii:
  assumes "list_all (\<lambda>c. c < 128) s" and "length s \<le> 32767"
  shows "\<exists>bs. pack_string (Some s) = Inr bs \<and>
           unpack_string (bs @ rest) = Inr (Some (map of_nat s), rest)"
  using pack_unpack_string_prefix [OF utf8_encode_ascii [OF assms(1)] assms(2)] by simp

theorem pack_unpack_string_ascii_witness:
  "list_all (\<lambda>c. c < 128) [104, 105 :: nat] \<and> length [104, 105 :: nat] \<le> 32767 \<and>
   pack_string (Some [104, 105]) = Inr [0, 2, 104, 105, 0] \<and>
   unpack_string ([0, 2, 104, 105, 0] @ [7]) = Inr (Some (map of_nat [104, 105]), [7])"
proof -
  have h: "list_all (\<lambda>c. c < 128) [104, 105 :: nat]" "length [104, 105 :: nat] \<le> 32767"
    by simp_all
  from pack_unpack_string_ascii [OF h, of "[7]"] obtain bs where
    "pack_string (Some [104, 105]) = Inr bs"
    "unpack_string (bs @ [7]) = Inr (Some (map of_nat [104, 105]), [7])" by blast
  moreover have "pack_string (Some [104, 105]) = Inr [0, 2, 104, 105, 0]"
    by (simp add: pack_string_Some utf8_encode_ascii be16_def)
  ultimately show ?thesis using h by simp
qed

text \<open>C6: \<open>pack_string\<close> writes the length in code points but the field of the UTF-8
  bytes is \<open>%ds\<close> with that length, so a string with a character beyond ASCII loses the
  tail of its encoding: decoding gives the first \<open>len(s)\<close> bytes of the encoding, which
  are not the encoding.\<close>

theorem pack_unpack_string_truncates:
  assumes "utf8_encode s = Inr enc" and "list_ex (\<lambda>c. 128 \<le> c) s" and "length s \<le> 32767"
  shows "\<exists>bs. pack_string (Some s) = Inr bs \<and>
           unpack_string (bs @ rest) = Inr (Some (take (length s) enc), rest) \<and>
           take (length s) enc \<noteq> enc"
proof -
  have "take (length s) enc \<noteq> enc"
    using utf8_encode_non_ascii [OF assms(1,2)] by (rule take_shorter_neq)
  with pack_unpack_string_prefix [OF assms(1,3)] show ?thesis by blast
qed

theorem pack_unpack_string_truncates_witness:
  "utf8_encode [233] = Inr [195, 169] \<and> list_ex (\<lambda>c. 128 \<le> c) [233 :: nat] \<and>
   length [233 :: nat] \<le> 32767 \<and>
   (\<exists>bs. pack_string (Some [233]) = Inr bs \<and>
         unpack_string (bs @ []) = Inr (Some (take 1 [195, 169]), []) \<and>
         take 1 [195, 169 :: byte] \<noteq> [195, 169])"
proof -
  have h: "utf8_encode [233] = Inr [195, 169]"
    by (simp add: utf8_encode_def is_surrogate_def utf8_char.simps)
  have h2: "list_ex (\<lambda>c. 128 \<le> c) [233 :: nat]" "length [233 :: nat] \<le> 32767" by simp_all
  show ?thesis using h h2 pack_unpack_string_truncates [OF h h2, of "[]"] by simp
qed

text \<open>C7: The length is packed unsigned (\<open>>H\<close>) but read back signed (\<open>>h\<close>): a string
  of 32768 to 65534 code points cannot be read back (\<open>struct.error\<close>), and one of 65535
  code points reads back as the null string, leaving its bytes in the stream.\<close>

theorem pack_unpack_string_long:
  assumes "utf8_encode s = Inr enc" and "32767 < length s" and "length s \<le> 65535"
  shows "\<exists>bs. pack_string (Some s) = Inr bs \<and>
           unpack_string (bs @ rest) =
             (if length s = 65535 then Inr (None, drop 2 bs @ rest) else Inl StructError)"
proof -
  let ?l = "length s"
  let ?bs = "be16 (word_of_nat ?l) @ take ?l enc @ [0]"
  have p: "pack_string (Some s) = Inr ?bs"
    using assms(3) by (simp add: pack_string_Some [OF assms(1)])
  have sw: "sint (word_of_nat ?l :: 16 word) = int ?l - 65536"
    using sint_word_of_int16_wrap [of "int ?l"] assms(2,3) by simp
  have "unpack_string (?bs @ rest) =
          (if ?l = 65535 then Inr (None, drop 2 ?bs @ rest) else Inl StructError)"
    using assms(2,3) by (simp add: unpack_string_be16 sw)
  with p show ?thesis by blast
qed

theorem pack_unpack_string_long_witness:
  "utf8_encode (replicate 65535 65) = Inr (replicate 65535 65) \<and>
   32767 < length (replicate 65535 (65 :: nat)) \<and> length (replicate 65535 (65 :: nat)) \<le> 65535 \<and>
   (\<exists>bs. pack_string (Some (replicate 65535 65)) = Inr bs \<and>
         unpack_string (bs @ []) = Inr (None, drop 2 bs @ []))"
proof -
  have h: "utf8_encode (replicate 65535 65) = Inr (replicate 65535 65)"
    using utf8_encode_ascii [of "replicate 65535 65"] by (simp add: list_all_iff)
  have h2: "32767 < length (replicate 65535 (65 :: nat))"
    "length (replicate 65535 (65 :: nat)) \<le> 65535" by simp_all
  show ?thesis using h h2 pack_unpack_string_long [OF h h2, of "[]"] by simp
qed

text \<open>The null string and the empty string have distinct encodings (length -1 with no
  data, against length 0 with the terminator), and each reads back as itself.\<close>

theorem pack_string_null_empty:
  "pack_string None = Inr [255, 255] \<and> pack_string (Some []) = Inr [0, 0, 0] \<and>
   unpack_string ([255, 255] @ rest) = Inr (None, rest) \<and>
   unpack_string ([0, 0, 0] @ rest) = Inr (Some [], rest)"
proof -
  have "pack_string (Some []) = Inr [0, 0, 0]"
    by (simp add: pack_string_Some utf8_encode_def be16_def)
  moreover have "unpack_string ([255, 255] @ rest) = Inr (None, rest)"
    by (simp add: unpack_string_def unpack_F_h word16_of_def)
  moreover have "unpack_string ([0, 0, 0] @ rest) = Inr (Some [], rest)"
    by (simp add: unpack_string_def unpack_F_h unpack_F_s word16_of_def)
  ultimately show ?thesis by (simp add: pack_string_None)
qed

text \<open>Decoding fails explicitly with \<open>struct.error\<close> when the stream holds fewer data
  bytes than the length field declares; it never returns a truncated string.\<close>

theorem unpack_string_short_stream:
  assumes "n \<le> 32767" and "length bs < n"
  shows "unpack_string (be16 (word_of_nat n) @ bs) = Inl StructError"
  using assms by (simp add: unpack_string_be16 sint_word_of_nat16)

theorem unpack_string_short_stream_witness:
  "(5 :: nat) \<le> 32767 \<and> length [1, 2 :: byte] < 5 \<and>
   unpack_string (be16 (word_of_nat 5) @ [1, 2]) = Inl StructError"
  using unpack_string_short_stream [of 5 "[1, 2]"] by simp

text \<open>\<open>unpack_string\<close> reads the byte after the data and discards it without checking
  it: whatever follows the data (a non-zero byte, or nothing at all) is accepted as the
  terminator.\<close>

theorem unpack_string_terminator_unchecked:
  assumes "length bs \<le> 32767"
  shows "unpack_string (be16 (word_of_nat (length bs)) @ bs @ t) = Inr (Some bs, drop 1 t)"
  using assms by (simp add: unpack_string_be16 sint_word_of_nat16)

theorem unpack_string_terminator_unchecked_witness:
  "length [104 :: byte] \<le> 32767 \<and>
   unpack_string (be16 (word_of_nat (length [104 :: byte])) @ [104] @ []) = Inr (Some [104], [])"
  using unpack_string_terminator_unchecked [of "[104]" "[]"] by simp

text \<open>Round trip of the struct model: values of the types and ranges a big-endian format
  describes are packed and unpacked back from a stream, which is left after the packed bytes.\<close>

theorem struct_pack_unpack_roundtrip:
  assumes "list_all2 item_canon fmt vs"
  shows "\<exists>bs. struct_pack fmt vs = Inr bs \<and> unpack (bs @ rest) fmt = Inr (vs, rest)"
proof -
  from struct_pack_canon [OF assms] obtain bs where
    bs: "struct_pack fmt vs = Inr bs" "length bs = calcsize fmt" "unpack_items fmt bs = vs" by blast
  then have "unpack (bs @ rest) fmt = Inr (vs, rest)"
    by (simp add: unpack_def struct_unpack_def)
  with bs show ?thesis by blast
qed

theorem struct_pack_unpack_roundtrip_witness:
  "list_all2 item_canon [F_h, F_s 2, F_b] [VInt (- 1), VBytes [1, 2], VInt 0] \<and>
   (\<exists>bs. struct_pack [F_h, F_s 2, F_b] [VInt (- 1), VBytes [1, 2], VInt 0] = Inr bs \<and>
         unpack (bs @ []) [F_h, F_s 2, F_b] = Inr ([VInt (- 1), VBytes [1, 2], VInt 0], []))"
proof -
  have h: "list_all2 item_canon [F_h, F_s 2, F_b] [VInt (- 1), VBytes [1, 2], VInt 0]" by simp
  show ?thesis using h struct_pack_unpack_roundtrip [OF h, of "[]"] by simp
qed

end
