(* ===== verification/Ajp.thy ===== *)
theory Ajp
  imports Prelude
begin

text \<open>
  The AJP13 forward request the CNVD-2020-10487 probe sends. The request object is the
  \<open>AjpForwardRequest\<close> class of the \<open>tomcatscan\<close> module (not in the repository's
  sources; its fields and constants follow the spec, section 4.2, and the AJP13
  protocol), and \<open>prepare_ajp_forward_request\<close> (\<open>src/TomcatScan.py\<close> lines
  408-463) fills it in. The request headers are a dict, kept as its items in insertion
  order; an attribute is the source's \<open>{'name': 'req_attribute', 'value': [k, v]}\<close>.
\<close>

datatype ajp_direction = SERVER_TO_CONTAINER | CONTAINER_TO_SERVER

text \<open>The AJP13 method codes (\<open>AjpForwardRequest.GET\<close> is 2).\<close>
datatype ajp_method = AJP_OPTIONS | AJP_GET | AJP_HEAD | AJP_POST | AJP_PUT | AJP_DELETE | AJP_TRACE

datatype ajp_attribute = Req_attribute string string

record ajp_forward_request =
  fr_direction :: ajp_direction
  fr_method :: ajp_method
  fr_protocol :: string
  fr_req_uri :: string
  fr_remote_addr :: "string option"
  fr_remote_host :: "string option"
  fr_server_name :: "string option"
  fr_server_port :: int
  fr_request_headers :: "(string \<times> string) list"
  fr_is_ssl :: bool
  fr_attributes :: "ajp_attribute list"

text \<open>The header dict of lines 444-454; \<open>SC_REQ_HOST\<close> is the target host (\<open>None\<close>
  when the URL has no host, printed as such).\<close>
definition forward_headers :: "string option \<Rightarrow> (string \<times> string) list" where
  "forward_headers target_host =
     [(''SC_REQ_ACCEPT'', ''text/html''), (''SC_REQ_CONNECTION'', ''keep-alive''),
      (''SC_REQ_CONTENT_LENGTH'', ''0''),
      (''SC_REQ_HOST'', case target_host of None \<Rightarrow> ''None'' | Some h \<Rightarrow> h),
      (''SC_REQ_USER_AGENT'', ''Mozilla''), (''Accept-Encoding'', ''gzip, deflate, sdch''),
      (''Accept-Language'', ''en-US,en;q=0.5''), (''Upgrade-Insecure-Requests'', ''1''),
      (''Cache-Control'', ''max-age=0'')]"

definition prepare_ajp_forward_request ::
    "string option \<Rightarrow> string \<Rightarrow> ajp_method \<Rightarrow> ajp_forward_request" where
  "prepare_ajp_forward_request target_host req_uri method =
     \<lparr>fr_direction = SERVER_TO_CONTAINER, fr_method = method, fr_protocol = ''HTTP/1.1'',
      fr_req_uri = req_uri, fr_remote_addr = target_host, fr_remote_host = None,
      fr_server_name = target_host, fr_server_port = 80,
      fr_request_headers = forward_headers target_host, fr_is_ssl = False,
      fr_attributes = []\<rparr>"

text \<open>One AJP exchange of \<open>Tomcat(host, port).perform_request\<close>: the connection's host
  and port and the request sent.\<close>
record ajp_call =
  ajp_host :: string
  ajp_port :: int
  ajp_request :: ajp_forward_request

text \<open>What the container answers: the body chunks between the headers packet and the
  end-of-response packet (\<open>responses[1:-1]\<close>), or a failure of the socket or of the
  protocol, which \<open>tomcatscan\<close> raises as an exception.\<close>
datatype ajp_outcome = Ajp_body "bytes list" | Ajp_failure

end
