(* ===== verification/Config.thy ===== *)
theory Config
  imports Prelude
begin

text \<open>
  The configuration as \<open>yaml.safe_load\<close> returns it (\<open>src/TomcatScan.py\<close> lines
  35-46): a tree of YAML values, with Python's \<open>key in value\<close>, \<open>value[key]\<close> and
  \<open>dict.get\<close> on it, and \<open>validate_config\<close> (lines 330-355), which checks that the
  required sections and fields are present; the conversions of a setting to an int
  (\<open>cfg_int\<close>) and the shell content lookup shared by the components that read the
  configuration. A mapping is the list of its items; keys
  are strings and a loaded mapping has no duplicate key, so lookup is \<open>map_of\<close>.
  Floats are not modelled (no field the scanner reads is a float).
\<close>

datatype yval = YNone | YBool bool | YInt int | YStr string | YList "yval list"
  | YMap "(string \<times> yval) list"

text \<open>\<open>k in v\<close> for a string \<open>k\<close>: key membership for a dict, substring for a str,
  element membership for a list, \<open>TypeError\<close> otherwise.\<close>
fun py_in :: "string \<Rightarrow> yval \<Rightarrow> py_error + bool" where
  "py_in k (YMap kvs) = Inr (k \<in> set (map fst kvs))"
| "py_in k (YStr s) = Inr (is_infix k s)"
| "py_in k (YList xs) = Inr (YStr k \<in> set xs)"
| "py_in k YNone = Inl TypeError"
| "py_in k (YBool b) = Inl TypeError"
| "py_in k (YInt i) = Inl TypeError"

text \<open>\<open>v[k]\<close> for a string \<open>k\<close>: \<open>KeyError\<close> for a missing key of a dict, \<open>TypeError\<close>
  for every other type (a str or list index must be an integer).\<close>
fun py_getitem :: "yval \<Rightarrow> string \<Rightarrow> py_error + yval" where
  "py_getitem (YMap kvs) k = (case map_of kvs k of None \<Rightarrow> Inl KeyError | Some v \<Rightarrow> Inr v)"
| "py_getitem YNone k = Inl TypeError"
| "py_getitem (YBool b) k = Inl TypeError"
| "py_getitem (YInt i) k = Inl TypeError"
| "py_getitem (YStr s) k = Inl TypeError"
| "py_getitem (YList xs) k = Inl TypeError"

text \<open>\<open>v.get(k, d)\<close>: only a dict has the method.\<close>
fun py_get :: "yval \<Rightarrow> string \<Rightarrow> yval \<Rightarrow> py_error + yval" where
  "py_get (YMap kvs) k d = Inr (case map_of kvs k of None \<Rightarrow> d | Some v \<Rightarrow> v)"
| "py_get YNone k d = Inl AttributeError"
| "py_get (YBool b) k d = Inl AttributeError"
| "py_get (YInt i) k d = Inl AttributeError"
| "py_get (YStr s) k d = Inl AttributeError"
| "py_get (YList xs) k d = Inl AttributeError"

text \<open>A chain of subscripts \<open>v[k1][k2]...\<close>, evaluated from the left.\<close>
fun lookup_path :: "yval \<Rightarrow> string list \<Rightarrow> py_error + yval" where
  "lookup_path v [] = Inr v"
| "lookup_path v (k # ks) = (case py_getitem v k of Inl e \<Rightarrow> Inl e | Inr v' \<Rightarrow> lookup_path v' ks)"

section \<open>validate_config\<close>

text \<open>The literal \<open>required_fields\<close> of lines 340-344, in its iteration order.\<close>
definition required_fields :: "(string \<times> string list) list" where
  "required_fields =
     [(''files'', [''url_file'', ''user_file'', ''passwd_file'', ''output_file'', ''shell_file_content'']),
      (''retry'', [''check_weak_password'', ''deploy_godzilla_war'']),
      (''thread_pool'', [''max_workers_limit'', ''min_workers'', ''combination_per_thread''])]"

text \<open>The inner loop of lines 350-353 over the fields of one section.\<close>
fun check_fields :: "yval \<Rightarrow> string list \<Rightarrow> py_error + bool" where
  "check_fields sec [] = Inr True"
| "check_fields sec (field # fields) =
     (case py_in field sec of
        Inl e \<Rightarrow> Inl e
      | Inr b \<Rightarrow> if \<not> b then Inr False else check_fields sec fields)"

text \<open>The outer loop of lines 346-353 over the sections.\<close>
fun check_sections :: "yval \<Rightarrow> (string \<times> string list) list \<Rightarrow> py_error + bool" where
  "check_sections config [] = Inr True"
| "check_sections config ((section, fields) # rs) =
     (case py_in section config of
        Inl e \<Rightarrow> Inl e
      | Inr b \<Rightarrow>
          if \<not> b then Inr False
          else (case py_getitem config section of
                  Inl e \<Rightarrow> Inl e
                | Inr sec \<Rightarrow>
                    (case check_fields sec fields of
                       Inl e \<Rightarrow> Inl e
                     | Inr c \<Rightarrow> if \<not> c then Inr False else check_sections config rs)))"

definition validate_config :: "yval \<Rightarrow> py_error + bool" where
  "validate_config config = check_sections config required_fields"

text \<open>A value used as an int (in a comparison, an arithmetic operation or a sleep): a
  bool is one; other values are not modelled as numbers and raise \<open>TypeError\<close>.\<close>
fun yval_int :: "yval \<Rightarrow> py_error + int" where
  "yval_int (YInt i) = Inr i"
| "yval_int (YBool b) = Inr (if b then 1 else 0)"
| "yval_int YNone = Inl TypeError"
| "yval_int (YStr s) = Inl TypeError"
| "yval_int (YList xs) = Inl TypeError"
| "yval_int (YMap kvs) = Inl TypeError"

definition cfg_int :: "yval \<Rightarrow> string list \<Rightarrow> py_error + int" where
  "cfg_int config path = rbind (lookup_path config path) yval_int"

text \<open>Python's truth value of a YAML value: \<open>None\<close>, \<open>False\<close>, \<open>0\<close> and empty
  strings, lists and dicts are false.\<close>
fun yval_truthy :: "yval \<Rightarrow> bool" where
  "yval_truthy YNone = False"
| "yval_truthy (YBool b) = b"
| "yval_truthy (YInt i) = (i \<noteq> 0)"
| "yval_truthy (YStr s) = (s \<noteq> [])"
| "yval_truthy (YList xs) = (xs \<noteq> [])"
| "yval_truthy (YMap kvs) = (kvs \<noteq> [])"

text \<open>\<open>config['files'].get('shell_file_content', ...)\<close> (lines 106 and 483). The default literal
  is never used once \<open>validate_config\<close> has required the key; it stands here as an
  opaque text.\<close>
definition default_shell_content :: string where
  "default_shell_content = ''<%-- default shell --%>''"

definition shell_content :: "yval \<Rightarrow> py_error + yval" where
  "shell_content config =
     (case py_getitem config ''files'' of
        Inl e \<Rightarrow> Inl e
      | Inr files_section \<Rightarrow> py_get files_section ''shell_file_content'' (YStr default_shell_content))"

text \<open>A YAML value is a mapping.\<close>
fun is_map :: "yval \<Rightarrow> bool" where
  "is_map (YMap kvs) = True"
| "is_map v = False"

text \<open>The configuration of the spec's section 6, every required key present.\<close>
definition cfg_example :: yval where
  "cfg_example =
     YMap [(''files'', YMap [(''url_file'', YStr ''url.txt''), (''user_file'', YStr ''user.txt''),
                             (''passwd_file'', YStr ''passwd.txt''), (''output_file'', YStr ''success.txt''),
                             (''shell_file_content'', YStr ''<%-- shell --%>'')]),
           (''retry'', YMap [(''check_weak_password'', YMap [(''max_retries'', YInt 3), (''retry_delay'', YInt 5)]),
                             (''deploy_godzilla_war'', YMap [(''max_retries'', YInt 3), (''retry_delay'', YInt 1)])]),
           (''thread_pool'', YMap [(''max_workers_limit'', YInt 50), (''min_workers'', YInt 5),
                                   (''combination_per_thread'', YInt 200)]),
           (''cnvd_2020_10487'', YMap [(''port'', YInt 8009), (''file_path'', YStr ''/WEB-INF/web.xml''),
                                      (''lfi_check'', YStr ''<web-app'')])]"

text \<open>Required sections and fields present, but the retry settings are null, the
  divisor is zero and the AJP section is missing.\<close>
definition cfg_minimal :: yval where
  "cfg_minimal =
     YMap [(''files'', YMap [(''url_file'', YStr ''url.txt''), (''user_file'', YStr ''user.txt''),
                             (''passwd_file'', YStr ''passwd.txt''), (''output_file'', YStr ''success.txt''),
                             (''shell_file_content'', YStr ''shell'')]),
           (''retry'', YMap [(''check_weak_password'', YNone), (''deploy_godzilla_war'', YNone)]),
           (''thread_pool'', YMap [(''max_workers_limit'', YInt 50), (''min_workers'', YInt 5),
                                   (''combination_per_thread'', YInt 0)])]"

section \<open>Lemmas\<close>

lemma check_fields_map: "check_fields (YMap kvs) fs = Inr (set fs \<subseteq> fst ` set kvs)"
  by (induction fs) auto

lemma lookup_path_single [simp]: "lookup_path v [k] = py_getitem v k"
  by (simp split: sum.split)

lemma lookup_path_two:
  "lookup_path (YMap kvs) [s, f] =
     (case map_of kvs s of None \<Rightarrow> Inl KeyError | Some v \<Rightarrow> py_getitem v f)"
  by (cases "map_of kvs s") (auto split: sum.split)

lemma getitem_map_ok: "(\<exists>v. py_getitem (YMap kvs) f = Inr v) \<longleftrightarrow> f \<in> fst ` set kvs"
proof
  assume "\<exists>v. py_getitem (YMap kvs) f = Inr v"
  then have "map_of kvs f \<noteq> None" by (auto split: option.splits)
  then show "f \<in> fst ` set kvs" by (simp add: map_of_eq_None_iff)
next
  assume "f \<in> fst ` set kvs"
  then obtain v where "map_of kvs f = Some v" by (metis map_of_eq_None_iff option.exhaust)
  then show "\<exists>v. py_getitem (YMap kvs) f = Inr v" by simp
qed

lemma shell_content_exc:
  "shell_content config = Inl e \<Longrightarrow> e \<in> {KeyError, TypeError, AttributeError}"
  by (cases config) (auto simp: shell_content_def split: option.splits sum.splits elim: py_get.elims)

lemma py_getitem_exc: "py_getitem v k = Inl e \<Longrightarrow> e \<in> {KeyError, TypeError}"
  by (cases v) (auto split: option.splits)

lemma lookup_path_exc: "lookup_path v p = Inl e \<Longrightarrow> e \<in> {KeyError, TypeError}"
  by (induction v p rule: lookup_path.induct) (auto split: sum.splits dest: py_getitem_exc)

lemma cfg_int_exc: "cfg_int config p = Inl e \<Longrightarrow> e \<in> {KeyError, TypeError}"
  by (cases "lookup_path config p") (auto simp: cfg_int_def dest: lookup_path_exc elim: yval_int.elims)

lemma cfg_example_deploy [simp]:
  "cfg_int cfg_example [''retry'', ''deploy_godzilla_war'', ''max_retries''] = Inr 3"
  "cfg_int cfg_example [''retry'', ''deploy_godzilla_war'', ''retry_delay''] = Inr 1"
  by (simp_all add: cfg_int_def cfg_example_def)

lemma shell_content_example [simp]: "shell_content cfg_example = Inr (YStr ''<%-- shell --%>'')"
  by (simp add: shell_content_def cfg_example_def)

lemma check_sections_map:
  assumes "\<forall>(s, fs)\<in>set rs. fs \<noteq> [] \<and> (\<forall>v. map_of kvs s = Some v \<longrightarrow> is_map v)"
  shows "check_sections (YMap kvs) rs =
           Inr (\<forall>(s, fs)\<in>set rs. \<forall>f\<in>set fs. \<exists>v. lookup_path (YMap kvs) [s, f] = Inr v)"
  using assms
proof (induction rs)
  case Nil
  then show ?case by simp
next
  case (Cons r rs)
  obtain s fs where r: "r = (s, fs)" by fastforce
  from Cons.prems r have ne: "fs \<noteq> []" and mp: "\<forall>v. map_of kvs s = Some v \<longrightarrow> is_map v" by auto
  from Cons.prems have IH: "check_sections (YMap kvs) rs =
           Inr (\<forall>(s, fs)\<in>set rs. \<forall>f\<in>set fs. \<exists>v. lookup_path (YMap kvs) [s, f] = Inr v)"
    by (intro Cons.IH) auto
  show ?case
  proof (cases "map_of kvs s")
    case None
    then have "s \<notin> fst ` set kvs" by (simp add: map_of_eq_None_iff)
    with None ne r show ?thesis by (auto simp: lookup_path_two)
  next
    case (Some v)
    with mp obtain kvs' where v: "v = YMap kvs'" by (cases v) auto
    from Some have s: "s \<in> fst ` set kvs" by (metis map_of_eq_None_iff option.distinct(1))
    have "(\<forall>f\<in>set fs. \<exists>v. lookup_path (YMap kvs) [s, f] = Inr v) \<longleftrightarrow>
          (\<forall>f\<in>set fs. \<exists>v. py_getitem (YMap kvs') f = Inr v)"
      using Some v by (simp only: lookup_path_two option.case)
    also have "\<dots> \<longleftrightarrow> set fs \<subseteq> fst ` set kvs'"
      using getitem_map_ok [of kvs'] by blast
    finally have "(\<forall>f\<in>set fs. \<exists>v. lookup_path (YMap kvs) [s, f] = Inr v) \<longleftrightarrow> set fs \<subseteq> fst ` set kvs'" .
    with Some v s r IH show ?thesis by (auto simp: check_fields_map)
  qed
qed

section \<open>Properties of validate_config\<close>

text \<open>C29: For a configuration that is a mapping whose required sections are mappings,
  \<open>validate_config\<close> returns \<open>True\<close> exactly when every required field of every
  required section can be read as \<open>config[section][field]\<close>.\<close>

theorem validate_config_iff:
  assumes "\<forall>s\<in>fst ` set required_fields. \<forall>v. lookup_path (YMap kvs) [s] = Inr v \<longrightarrow> is_map v"
  shows "validate_config (YMap kvs) =
           Inr (\<forall>(s, fs)\<in>set required_fields. \<forall>f\<in>set fs. \<exists>v. lookup_path (YMap kvs) [s, f] = Inr v)"
  unfolding validate_config_def
proof (rule check_sections_map)
  show "\<forall>(s, fs)\<in>set required_fields. fs \<noteq> [] \<and> (\<forall>v. map_of kvs s = Some v \<longrightarrow> is_map v)"
    using assms by (auto simp: required_fields_def)
qed

theorem validate_config_iff_witness:
  "validate_config cfg_example = Inr True"
proof -
  have h: "\<forall>s\<in>fst ` set required_fields. \<forall>v. lookup_path cfg_example [s] = Inr v \<longrightarrow> is_map v"
    by (simp add: required_fields_def cfg_example_def)
  show ?thesis using h validate_config_iff [OF h [unfolded cfg_example_def]]
    by (simp add: cfg_example_def required_fields_def)
qed

text \<open>\<open>validate_config\<close> tests membership with \<open>in\<close>, which is a substring test
  on a string: a configuration whose sections are strings naming the fields passes the
  validation, and reading a field from it then raises \<open>TypeError\<close>.\<close>

theorem validate_config_string_section:
  "validate_config (YMap [(''files'', YStr ''url_file user_file passwd_file output_file shell_file_content''),
       (''retry'', YStr ''check_weak_password deploy_godzilla_war''),
       (''thread_pool'', YStr ''max_workers_limit min_workers combination_per_thread'')]) = Inr True \<and>
   lookup_path (YMap [(''files'', YStr ''url_file user_file passwd_file output_file shell_file_content''),
       (''retry'', YStr ''check_weak_password deploy_godzilla_war''),
       (''thread_pool'', YStr ''max_workers_limit min_workers combination_per_thread'')]) [''files'', ''url_file''] = Inl TypeError"
  by (simp add: validate_config_def required_fields_def is_infix_def)

text \<open>An empty configuration file (\<open>yaml.safe_load\<close> returns \<open>None\<close>) makes
  \<open>validate_config\<close> raise \<open>TypeError\<close> instead of returning \<open>False\<close>.\<close>

theorem validate_config_none: "validate_config YNone = Inl TypeError"
  by (simp add: validate_config_def required_fields_def)


text \<open>\<open>validate_config\<close> checks only the first two levels of three sections: a
  configuration with null retry settings, a zero \<open>combination_per_thread\<close> and no
  \<open>cnvd_2020_10487\<close> section passes it, and the retry settings and the AJP port the
  scan reads next cannot be read.\<close>

theorem validate_config_unchecked:
  "validate_config cfg_minimal = Inr True \<and>
   lookup_path cfg_minimal [''retry'', ''check_weak_password'', ''max_retries''] = Inl TypeError \<and>
   lookup_path cfg_minimal [''cnvd_2020_10487'', ''port''] = Inl KeyError \<and>
   lookup_path cfg_minimal [''thread_pool'', ''combination_per_thread''] = Inr (YInt 0)"
  by (simp add: validate_config_def required_fields_def cfg_minimal_def)

end
