(* ===== verification/World.thy ===== *)
theory World
  imports Ajp Config
begin

text \<open>
  The environment the scanner's tasks act on, as explicit state. The network is an
  oracle: the reply to the \<open>n\<close>-th request a task sends may depend on \<open>n\<close> and on the
  request, so every theorem below holds for every behaviour of the servers. The world
  also records the requests sent (in order), the lines appended to the output file,
  the files present in the working directory, the results of
  \<open>generate_random_string\<close>, the delays slept, the AJP exchanges with their
  own oracle (the reply to the \<open>n\<close>-th exchange), the files whose deletion the system
  refuses, and the form encoding \<open>requests\<close> applies to a non-str request body. An operation of the source is a
  function \<open>world \<Rightarrow> (py_error + 'a) \<times> world\<close>: a Python exception is an \<open>Inl\<close>
  result, and the effects made before it stay in the returned world, as they do in
  Python.
\<close>

datatype http_method = GET | PUT | POST

record http_req =
  req_method :: http_method
  req_url :: string
  req_auth :: "(string \<times> string) option"
  req_cookie :: "string option"
  req_body :: string

text \<open>
  A reply: status code, cookies set, body text, and what BeautifulSoup's
  \<open>soup.find('input', {'type': 'file'})\<close> finds in the body: no such input, an input
  without a \<open>name\<close> attribute (\<open>Some None\<close>), or its name.
\<close>
record response =
  status :: int
  cookies :: "(string \<times> string) list"
  body :: string
  file_input :: "string option option"

datatype http_outcome = Reply response | Transport_error

record world =
  net :: "nat \<Rightarrow> http_req \<Rightarrow> http_outcome"
  sent :: "http_req list"
  sink :: "string list"
  sink_ok :: bool
  files :: "string set"
  fs_ro :: "string set"
  rnd :: "nat \<Rightarrow> string"
  rnd_n :: nat
  sleeps :: "int list"
  ajp_net :: "nat \<Rightarrow> ajp_call \<Rightarrow> ajp_outcome"
  ajp_sent :: "ajp_call list"
  rm_denied :: "string set"
  body_encode :: "yval \<Rightarrow> py_error + string"

type_synonym 'a eff = "world \<Rightarrow> (py_error + 'a) \<times> world"

definition eret :: "'a \<Rightarrow> 'a eff" where
  "eret a w = (Inr a, w)"

definition ebind :: "'a eff \<Rightarrow> ('a \<Rightarrow> 'b eff) \<Rightarrow> 'b eff" where
  "ebind m f w = (case m w of (Inl e, w') \<Rightarrow> (Inl e, w') | (Inr a, w') \<Rightarrow> f a w')"

text \<open>\<open>try: m except E: h\<close> for the exceptions \<open>E\<close> the handler's guard accepts.\<close>
definition ecatch :: "(py_error \<Rightarrow> bool) \<Rightarrow> 'a eff \<Rightarrow> (py_error \<Rightarrow> 'a eff) \<Rightarrow> 'a eff" where
  "ecatch E m h w = (case m w of (Inl e, w') \<Rightarrow> (if E e then h e w' else (Inl e, w')) | r \<Rightarrow> r)"

section \<open>Primitive effects\<close>

text \<open>
  \<open>requests.get/put/post\<close>: the request is recorded; a transport failure raises
  \<open>RequestException\<close>.
\<close>
definition http :: "http_req \<Rightarrow> response eff" where
  "http r w =
     (let w' = w\<lparr>sent := sent w @ [r]\<rparr> in
      case net w (length (sent w)) r of
        Reply resp \<Rightarrow> (Inr resp, w')
      | Transport_error \<Rightarrow> (Inl RequestException, w'))"

text \<open>\<open>response.raise_for_status()\<close>: \<open>HTTPError\<close> (a \<open>RequestException\<close>) for 4xx and 5xx.\<close>
definition raise_for_status :: "response \<Rightarrow> unit eff" where
  "raise_for_status r = (if 400 \<le> status r \<and> status r < 600 then (\<lambda>w. (Inl RequestException, w))
                         else eret ())"

text \<open>\<open>with open(output_file, 'a') as f: f.write(line + "\n")\<close>.\<close>
definition append_line :: "string \<Rightarrow> unit eff" where
  "append_line l w = (if sink_ok w then (Inr (), w\<lparr>sink := sink w @ [l]\<rparr>) else (Inl OSError, w))"

text \<open>Creating a file in the working directory.\<close>
definition write_file :: "string \<Rightarrow> unit eff" where
  "write_file f w = (if f \<in> fs_ro w then (Inl OSError, w) else (Inr (), w\<lparr>files := insert f (files w)\<rparr>))"

text \<open>\<open>os.remove(f)\<close>: \<open>FileNotFoundError\<close> for a missing file and
  \<open>PermissionError\<close> for a file the system refuses to delete (both \<open>OSError\<close>).\<close>
definition remove_file :: "string \<Rightarrow> unit eff" where
  "remove_file f w =
     (if f \<notin> files w \<or> f \<in> rm_denied w then (Inl OSError, w)
      else (Inr (), w\<lparr>files := files w - {f}\<rparr>))"

text \<open>\<open>open(f, 'rb')\<close> of a file that must exist.\<close>
definition open_file :: "string \<Rightarrow> unit eff" where
  "open_file f w = (if f \<in> files w then (Inr (), w) else (Inl OSError, w))"

text \<open>\<open>generate_random_string()\<close> (lines 82-92): the next value of the random source.\<close>
definition generate_random_string :: "string eff" where
  "generate_random_string w = (Inr (rnd w (rnd_n w)), w\<lparr>rnd_n := Suc (rnd_n w)\<rparr>)"

text \<open>The largest delay in seconds \<open>time.sleep\<close> accepts: CPython converts it to a
  signed 64-bit count of nanoseconds.\<close>
definition sleep_max :: int where
  "sleep_max = (2 ^ 63 - 1) div 10 ^ 9"

text \<open>\<open>time.sleep(d)\<close> of an int: the conversion raises \<open>OverflowError\<close> when
  \<open>d\<close> nanoseconds do not fit, then a negative delay raises \<open>ValueError\<close>.\<close>
definition sleep :: "int \<Rightarrow> unit eff" where
  "sleep d w =
     (if d < - sleep_max \<or> sleep_max < d then (Inl OverflowError, w)
      else if d < 0 then (Inl ValueError, w)
      else (Inr (), w\<lparr>sleeps := sleeps w @ [d]\<rparr>))"

text \<open>\<open>Tomcat(host, port)\<close> and \<open>perform_request\<close> of the \<open>tomcatscan\<close> module: the
  exchange is recorded; a failure raises (\<open>OSError\<close> stands for every exception the
  module raises, all of which the probe catches).\<close>
definition ajp_exchange :: "ajp_call \<Rightarrow> bytes list eff" where
  "ajp_exchange c w =
     (let w' = w\<lparr>ajp_sent := ajp_sent w @ [c]\<rparr> in
      case ajp_net w (length (ajp_sent w)) c of
        Ajp_body data \<Rightarrow> (Inr data, w')
      | Ajp_failure \<Rightarrow> (Inl OSError, w'))"

text \<open>A value computed by code that may raise, lifted to an operation.\<close>
definition eret_r :: "py_error + 'a \<Rightarrow> 'a eff" where
  "eret_r r w = (r, w)"

section \<open>Lemmas\<close>

named_theorems eff_simps "unfolding rules of the effect combinators"

lemmas [eff_simps] = eret_def ebind_def ecatch_def http_def raise_for_status_def append_line_def
  write_file_def remove_file_def open_file_def generate_random_string_def sleep_def sleep_max_def
  ajp_exchange_def eret_r_def

lemma sleep_ok:
  "0 \<le> d \<Longrightarrow> d \<le> sleep_max \<Longrightarrow> sleep d w = (Inr (), w\<lparr>sleeps := sleeps w @ [d]\<rparr>)"
  by (simp add: sleep_def)

lemma sleep_Inl:
  "sleep d w = (Inl e, w') \<Longrightarrow> w' = w \<and> e \<in> {ValueError, OverflowError} \<and> \<not> (0 \<le> d \<and> d \<le> sleep_max)"
  by (auto simp: sleep_def split: if_splits)

lemma sleep_Inr: "sleep d w = (Inr u, w') \<Longrightarrow> w' = w\<lparr>sleeps := sleeps w @ [d]\<rparr>"
  by (auto simp: sleep_def split: if_splits)

text \<open>A request changes nothing but the record of requests sent.\<close>

lemma http_world:
  "http r w = (x, w') \<Longrightarrow> w' = w\<lparr>sent := sent w @ [r]\<rparr>"
  by (cases "net w (length (sent w)) r") (simp_all add: http_def)

lemma http_Inr:
  "http r w = (Inr resp, w') \<Longrightarrow> net w (length (sent w)) r = Reply resp"
  by (cases "net w (length (sent w)) r") (simp_all add: http_def)

lemma http_Inl:
  "http r w = (Inl e, w') \<Longrightarrow> e = RequestException \<and> net w (length (sent w)) r = Transport_error"
  by (cases "net w (length (sent w)) r") (simp_all add: http_def)

lemma http_reply:
  "net w (length (sent w)) r = Reply resp \<Longrightarrow> http r w = (Inr resp, w\<lparr>sent := sent w @ [r]\<rparr>)"
  by (simp add: http_def)

lemma http_transport_error:
  "net w (length (sent w)) r = Transport_error \<Longrightarrow>
     http r w = (Inl RequestException, w\<lparr>sent := sent w @ [r]\<rparr>)"
  by (simp add: http_def)

end
