(* ===== verification/Url.thy ===== *)
theory Url
  imports Prelude
begin

text \<open>
  The URL handling of \<open>src/TomcatScan.py\<close>: \<open>clean_url\<close> (lines 67-78), which the CVE
  probe and the WAR deployment apply to a target, the normalisation of a target to its
  manager-console URL at the start of \<open>check_weak_password\<close> (lines 255-259), and the
  host part written in a result line by \<open>detect_and_check\<close> (line 569). URLs are
  \<open>string\<close>s (the scanner reads them from a text file).
\<close>

definition manager_path :: string where
  "manager_path = ''/manager/html''"

text \<open>
  \<open>url.rstrip('/manager/html')\<close>: Python's \<open>rstrip\<close> takes a set of characters, not a
  suffix, so this strips every trailing character among \<open>/ m a n g e r h t l\<close>.
\<close>
definition clean_url :: "string \<Rightarrow> string" where
  "clean_url url = rstrip manager_path url"

text \<open>
  \<open>base_url = url.rstrip('/')\<close>; the manager path is appended unless \<open>base_url\<close>
  already ends with it, in which case the URL is kept as given (trailing slashes included).
\<close>
definition url_with_path :: "string \<Rightarrow> string" where
  "url_with_path url =
     (let base_url = rstrip ''/'' url in
      if \<not> endswith base_url manager_path then base_url @ manager_path else url)"

text \<open>\<open>url.split("://")[-1].split("/")[0]\<close>.\<close>
definition target_host :: "string \<Rightarrow> string" where
  "target_host url = hd (split_on ''/'' (last (split_on ''://'' url)))"

section \<open>Lemmas\<close>

lemma manager_path_set: "set manager_path = {CHR ''/'', CHR ''m'', CHR ''a'', CHR ''n'',
    CHR ''g'', CHR ''e'', CHR ''r'', CHR ''h'', CHR ''t'', CHR ''l''}"
  by (auto simp: manager_path_def)

lemma rstrip_slash_manager [url_simps]: "rstrip ''/'' (b @ manager_path) = b @ manager_path"
  by (rule rstrip_append_kept [where t = "[]", simplified]) (simp add: manager_path_def)

lemma url_with_path_cases:
  "url_with_path url = url \<or> url_with_path url = rstrip ''/'' url @ manager_path"
  by (auto simp: url_with_path_def Let_def)

lemma clean_url_append_manager:
  "clean_url (b @ manager_path) = rstrip manager_path b"
proof -
  obtain t where t: "b = rstrip manager_path b @ t" "set t \<subseteq> set manager_path"
    using rstrip_suffix [of b manager_path] by blast
  have tm: "set (t @ manager_path) \<subseteq> set manager_path" using t(2) by simp
  have k: "rstrip manager_path (rstrip manager_path b @ (t @ manager_path)) = rstrip manager_path b"
    using tm rstrip_last [of manager_path b] by (rule rstrip_append_kept)
  have e: "b @ manager_path = rstrip manager_path b @ (t @ manager_path)"
    using t(1) by (metis append.assoc)
  show ?thesis unfolding clean_url_def e by (rule k)
qed

lemma url_with_path_ends:
  "endswith (rstrip ''/'' (url_with_path url)) manager_path"
proof (cases "endswith (rstrip ''/'' url) manager_path")
  case True
  then have "url_with_path url = url" by (simp add: url_with_path_def Let_def)
  with True show ?thesis by simp
next
  case False
  then have "url_with_path url = rstrip ''/'' url @ manager_path"
    by (simp add: url_with_path_def Let_def)
  then show ?thesis by (simp only: rstrip_slash_manager endswith_append)
qed

lemma rstrip_shorter:
  assumes "b \<noteq> []" and "last b \<in> set cs"
  shows "length (rstrip cs b) < length b"
proof -
  obtain t where t: "b = rstrip cs b @ t" "set t \<subseteq> set cs"
    using rstrip_suffix [of b cs] by blast
  have "t \<noteq> []"
  proof
    assume "t = []"
    with t(1) have "rstrip cs b = b" by simp
    with rstrip_last [of cs b] assms show False by simp
  qed
  then have "length (rstrip cs b) < length (rstrip cs b @ t)" by simp
  with t(1) show ?thesis by simp
qed

lemma rstrip_keeps: "b = [] \<or> last b \<notin> set cs \<Longrightarrow> rstrip cs b = b"
  using rstrip_append_kept [of "[]" cs b] by simp

section \<open>Properties of the URL handling\<close>

text \<open>C26: Normalising a target to its manager-console URL is idempotent: applying the
  normalisation of \<open>check_weak_password\<close> to its own result changes nothing.\<close>

theorem url_with_path_idem: "url_with_path (url_with_path url) = url_with_path url"
proof (cases "url_with_path url = url")
  case True
  then show ?thesis by simp
next
  case False
  then have e: "url_with_path url = rstrip ''/'' url @ manager_path"
    using url_with_path_cases by blast
  have "endswith (rstrip ''/'' (rstrip ''/'' url @ manager_path)) manager_path"
    by (simp only: rstrip_slash_manager endswith_append)
  then show ?thesis unfolding e by (simp add: url_with_path_def Let_def)
qed

text \<open>C18: \<open>clean_url\<close> strips a character set, not the suffix \<open>/manager/html\<close>: for a
  base URL ending in one of \<open>/ m a n g e r h t l\<close> (a host such as \<open>localhost\<close> or
  \<open>example.com\<close>), cleaning the manager URL built from it cuts into the base URL itself.\<close>

theorem clean_url_strips_host:
  assumes "b \<noteq> []" and "last b \<in> set manager_path"
  shows "clean_url (b @ manager_path) = rstrip manager_path b \<and>
         length (clean_url (b @ manager_path)) < length b"
  using rstrip_shorter [OF assms] by (simp add: clean_url_append_manager)

theorem clean_url_strips_host_witness:
  "''http://localhost'' \<noteq> [] \<and> last ''http://localhost'' \<in> set manager_path \<and>
   clean_url (''http://localhost'' @ manager_path) = ''http://localhos''"
proof -
  have h: "''http://localhost'' \<noteq> []" "last ''http://localhost'' \<in> set manager_path"
    by (simp_all add: manager_path_def)
  have "rstrip manager_path ''http://localhost'' = ''http://localhos''"
    by (simp add: rstrip_def manager_path_def)
  with h clean_url_strips_host [OF h] show ?thesis by simp
qed

text \<open>For a base URL that does not end in one of the stripped characters (a host given
  by an IP address and port, for instance), \<open>clean_url\<close> undoes the manager-path
  normalisation: the deployment and the CVE probe address the base URL the user gave.\<close>

theorem clean_url_url_with_path:
  assumes "b \<noteq> []" and "last b \<notin> set manager_path"
  shows "clean_url (url_with_path b) = b"
proof -
  have sl: "last b \<notin> set ''/''" using assms(2) by (auto simp: manager_path_def)
  then have r: "rstrip ''/'' b = b" using rstrip_keeps by blast
  have "\<not> endswith b manager_path"
  proof
    assume "endswith b manager_path"
    then obtain p where "b = p @ manager_path" by (auto simp: endswith_iff_suffix suffix_def)
    with assms(2) show False by (simp add: manager_path_def)
  qed
  with r have "url_with_path b = b @ manager_path" by (simp add: url_with_path_def Let_def)
  moreover have "rstrip manager_path b = b" using assms(2) by (intro rstrip_keeps) simp
  ultimately show ?thesis by (simp add: clean_url_append_manager)
qed

theorem clean_url_url_with_path_witness:
  "''http://10.0.0.2:8080'' \<noteq> [] \<and> last ''http://10.0.0.2:8080'' \<notin> set manager_path \<and>
   clean_url (url_with_path ''http://10.0.0.2:8080'') = ''http://10.0.0.2:8080''"
proof -
  have h: "''http://10.0.0.2:8080'' \<noteq> []" "last ''http://10.0.0.2:8080'' \<notin> set manager_path"
    by (simp_all add: manager_path_def)
  with clean_url_url_with_path [OF h] show ?thesis by simp
qed

end
