(* ===== verification/Webshell.thy ===== *)
theory Webshell
  imports World Url Config
begin

text \<open>
  The webshell deployment of \<open>src/TomcatScan.py\<close>: \<open>generate_war\<close> (lines 96-126)
  reads the shell content from the configuration, writes a temporary JSP, packs it into a WAR and deletes the JSP;
  \<open>get_jsessionid_and_csrf_nonce\<close> (130-166) logs into the manager console and reads
  the session cookie, the CSRF nonce and the upload field's name; \<open>deploy_godzilla_war\<close>
  (170-235) uploads the WAR with up to \<open>max_retries\<close> attempts, checks that the shell
  answers, appends a result line, and deletes the WAR. The WAR's content is not modelled
  (only its file); the request headers and timeouts are not modelled.
\<close>

section \<open>generate_war\<close>

text \<open>\<open>jsp_file.write(shell_content)\<close> on a text file: anything but a \<open>str\<close> raises
  \<open>TypeError\<close> (the file has already been created by \<open>open\<close>).\<close>
definition jsp_write :: "yval \<Rightarrow> unit eff" where
  "jsp_write v = (case v of YStr s \<Rightarrow> eret () | _ \<Rightarrow> eret_r (Inl TypeError))"

definition generate_war :: "yval \<Rightarrow> (string \<times> string \<times> string) option eff" where
  "generate_war config =
     ebind (eret_r (shell_content config)) (\<lambda>content.
     ebind generate_random_string (\<lambda>random_string.
     ebind generate_random_string (\<lambda>name.
       (let war_file_name = random_string @ ''.war'';
            shell_file_name = name @ ''.jsp''
        in ecatch (\<lambda>e. True)
             (ebind (write_file shell_file_name) (\<lambda>_.
              ebind (jsp_write content) (\<lambda>_.
              ebind (write_file war_file_name) (\<lambda>_.
              ebind (remove_file shell_file_name) (\<lambda>_.
              eret (Some (war_file_name, random_string, shell_file_name)))))))
             (\<lambda>e. eret None)))))"

section \<open>get_jsessionid_and_csrf_nonce\<close>

definition csrf_prefix :: string where
  "csrf_prefix = ''org.apache.catalina.filters.CSRF_NONCE=''"

definition is_nonce_char :: "char \<Rightarrow> bool" where
  "is_nonce_char c \<longleftrightarrow> c \<in> set ''ABCDEF0123456789''"

text \<open>
  \<open>re.search(r'org\.apache\.catalina\.filters\.CSRF_NONCE=([A-F0-9]+)', text)\<close>: the
  leftmost occurrence of the prefix followed by at least one upper-case hex digit, and
  the longest run of such digits there.
\<close>
fun csrf_nonce_search :: "string \<Rightarrow> string option" where
  "csrf_nonce_search [] = None"
| "csrf_nonce_search (c # cs) =
     (let s = c # cs; h = takeWhile is_nonce_char (drop (length csrf_prefix) s) in
      if take (length csrf_prefix) s = csrf_prefix \<and> h \<noteq> [] then Some h
      else csrf_nonce_search cs)"

definition manager_get :: "string \<Rightarrow> string \<Rightarrow> string \<Rightarrow> http_req" where
  "manager_get url username password =
     \<lparr>req_method = GET, req_url = url @ manager_path, req_auth = Some (username, password),
      req_cookie = None, req_body = []\<rparr>"

text \<open>\<open>RequestsCookieJar.get(name)\<close> on the cookies of a reply (the jar's cookies, one
  per name, domain and path): the value of the only cookie of that name, \<open>None\<close>
  without one, and \<open>CookieConflictError\<close> when the jar holds two (set for different
  paths or domains).\<close>
definition jar_get :: "(string \<times> string) list \<Rightarrow> string \<Rightarrow> py_error + string option" where
  "jar_get jar name =
     (case filter (\<lambda>(n, v). n = name) jar of
        [] \<Rightarrow> Inr None
      | [(n, v)] \<Rightarrow> Inr (Some v)
      | _ \<Rightarrow> Inl CookieConflictError)"

text \<open>
  The login: a reply without a (non-empty) \<open>JSESSIONID\<close> cookie is a failure, an error
  status raises in \<open>raise_for_status\<close> and is caught as a failure, an upload input
  without a \<open>name\<close> attribute raises \<open>KeyError\<close> and a duplicated \<open>JSESSIONID\<close>
  cookie \<open>CookieConflictError\<close>, neither of which is caught.
\<close>
definition get_jsessionid_and_csrf_nonce ::
    "string \<Rightarrow> string \<Rightarrow> string \<Rightarrow> (string option \<times> string option \<times> string option \<times> bool) eff" where
  "get_jsessionid_and_csrf_nonce url username password =
     ecatch (\<lambda>e. e = RequestException)
       (ebind (http (manager_get url username password)) (\<lambda>response.
        ebind (raise_for_status response) (\<lambda>_.
        ebind (eret_r (jar_get (cookies response) ''JSESSIONID'')) (\<lambda>jar_value.
        (case jar_value of
           None \<Rightarrow> eret (None, None, None, False)
         | Some jsessionid \<Rightarrow>
             if jsessionid = [] then eret (None, None, None, False)
             else
               (let csrf_nonce = csrf_nonce_search (body response) in
                case file_input response of
                  None \<Rightarrow> eret (Some jsessionid, csrf_nonce, Some ''file'', True)
                | Some None \<Rightarrow> (\<lambda>w. (Inl KeyError, w))
                | Some (Some n) \<Rightarrow> eret (Some jsessionid, csrf_nonce, Some n, True)))))))
       (\<lambda>e. eret (None, None, None, False))"

section \<open>deploy_godzilla_war\<close>

text \<open>What one upload attempt needs: the cleaned URL, the credentials, the tokens of the
  login and the names \<open>generate_war\<close> chose.\<close>
record deploy_ctx =
  d_url :: string
  d_username :: string
  d_password :: string
  d_jsessionid :: "string option"
  d_csrf_nonce :: "string option"
  d_file_field :: "string option"
  d_war :: string
  d_random :: string
  d_shell :: string

text \<open>An f-string of an optional value: \<open>None\<close> is printed as \<open>None\<close>.\<close>
definition py_str_opt :: "string option \<Rightarrow> string" where
  "py_str_opt v = (case v of None \<Rightarrow> ''None'' | Some s \<Rightarrow> s)"

definition upload_req :: "deploy_ctx \<Rightarrow> http_req" where
  "upload_req c =
     \<lparr>req_method = POST,
      req_url = d_url c @ ''/manager/html/upload?'' @ csrf_prefix @ py_str_opt (d_csrf_nonce c),
      req_auth = Some (d_username c, d_password c), req_cookie = d_jsessionid c,
      req_body = py_str_opt (d_file_field c) @ '':'' @ d_war c\<rparr>"

definition shell_url :: "deploy_ctx \<Rightarrow> string" where
  "shell_url c = d_url c @ ''/'' @ d_random c @ ''/'' @ d_shell c"

definition shell_get :: "deploy_ctx \<Rightarrow> http_req" where
  "shell_get c =
     \<lparr>req_method = GET, req_url = shell_url c, req_auth = Some (d_username c, d_password c),
      req_cookie = d_jsessionid c, req_body = []\<rparr>"

definition webshell_line :: "deploy_ctx \<Rightarrow> string" where
  "webshell_line c =
     d_url c @ '' '' @ d_username c @ '':'' @ d_password c @ '' - Webshell: '' @ shell_url c"

text \<open>The body of the \<open>try\<close> of one attempt (lines 204-221).\<close>
definition upload_once :: "deploy_ctx \<Rightarrow> unit eff" where
  "upload_once c =
     ebind (open_file (d_war c)) (\<lambda>_.
     ebind (http (upload_req c)) (\<lambda>response.
     ebind (raise_for_status response) (\<lambda>_.
     ebind (http (shell_get c)) (\<lambda>shell_response.
       if status shell_response = 200 then append_line (webshell_line c) else eret ()))))"

text \<open>
  The retry loop (lines 201-228): a \<open>RequestException\<close> in an attempt counts it and, if
  another attempt remains, sleeps (outside the \<open>try\<close>, so an exception of
  \<open>time.sleep\<close> leaves the function); an attempt that gets through ends the loop
  (\<open>break\<close>); any other exception leaves the function.
\<close>
function upload_loop :: "deploy_ctx \<Rightarrow> int \<Rightarrow> int \<Rightarrow> nat \<Rightarrow> world \<Rightarrow> (py_error + unit) \<times> world" where
  "upload_loop c max_retries retry_delay attempt w =
     (if int attempt < max_retries then
        (case upload_once c w of
           (Inr u, w1) \<Rightarrow> (Inr (), w1)
         | (Inl e, w1) \<Rightarrow>
             if e = RequestException then
               (if int (Suc attempt) < max_retries then
                  (case sleep retry_delay w1 of
                     (Inl e', w2) \<Rightarrow> (Inl e', w2)
                   | (Inr u, w2) \<Rightarrow> upload_loop c max_retries retry_delay (Suc attempt) w2)
                else upload_loop c max_retries retry_delay (Suc attempt) w1)
             else (Inl e, w1))
      else (Inr (), w))"
  by pat_completeness auto
termination
  by (relation "measure (\<lambda>(c, mr, rd, a, w). nat (mr - int a))") auto

text \<open>\<open>if os.path.isfile(war): os.remove(war)\<close>, an \<open>OSError\<close> only logged.\<close>
definition cleanup_war :: "string \<Rightarrow> unit eff" where
  "cleanup_war war w =
     (if war \<in> files w then ecatch (\<lambda>e. e = OSError) (remove_file war) (\<lambda>_. eret ()) w
      else (Inr (), w))"

definition deploy_godzilla_war ::
    "string \<Rightarrow> string \<Rightarrow> string \<Rightarrow> string \<Rightarrow> string \<Rightarrow> string \<Rightarrow> int \<Rightarrow> int \<Rightarrow> unit eff" where
  "deploy_godzilla_war url0 username password war_file_path random_string shell_file_name
       max_retries retry_delay w =
     (let url = clean_url url0 in
      case get_jsessionid_and_csrf_nonce url username password w of
        (Inl e, w1) \<Rightarrow> (Inl e, w1)
      | (Inr tokens, w1) \<Rightarrow>
          (case tokens of (jsessionid, csrf_nonce, file_field_name, success) \<Rightarrow>
            if \<not> success then cleanup_war war_file_path w1
            else
              (let c = \<lparr>d_url = url, d_username = username, d_password = password,
                         d_jsessionid = jsessionid, d_csrf_nonce = csrf_nonce,
                         d_file_field = file_field_name, d_war = war_file_path,
                         d_random = random_string, d_shell = shell_file_name\<rparr>
               in case upload_loop c max_retries retry_delay 0 w1 of
                    (Inl e, w2) \<Rightarrow> (Inl e, w2)
                  | (Inr u, w2) \<Rightarrow> cleanup_war war_file_path w2)))"

declare upload_loop.simps [simp del]

section \<open>Scenario worlds\<close>

text \<open>Concrete environments the witnesses below run the operations in.\<close>

definition w_gen :: "string set \<Rightarrow> world" where
  "w_gen ro = \<lparr>net = (\<lambda>n r. Transport_error), sent = [], sink = [], sink_ok = True, files = {},
                fs_ro = ro, rnd = (\<lambda>n. if n = 0 then ''abc123'' else ''def456''), rnd_n = 0,
                sleeps = [], ajp_net = (\<lambda>n c. Ajp_failure), ajp_sent = [], rm_denied = {},
                body_encode = (\<lambda>v. Inl ValueError)\<rparr>"

definition w_status :: "int \<Rightarrow> world" where
  "w_status st = \<lparr>net = (\<lambda>n r. Reply \<lparr>status = st, cookies = [], body = [], file_input = None\<rparr>),
                  sent = [], sink = [], sink_ok = True, files = {''w.war''}, fs_ro = {},
                  rnd = (\<lambda>n. []), rnd_n = 0, sleeps = [], ajp_net = (\<lambda>n c. Ajp_failure), ajp_sent = [], rm_denied = {},
                body_encode = (\<lambda>v. Inl ValueError)\<rparr>"

definition w_login :: "bool \<Rightarrow> world" where
  "w_login ok = \<lparr>net = (\<lambda>n r. Reply \<lparr>status = 200, cookies = [(''JSESSIONID'', ''ABC'')], body = [],
                                        file_input = None\<rparr>),
                 sent = [], sink = [], sink_ok = ok, files = {''w.war''}, fs_ro = {},
                 rnd = (\<lambda>n. []), rnd_n = 0, sleeps = [], ajp_net = (\<lambda>n c. Ajp_failure), ajp_sent = [], rm_denied = {},
                body_encode = (\<lambda>v. Inl ValueError)\<rparr>"

definition ctx0 :: deploy_ctx where
  "ctx0 = \<lparr>d_url = ''http://h:1'', d_username = ''u'', d_password = ''p'', d_jsessionid = Some ''ABC'',
           d_csrf_nonce = None, d_file_field = Some ''file'', d_war = ''w.war'', d_random = ''r'',
           d_shell = ''s.jsp''\<rparr>"

text \<open>A manager page that sets the session cookie twice.\<close>
definition w_two_cookies :: world where
  "w_two_cookies = (w_login True)\<lparr>net := (\<lambda>n r. Reply \<lparr>status = 200,
     cookies = [(''JSESSIONID'', ''A1''), (''JSESSIONID'', ''B2'')], body = [], file_input = None\<rparr>)\<rparr>"

text \<open>A configuration whose \<open>shell_file_content\<close> key is present with an empty
  value, which \<open>yaml.safe_load\<close> reads as \<open>None\<close>.\<close>
definition cfg_null_shell :: yval where
  "cfg_null_shell = YMap [(''files'', YMap [(''shell_file_content'', YNone)])]"

section \<open>Lemmas\<close>

lemma war_jsp_distinct: "a @ ''.war'' \<noteq> b @ ''.jsp''"
proof
  assume "a @ ''.war'' = b @ ''.jsp''"
  then have "last (a @ ''.war'') = last (b @ ''.jsp'')" by simp
  then show False by simp
qed

lemma jar_get_Inl: "jar_get jar n = Inl e \<Longrightarrow> e = CookieConflictError"
  by (auto simp: jar_get_def split: list.splits prod.splits)

lemma jar_get_conflict:
  "2 \<le> length (filter (\<lambda>(n, v). n = k) jar) \<Longrightarrow> jar_get jar k = Inl CookieConflictError"
  by (auto simp: jar_get_def split: list.splits)

lemma jsp_write_Inl: "jsp_write v w = (Inl e, w') \<Longrightarrow> e = TypeError \<and> w' = w \<and> (\<forall>s. v \<noteq> YStr s)"
  by (cases v) (simp_all add: jsp_write_def eff_simps)

lemma jsp_write_str: "jsp_write (YStr s) w = (Inr (), w)"
  by (simp add: jsp_write_def eff_simps)

lemma jsp_write_non_str: "\<forall>s. v \<noteq> YStr s \<Longrightarrow> jsp_write v w = (Inl TypeError, w)"
  by (cases v) (simp_all add: jsp_write_def eff_simps)

lemma upload_once_post_error:
  assumes "d_war c \<in> files w" and "net w (length (sent w)) (upload_req c) = Reply r"
    and "400 \<le> status r" and "status r < 600"
  shows "upload_once c w = (Inl RequestException, w\<lparr>sent := sent w @ [upload_req c]\<rparr>)"
  using assms by (simp add: upload_once_def eff_simps)

lemma get_tokens_world:
  assumes "get_jsessionid_and_csrf_nonce url u p w = (res, w')"
  shows "w' = w\<lparr>sent := sent w @ [manager_get url u p]\<rparr> \<and>
         (\<forall>e. res = Inl e \<longrightarrow> e = KeyError \<or> e = CookieConflictError)"
proof (cases "net w (length (sent w)) (manager_get url u p)")
  case (Reply r)
  show ?thesis
  proof (cases "jar_get (cookies r) ''JSESSIONID''")
    case (Inl e)
    with Reply assms show ?thesis
      by (auto simp: get_jsessionid_and_csrf_nonce_def eff_simps dest: jar_get_Inl split: if_splits)
  next
    case (Inr v)
    with Reply assms show ?thesis
      by (auto simp: get_jsessionid_and_csrf_nonce_def eff_simps Let_def
               split: option.splits if_splits)
  qed
next
  case Transport_error
  then show ?thesis using assms by (auto simp: get_jsessionid_and_csrf_nonce_def eff_simps)
qed

text \<open>A successful login: the session cookie, the nonce of the page and the upload
  field's name (\<open>file\<close> when the page has no file input).\<close>
lemma get_tokens_ok:
  assumes "net w (length (sent w)) (manager_get url u p) = Reply r1" and "status r1 < 400"
    and "jar_get (cookies r1) ''JSESSIONID'' = Inr (Some j)" and "j \<noteq> []"
    and "file_input r1 \<noteq> Some None"
  shows "get_jsessionid_and_csrf_nonce url u p w =
           (Inr (Some j, csrf_nonce_search (body r1),
                 Some (case file_input r1 of Some (Some n) \<Rightarrow> n | _ \<Rightarrow> ''file''), True),
            w\<lparr>sent := sent w @ [manager_get url u p]\<rparr>)"
  using assms by (auto simp: get_jsessionid_and_csrf_nonce_def eff_simps Let_def split: option.splits)

lemma upload_once_files:
  assumes "upload_once c w = (res, w')"
  shows "files w' = files w \<and> rm_denied w' = rm_denied w \<and>
         (\<forall>e. res = Inl e \<longrightarrow> e = RequestException \<or> e = OSError)"
  using assms
  by (auto simp: upload_once_def eff_simps Let_def split: http_outcome.splits if_splits)

lemma upload_once_unwritable:
  assumes "d_war c \<in> files w" and "\<not> sink_ok w"
    and "net w (length (sent w)) (upload_req c) = Reply r" and "status r < 400"
    and "net w (Suc (length (sent w))) (shell_get c) = Reply r200" and "status r200 = 200"
  shows "upload_once c w = (Inl OSError, w\<lparr>sent := sent w @ [upload_req c, shell_get c]\<rparr>)"
  using assms by (simp add: upload_once_def eff_simps)

lemma upload_once_ok:
  assumes "d_war c \<in> files w" and "sink_ok w"
    and "net w (length (sent w)) (upload_req c) = Reply r" and "status r < 400"
    and "net w (Suc (length (sent w))) (shell_get c) = Reply r200" and "status r200 = 200"
  shows "upload_once c w =
           (Inr (), w\<lparr>sent := sent w @ [upload_req c, shell_get c], sink := sink w @ [webshell_line c]\<rparr>)"
  using assms by (simp add: upload_once_def eff_simps)

lemma upload_loop_files:
  "upload_loop c mr rd a w = (res, w') \<Longrightarrow>
     files w' = files w \<and> rm_denied w' = rm_denied w \<and>
     (\<forall>e. res = Inl e \<longrightarrow> e \<in> {OSError, ValueError, OverflowError})"
proof (induction c mr rd a w arbitrary: res w' rule: upload_loop.induct)
  case (1 c mr rd a w)
  show ?case
  proof (cases "int a < mr")
    case False
    with "1.prems" show ?thesis by (auto simp: upload_loop.simps [of c mr rd a w])
  next
    case True
    obtain r1 w1 where once: "upload_once c w = (r1, w1)" by fastforce
    from upload_once_files [OF once] have f1: "files w1 = files w" "rm_denied w1 = rm_denied w"
      and e1: "\<forall>e. r1 = Inl e \<longrightarrow> e = RequestException \<or> e = OSError" by auto
    show ?thesis
    proof (cases r1)
      case (Inr u)
      with True once f1 "1.prems" show ?thesis by (auto simp: upload_loop.simps [of c mr rd a w])
    next
      case (Inl e)
      show ?thesis
      proof (cases "e = RequestException")
        case True': True
        show ?thesis
        proof (cases "int (Suc a) < mr")
          case more: True
          obtain s w2 where sl: "sleep rd w1 = (s, w2)" by fastforce
          show ?thesis
          proof (cases s)
            case (Inl e')
            with sl "1.prems" True once \<open>r1 = Inl e\<close> True' more f1 show ?thesis
              by (auto simp: upload_loop.simps [of c mr rd a w] dest: sleep_Inl)
          next
            case (Inr u)
            have lp: "upload_loop c mr rd (Suc a) w2 = (res, w')"
              using "1.prems" True once \<open>r1 = Inl e\<close> True' more sl Inr
              by (simp add: upload_loop.simps [of c mr rd a w])
            have "files w' = files w2 \<and> rm_denied w' = rm_denied w2 \<and>
                  (\<forall>e. res = Inl e \<longrightarrow> e \<in> {OSError, ValueError, OverflowError})"
              by (rule "1.IH"(1) [OF True once [symmetric] \<open>r1 = Inl e\<close> True' more sl [symmetric] Inr lp])
            with f1 sl Inr show ?thesis by (auto simp: sleep_def split: if_splits)
          qed
        next
          case False
          have lp: "upload_loop c mr rd (Suc a) w1 = (res, w')"
            using "1.prems" True once \<open>r1 = Inl e\<close> True' False
            by (simp add: upload_loop.simps [of c mr rd a w])
          have "files w' = files w1 \<and> rm_denied w' = rm_denied w1 \<and>
                (\<forall>e. res = Inl e \<longrightarrow> e \<in> {OSError, ValueError, OverflowError})"
            by (rule "1.IH"(2) [OF True once [symmetric] \<open>r1 = Inl e\<close> True' False lp])
          with f1 show ?thesis by simp
        qed
      next
        case False
        with True once Inl e1 f1 "1.prems" show ?thesis by (auto simp: upload_loop.simps [of c mr rd a w])
      qed
    qed
  qed
qed

lemma cleanup_war_result:
  "cleanup_war war w = (Inr (), w\<lparr>files := if war \<in> rm_denied w then files w else files w - {war}\<rparr>)"
proof -
  have "war \<notin> files w \<Longrightarrow> files w - {war} = files w" by auto
  then show ?thesis by (auto simp: cleanup_war_def eff_simps)
qed

lemma deploy_outcome:
  assumes "deploy_godzilla_war url u p war rs sh mr rd w = (res, w')"
  shows "(res = Inr () \<longrightarrow> files w' = (if war \<in> rm_denied w then files w else files w - {war})) \<and>
         (\<forall>e. res = Inl e \<longrightarrow> files w' = files w \<and>
                e \<in> {OSError, KeyError, CookieConflictError, ValueError, OverflowError})"
proof -
  obtain t w1 where tok: "get_jsessionid_and_csrf_nonce (clean_url url) u p w = (t, w1)" by fastforce
  note g = get_tokens_world [OF tok]
  show ?thesis
  proof (cases t)
    case (Inl e)
    with g tok assms show ?thesis by (auto simp: deploy_godzilla_war_def)
  next
    case (Inr tk)
    obtain jsid nonce field success where tk: "tk = (jsid, nonce, field, success)"
      by (cases tk) auto
    show ?thesis
    proof (cases success)
      case False
      with assms tok Inr tk g show ?thesis by (auto simp: deploy_godzilla_war_def cleanup_war_result)
    next
      case True
      let ?c = "\<lparr>d_url = clean_url url, d_username = u, d_password = p, d_jsessionid = jsid, d_csrf_nonce = nonce, d_file_field = field, d_war = war, d_random = rs, d_shell = sh\<rparr>"
      obtain r2 w2 where lp: "upload_loop ?c mr rd 0 w1 = (r2, w2)" by fastforce
      from upload_loop_files [OF lp] g assms tok Inr tk True lp show ?thesis
        by (cases r2) (auto simp: deploy_godzilla_war_def cleanup_war_result)
    qed
  qed
qed

lemma deploy_login_unwritable:
  "deploy_godzilla_war ''http://h:1/manager/html'' ''u'' ''p'' ''w.war'' ''r'' ''s.jsp'' 3 1 (w_login False) =
     (Inl OSError, (w_login False)\<lparr>sent := [manager_get ''http://h:1'' ''u'' ''p'', upload_req ctx0, shell_get ctx0]\<rparr>)"
  by (simp add: deploy_godzilla_war_def get_jsessionid_and_csrf_nonce_def eff_simps w_login_def jar_get_def
      clean_url_def manager_path_def rstrip_def upload_loop.simps upload_once_def Let_def ctx0_def)

lemma generate_war_exc:
  "generate_war config w = (Inl e, w') \<Longrightarrow> e \<in> {KeyError, TypeError, AttributeError}"
  by (cases "shell_content config")
     (auto simp: generate_war_def eff_simps Let_def dest: shell_content_exc split: sum.splits prod.splits)

section \<open>Properties of the deployment\<close>

text \<open>When both files can be created and the temporary JSP deleted, \<open>generate_war\<close>
  draws two random names, returns the WAR's name, the random string and the JSP's name,
  and leaves the WAR in the working directory and the temporary JSP deleted.\<close>

theorem generate_war_ok:
  assumes "shell_content config = Inr (YStr content)"
    and "rnd w (Suc (rnd_n w)) @ ''.jsp'' \<notin> fs_ro w" and "rnd w (rnd_n w) @ ''.war'' \<notin> fs_ro w"
    and "rnd w (Suc (rnd_n w)) @ ''.jsp'' \<notin> rm_denied w"
  shows "generate_war config w =
     (Inr (Some (rnd w (rnd_n w) @ ''.war'', rnd w (rnd_n w), rnd w (Suc (rnd_n w)) @ ''.jsp'')),
      w\<lparr>rnd_n := Suc (Suc (rnd_n w)),
        files := insert (rnd w (rnd_n w) @ ''.war'') (files w - {rnd w (Suc (rnd_n w)) @ ''.jsp''})\<rparr>)"
proof -
  let ?war = "rnd w (rnd_n w) @ ''.war''" and ?jsp = "rnd w (Suc (rnd_n w)) @ ''.jsp''"
  have "insert ?war (insert ?jsp (files w)) - {?jsp} = insert ?war (files w - {?jsp})"
    using war_jsp_distinct [of "rnd w (rnd_n w)" "rnd w (Suc (rnd_n w))"] by auto
  with assms show ?thesis by (simp add: generate_war_def eff_simps Let_def jsp_write_str)
qed

text \<open>C21: When the JSP can be written but the WAR cannot be created, \<open>generate_war\<close>
  returns \<open>None\<close> and leaves the temporary JSP in the working directory: the temporary
  file outlives the deployment attempt.\<close>

theorem generate_war_leak:
  assumes "shell_content config = Inr content"
    and "rnd w (Suc (rnd_n w)) @ ''.jsp'' \<notin> fs_ro w" and "rnd w (rnd_n w) @ ''.war'' \<in> fs_ro w"
  shows "generate_war config w =
     (Inr None, w\<lparr>rnd_n := Suc (Suc (rnd_n w)),
                 files := insert (rnd w (Suc (rnd_n w)) @ ''.jsp'') (files w)\<rparr>)"
  using assms by (cases content) (simp_all add: generate_war_def eff_simps Let_def jsp_write_def)

text \<open>C22: A shell content that is not a string (an empty \<open>shell_file_content:\<close> key,
  which YAML reads as \<open>None\<close>, or a number) makes \<open>jsp_file.write\<close> raise
  \<open>TypeError\<close> after the JSP has been created; the handler turns it into \<open>None\<close>, no WAR
  is built and the empty JSP stays in the working directory.\<close>

theorem generate_war_non_str_content:
  assumes "shell_content config = Inr v" and "\<forall>s. v \<noteq> YStr s"
    and "rnd w (Suc (rnd_n w)) @ ''.jsp'' \<notin> fs_ro w"
  shows "generate_war config w =
     (Inr None, w\<lparr>rnd_n := Suc (Suc (rnd_n w)),
                 files := insert (rnd w (Suc (rnd_n w)) @ ''.jsp'') (files w)\<rparr>)"
  using assms by (simp add: generate_war_def eff_simps Let_def jsp_write_non_str)

text \<open>C19: An upload answered with an error status raises in \<open>raise_for_status\<close> and is
  handled like a transport failure: with a delay \<open>time.sleep\<close> accepts, the WAR is
  posted again, \<open>max_retries\<close> times in all with a sleep between attempts, and the loop
  then ends normally without a verification request.\<close>

theorem upload_loop_http_error:
  assumes "\<forall>n. net w n (upload_req c) = Reply r" and "400 \<le> status r" and "status r < 600"
    and "d_war c \<in> files w" and "0 \<le> rd" and "rd \<le> sleep_max"
  shows "upload_loop c mr rd a w =
           (Inr (), w\<lparr>sent := sent w @ replicate (nat (mr - int a)) (upload_req c),
                      sleeps := sleeps w @ replicate (nat (mr - int a) - 1) rd\<rparr>)"
  using assms
proof (induction c mr rd a w rule: upload_loop.induct)
  case (1 c mr rd a w)
  show ?case
  proof (cases "int a < mr")
    case False
    then show ?thesis by (simp add: upload_loop.simps [of c mr rd a w])
  next
    case True
    let ?w1 = "w\<lparr>sent := sent w @ [upload_req c]\<rparr>"
    have once: "upload_once c w = (Inl RequestException, ?w1)"
      using "1.prems" by (simp add: upload_once_post_error)
    have n: "nat (mr - int a) = Suc (nat (mr - int (Suc a)))" using True by simp
    show ?thesis
    proof (cases "int (Suc a) < mr")
      case more: True
      let ?w2 = "?w1\<lparr>sleeps := sleeps ?w1 @ [rd]\<rparr>"
      have sl: "sleep rd ?w1 = (Inr (), ?w2)" using "1.prems" by (simp add: sleep_ok)
      have "upload_loop c mr rd (Suc a) ?w2 =
             (Inr (), ?w2\<lparr>sent := sent ?w2 @ replicate (nat (mr - int (Suc a))) (upload_req c),
                        sleeps := sleeps ?w2 @ replicate (nat (mr - int (Suc a)) - 1) rd\<rparr>)"
        using "1.IH"(1) [OF True once [symmetric] refl refl more sl [symmetric] refl] "1.prems" by simp
      moreover have "replicate (nat (mr - int (Suc a))) rd = rd # replicate (nat (mr - int (Suc a)) - 1) rd"
        using more by (cases "nat (mr - int (Suc a))") auto
      ultimately show ?thesis
        using True once more sl n by (simp add: upload_loop.simps [of c mr rd a w])
    next
      case False
      have "upload_loop c mr rd (Suc a) ?w1 =
             (Inr (), ?w1\<lparr>sent := sent ?w1 @ replicate (nat (mr - int (Suc a))) (upload_req c),
                        sleeps := sleeps ?w1 @ replicate (nat (mr - int (Suc a)) - 1) rd\<rparr>)"
        using "1.IH"(2) [OF True once [symmetric] refl refl False] "1.prems" by simp
      moreover have "nat (mr - int (Suc a)) = 0" using False by simp
      ultimately show ?thesis
        using True once False n by (simp add: upload_loop.simps [of c mr rd a w])
    qed
  qed
qed

text \<open>C3: A deployment that returns normally (after a failed login, after the upload
  attempts are used up, or after the shell was checked) deletes the WAR and changes no
  other file; the WAR stays only when the system refuses its deletion, which the
  handler of lines 234-235 logs.\<close>

theorem deploy_removes_war:
  assumes "deploy_godzilla_war url u p war rs sh mr rd w = (Inr (), w')"
  shows "files w' = (if war \<in> rm_denied w then files w else files w - {war})"
  using deploy_outcome [OF assms] by simp

text \<open>C23: The exceptions that leave \<open>deploy_godzilla_war\<close> are \<open>OSError\<close> (the WAR
  cannot be opened, the output file cannot be appended to), \<open>KeyError\<close> (an upload
  input without a name), \<open>CookieConflictError\<close> (two \<open>JSESSIONID\<close> cookies) and the
  \<open>ValueError\<close> or \<open>OverflowError\<close> of \<open>time.sleep\<close> for a bad \<open>retry_delay\<close>; every
  \<open>RequestException\<close> is handled inside, and no exit by an exception touches a file.\<close>

theorem deploy_exceptions:
  assumes "deploy_godzilla_war url u p war rs sh mr rd w = (Inl e, w')"
  shows "e \<in> {OSError, KeyError, CookieConflictError, ValueError, OverflowError} \<and> files w' = files w"
  using deploy_outcome [OF assms] by simp

text \<open>C4: The WAR is not deleted on every exit path: whenever the login succeeds, the
  server accepts the upload and serves the shell, but the output file cannot be
  appended to, the \<open>OSError\<close> leaves \<open>deploy_godzilla_war\<close> before the cleanup, and
  the WAR stays in the working directory.\<close>

theorem deploy_war_leak:
  assumes "\<not> sink_ok w" and "war \<in> files w" and "0 < mr"
    and "net w (length (sent w)) (manager_get (clean_url url) u p) = Reply r1" and "status r1 < 400"
    and "jar_get (cookies r1) ''JSESSIONID'' = Inr (Some j)" and "j \<noteq> []"
    and "file_input r1 \<noteq> Some None"
    and "\<forall>n req. req_method req = POST \<longrightarrow> (\<exists>r. net w n req = Reply r \<and> status r < 400)"
    and "\<forall>n req. req_method req = GET \<and> req_cookie req = Some j \<longrightarrow> net w n req = Reply r200"
    and "status r200 = 200"
  shows "fst (deploy_godzilla_war url u p war rs sh mr rd w) = Inl OSError \<and>
         war \<in> files (snd (deploy_godzilla_war url u p war rs sh mr rd w))"
proof -
  let ?w1 = "w\<lparr>sent := sent w @ [manager_get (clean_url url) u p]\<rparr>"
  let ?f = "case file_input r1 of Some (Some n) \<Rightarrow> n | _ \<Rightarrow> ''file''"
  let ?c = "\<lparr>d_url = clean_url url, d_username = u, d_password = p, d_jsessionid = Some j,
             d_csrf_nonce = csrf_nonce_search (body r1), d_file_field = Some ?f, d_war = war,
             d_random = rs, d_shell = sh\<rparr>"
  have tok: "get_jsessionid_and_csrf_nonce (clean_url url) u p w =
               (Inr (Some j, csrf_nonce_search (body r1), Some ?f, True), ?w1)"
    using assms(4-8) by (rule get_tokens_ok)
  obtain r2 where r2: "net ?w1 (length (sent ?w1)) (upload_req ?c) = Reply r2" "status r2 < 400"
    using assms(9) [rule_format, of "upload_req ?c" "length (sent ?w1)"] by (auto simp: upload_req_def)
  have sh: "net ?w1 (Suc (length (sent ?w1))) (shell_get ?c) = Reply r200"
    using assms(10) by (simp add: shell_get_def)
  have "upload_once ?c ?w1 = (Inl OSError, ?w1\<lparr>sent := sent ?w1 @ [upload_req ?c, shell_get ?c]\<rparr>)"
    using assms(1,2,11) r2 sh by (intro upload_once_unwritable) simp_all
  then have "upload_loop ?c mr rd 0 ?w1 = (Inl OSError, ?w1\<lparr>sent := sent ?w1 @ [upload_req ?c, shell_get ?c]\<rparr>)"
    using assms(3) by (simp add: upload_loop.simps)
  with tok assms(2) show ?thesis by (simp add: deploy_godzilla_war_def Let_def)
qed

theorem generate_war_ok_witness:
  "''def456'' @ ''.jsp'' \<notin> fs_ro (w_gen {}) \<and> ''abc123'' @ ''.war'' \<notin> fs_ro (w_gen {}) \<and>
   ''def456'' @ ''.jsp'' \<notin> rm_denied (w_gen {}) \<and>
   generate_war cfg_example (w_gen {}) =
     (Inr (Some (''abc123.war'', ''abc123'', ''def456.jsp'')),
      (w_gen {})\<lparr>rnd_n := 2, files := {''abc123.war''}\<rparr>)"
proof -
  have r: "rnd (w_gen {}) (rnd_n (w_gen {})) = ''abc123''"
          "rnd (w_gen {}) (Suc (rnd_n (w_gen {}))) = ''def456''" by (simp_all add: w_gen_def)
  have h: "rnd (w_gen {}) (Suc (rnd_n (w_gen {}))) @ ''.jsp'' \<notin> fs_ro (w_gen {})"
          "rnd (w_gen {}) (rnd_n (w_gen {})) @ ''.war'' \<notin> fs_ro (w_gen {})"
          "rnd (w_gen {}) (Suc (rnd_n (w_gen {}))) @ ''.jsp'' \<notin> rm_denied (w_gen {})"
    by (simp_all add: w_gen_def)
  show ?thesis using generate_war_ok [OF shell_content_example h] r by (simp add: w_gen_def)
qed

theorem generate_war_leak_witness:
  "''def456'' @ ''.jsp'' \<notin> fs_ro (w_gen {''abc123.war''}) \<and>
   ''abc123'' @ ''.war'' \<in> fs_ro (w_gen {''abc123.war''}) \<and>
   generate_war cfg_example (w_gen {''abc123.war''}) =
     (Inr None, (w_gen {''abc123.war''})\<lparr>rnd_n := 2, files := {''def456.jsp''}\<rparr>)"
proof -
  let ?w = "w_gen {''abc123.war''}"
  have r: "rnd ?w (rnd_n ?w) = ''abc123''" "rnd ?w (Suc (rnd_n ?w)) = ''def456''"
    by (simp_all add: w_gen_def)
  have h: "rnd ?w (Suc (rnd_n ?w)) @ ''.jsp'' \<notin> fs_ro ?w" "rnd ?w (rnd_n ?w) @ ''.war'' \<in> fs_ro ?w"
    by (simp_all add: w_gen_def)
  show ?thesis using generate_war_leak [OF shell_content_example h] r by (simp add: w_gen_def)
qed

theorem generate_war_non_str_content_witness:
  "shell_content cfg_null_shell = Inr YNone \<and> ''def456'' @ ''.jsp'' \<notin> fs_ro (w_gen {}) \<and>
   generate_war cfg_null_shell (w_gen {}) =
     (Inr None, (w_gen {})\<lparr>rnd_n := 2, files := {''def456.jsp''}\<rparr>)"
proof -
  have c: "shell_content cfg_null_shell = Inr YNone"
    by (simp add: shell_content_def cfg_null_shell_def)
  have h: "\<forall>s. YNone \<noteq> YStr s" "rnd (w_gen {}) (Suc (rnd_n (w_gen {}))) @ ''.jsp'' \<notin> fs_ro (w_gen {})"
    by (simp_all add: w_gen_def)
  have r: "rnd (w_gen {}) (Suc (rnd_n (w_gen {}))) = ''def456''" by (simp add: w_gen_def)
  show ?thesis using generate_war_non_str_content [OF c h] c r by (simp add: w_gen_def)
qed

theorem upload_loop_http_error_witness:
  "(\<forall>n. net (w_status 500) n (upload_req ctx0) =
        Reply \<lparr>status = 500, cookies = [], body = [], file_input = None\<rparr>) \<and>
   d_war ctx0 \<in> files (w_status 500) \<and> (0::int) \<le> 1 \<and> (1::int) \<le> sleep_max \<and>
   upload_loop ctx0 3 1 0 (w_status 500) =
     (Inr (), (w_status 500)\<lparr>sent := [upload_req ctx0, upload_req ctx0, upload_req ctx0],
                             sleeps := [1, 1]\<rparr>)"
proof -
  have h: "\<forall>n. net (w_status 500) n (upload_req ctx0) =
             Reply \<lparr>status = 500, cookies = [], body = [], file_input = None\<rparr>"
          "d_war ctx0 \<in> files (w_status 500)" by (simp_all add: w_status_def ctx0_def)
  have d: "(0::int) \<le> 1" "(1::int) \<le> sleep_max" by (simp_all add: sleep_max_def)
  have "upload_loop ctx0 3 1 0 (w_status 500) =
          (Inr (), (w_status 500)\<lparr>sent := sent (w_status 500) @ replicate (nat (3 - int 0)) (upload_req ctx0),
                      sleeps := sleeps (w_status 500) @ replicate (nat (3 - int 0) - 1) 1\<rparr>)"
    using upload_loop_http_error [OF h(1) _ _ h(2) d] by simp
  with h d show ?thesis by (simp add: w_status_def numeral_3_eq_3)
qed

theorem deploy_removes_war_witness:
  "deploy_godzilla_war ''http://h:1/manager/html'' ''u'' ''p'' ''w.war'' ''r'' ''s.jsp'' 3 1 (w_status 401) =
     (Inr (), (w_status 401)\<lparr>sent := [manager_get ''http://h:1'' ''u'' ''p''], files := {}\<rparr>) \<and>
   files ((w_status 401)\<lparr>sent := [manager_get ''http://h:1'' ''u'' ''p''], files := {}\<rparr>) =
     files (w_status 401) - {''w.war''}"
proof -
  have d: "deploy_godzilla_war ''http://h:1/manager/html'' ''u'' ''p'' ''w.war'' ''r'' ''s.jsp'' 3 1 (w_status 401) =
     (Inr (), (w_status 401)\<lparr>sent := [manager_get ''http://h:1'' ''u'' ''p''], files := {}\<rparr>)"
    by (simp add: deploy_godzilla_war_def get_jsessionid_and_csrf_nonce_def eff_simps w_status_def
        clean_url_def manager_path_def rstrip_def cleanup_war_def)
  have "''w.war'' \<notin> rm_denied (w_status 401)" by (simp add: w_status_def)
  then show ?thesis using d deploy_removes_war [OF d] by simp
qed

theorem deploy_exceptions_witness:
  "deploy_godzilla_war ''http://h:1/manager/html'' ''u'' ''p'' ''w.war'' ''r'' ''s.jsp'' 3 1 (w_login False) =
     (Inl OSError, (w_login False)\<lparr>sent := [manager_get ''http://h:1'' ''u'' ''p'', upload_req ctx0, shell_get ctx0]\<rparr>) \<and>
   files ((w_login False)\<lparr>sent := [manager_get ''http://h:1'' ''u'' ''p'', upload_req ctx0, shell_get ctx0]\<rparr>) =
     files (w_login False)"
  using deploy_exceptions [OF deploy_login_unwritable] deploy_login_unwritable by simp

theorem deploy_war_leak_witness:
  "fst (deploy_godzilla_war ''http://h:1/manager/html'' ''u'' ''p'' ''w.war'' ''r'' ''s.jsp'' 3 1
          (w_login False)) = Inl OSError \<and>
   ''w.war'' \<in> files (snd (deploy_godzilla_war ''http://h:1/manager/html'' ''u'' ''p'' ''w.war''
          ''r'' ''s.jsp'' 3 1 (w_login False)))"
proof -
  let ?r = "\<lparr>status = 200, cookies = [(''JSESSIONID'', ''ABC'')], body = [], file_input = None\<rparr>"
  have h: "\<not> sink_ok (w_login False)" "''w.war'' \<in> files (w_login False)" "0 < (3::int)"
    "net (w_login False) (length (sent (w_login False)))
       (manager_get (clean_url ''http://h:1/manager/html'') ''u'' ''p'') = Reply ?r"
    "status ?r < 400" "jar_get (cookies ?r) ''JSESSIONID'' = Inr (Some ''ABC'')" "''ABC'' \<noteq> []"
    "file_input ?r \<noteq> Some None"
    "\<forall>n req. req_method req = POST \<longrightarrow> (\<exists>r. net (w_login False) n req = Reply r \<and> status r < 400)"
    "\<forall>n req. req_method req = GET \<and> req_cookie req = Some ''ABC'' \<longrightarrow> net (w_login False) n req = Reply ?r"
    "status ?r = 200"
    by (simp_all add: w_login_def jar_get_def)
  show ?thesis by (rule deploy_war_leak [OF h])
qed

text \<open>C24: A login page that sets two \<open>JSESSIONID\<close> cookies (for different paths) makes
  \<open>response.cookies.get('JSESSIONID')\<close> raise \<open>CookieConflictError\<close>, which is no
  \<open>RequestException\<close>: it leaves \<open>deploy_godzilla_war\<close> right after the login
  request, before any upload, and the WAR is not deleted.\<close>

theorem deploy_cookie_conflict:
  assumes "net w (length (sent w)) (manager_get (clean_url url) u p) = Reply r" and "status r < 400"
    and "2 \<le> length (filter (\<lambda>(n, v). n = ''JSESSIONID'') (cookies r))"
  shows "deploy_godzilla_war url u p war rs sh mr rd w =
           (Inl CookieConflictError, w\<lparr>sent := sent w @ [manager_get (clean_url url) u p]\<rparr>)"
proof -
  have "jar_get (cookies r) ''JSESSIONID'' = Inl CookieConflictError"
    using assms(3) by (rule jar_get_conflict)
  with assms(1,2) show ?thesis
    by (simp add: deploy_godzilla_war_def get_jsessionid_and_csrf_nonce_def eff_simps Let_def)
qed

theorem deploy_cookie_conflict_witness:
  "deploy_godzilla_war ''http://h:1/manager/html'' ''u'' ''p'' ''w.war'' ''r'' ''s.jsp'' 3 1 w_two_cookies =
     (Inl CookieConflictError, w_two_cookies\<lparr>sent := [manager_get ''http://h:1'' ''u'' ''p'']\<rparr>) \<and>
   ''w.war'' \<in> files (w_two_cookies\<lparr>sent := [manager_get ''http://h:1'' ''u'' ''p'']\<rparr>)"
proof -
  let ?r = "\<lparr>status = 200, cookies = [(''JSESSIONID'', ''A1''), (''JSESSIONID'', ''B2'')], body = [],
             file_input = None\<rparr>"
  have u: "clean_url ''http://h:1/manager/html'' = ''http://h:1''"
    by (simp add: clean_url_def rstrip_def manager_path_def)
  have h: "net w_two_cookies (length (sent w_two_cookies))
             (manager_get (clean_url ''http://h:1/manager/html'') ''u'' ''p'') = Reply ?r"
    "status ?r < 400" "2 \<le> length (filter (\<lambda>(n, v). n = ''JSESSIONID'') (cookies ?r))"
    by (simp_all add: w_two_cookies_def w_login_def)
  have "sent w_two_cookies = []" "''w.war'' \<in> files w_two_cookies"
    by (simp_all add: w_two_cookies_def w_login_def)
  with deploy_cookie_conflict [OF h, of "''w.war''" "''r''" "''s.jsp''" 3 1] u show ?thesis by simp
qed

end
