(* ===== verification/Brute_Force.thy ===== *)
theory Brute_Force
  imports Webshell
begin

text \<open>
  \<open>check_weak_password\<close> (\<open>src/TomcatScan.py\<close> lines 239-302): the target is
  normalised to its manager URL, then the pairs of \<open>usernames \<times> passwords\<close> are tried
  in username-major order (\<open>List.product\<close>), one authenticated GET each. The first
  reply with status 200 appends a login line, builds a WAR and deploys it, and returns
  the credentials. A transport failure anywhere in a sweep abandons the sweep, sleeps
  \<open>retry_delay\<close> and starts the sweep again from the first pair, at most
  \<open>max_retries\<close> times. The shell content and the deployment's retry settings are
  read from the configuration when a login succeeds, as in the source.
\<close>

definition login_req :: "string \<Rightarrow> string \<Rightarrow> string \<Rightarrow> http_req" where
  "login_req url username password =
     \<lparr>req_method = GET, req_url = url, req_auth = Some (username, password),
      req_cookie = None, req_body = []\<rparr>"

text \<open>Lines 273-287: the login line, then \<open>generate_war\<close> and, if it produced a WAR,
  \<open>deploy_godzilla_war\<close>.\<close>
definition on_login :: "string \<Rightarrow> string \<Rightarrow> string \<Rightarrow> yval \<Rightarrow> unit eff" where
  "on_login url_path username password config =
     ebind (append_line (url_path @ '' '' @ username @ '':'' @ password)) (\<lambda>_.
     ebind (generate_war config) (\<lambda>g.
       case g of
         None \<Rightarrow> eret ()
       | Some (war_file_name, random_string, shell_file_name) \<Rightarrow>
           ebind (eret_r (cfg_int config [''retry'', ''deploy_godzilla_war'', ''max_retries''])) (\<lambda>dmr.
           ebind (eret_r (cfg_int config [''retry'', ''deploy_godzilla_war'', ''retry_delay''])) (\<lambda>drd.
             deploy_godzilla_war url_path username password war_file_name random_string
               shell_file_name dmr drd))))"

text \<open>The login requests of a sweep over \<open>ps\<close>, in order.\<close>
definition logins :: "string \<Rightarrow> (string \<times> string) list \<Rightarrow> http_req list" where
  "logins uwp ps = map (\<lambda>(u, p). login_req uwp u p) ps"

datatype sweep_exit = Found string string | Exhausted

text \<open>One pass of the nested \<open>for\<close> loops (lines 268-290).\<close>
fun sweep :: "string \<Rightarrow> yval \<Rightarrow> (string \<times> string) list \<Rightarrow> world \<Rightarrow>
    (py_error + sweep_exit) \<times> world" where
  "sweep url_path config [] w = (Inr Exhausted, w)"
| "sweep url_path config ((username, password) # ps) w =
     (case http (login_req url_path username password) w of
        (Inl e, w1) \<Rightarrow> (Inl e, w1)
      | (Inr response, w1) \<Rightarrow>
          if status response = 200 then
            (case on_login url_path username password config w1 of
               (Inl e, w2) \<Rightarrow> (Inl e, w2)
             | (Inr u, w2) \<Rightarrow> (Inr (Found username password), w2))
          else sweep url_path config ps w1)"

text \<open>How the \<open>while\<close> loop is left: by the \<open>return\<close> inside it, by the \<open>break\<close>
  after a complete sweep, or by its condition, with the final value of \<open>attempt\<close>.\<close>
datatype loop_exit = Returned string string | Broke nat | Ended nat

text \<open>The \<open>while attempt < max_retries\<close> loop (lines 265-296): a \<open>RequestException\<close>
  sleeps, counts the attempt and restarts the sweep from the first pair; the sleep is
  in the handler, so its own exception leaves the function.\<close>
function cwp_loop :: "string \<Rightarrow> yval \<Rightarrow> (string \<times> string) list \<Rightarrow> int \<Rightarrow> int \<Rightarrow> nat \<Rightarrow>
    world \<Rightarrow> (py_error + loop_exit) \<times> world" where
  "cwp_loop url_path config pairs max_retries retry_delay attempt w =
     (if int attempt < max_retries then
        (case sweep url_path config pairs w of
           (Inl e, w1) \<Rightarrow>
             if e = RequestException then
               (case sleep retry_delay w1 of
                  (Inl e', w2) \<Rightarrow> (Inl e', w2)
                | (Inr u, w2) \<Rightarrow> cwp_loop url_path config pairs max_retries retry_delay (Suc attempt) w2)
             else (Inl e, w1)
         | (Inr (Found username password), w1) \<Rightarrow> (Inr (Returned username password), w1)
         | (Inr Exhausted, w1) \<Rightarrow> (Inr (Broke attempt), w1))
      else (Inr (Ended attempt), w))"
  by pat_completeness auto
termination
  by (relation "measure (\<lambda>(u, config, ps, mr, rd, a, w). nat (mr - int a))") auto

declare cwp_loop.simps [simp del]

text \<open>
  The result (\<open>url_path\<close> is the source's \<open>url_with_path\<close>): the manager URL and the credentials, \<open>None\<close> when the attempts ran out
  (\<open>attempt == max_retries\<close>), otherwise the original URL with no credentials.
\<close>
definition check_weak_password ::
    "string \<Rightarrow> string list \<Rightarrow> string list \<Rightarrow> int \<Rightarrow> int \<Rightarrow> yval \<Rightarrow>
     (string \<times> string option \<times> string option) option eff" where
  "check_weak_password url usernames passwords max_retries retry_delay config w =
     (let url_path = url_with_path url in
      case cwp_loop url_path config (List.product usernames passwords) max_retries retry_delay 0 w of
        (Inl e, w1) \<Rightarrow> (Inl e, w1)
      | (Inr (Returned username password), w1) \<Rightarrow>
          (Inr (Some (url_path, Some username, Some password)), w1)
      | (Inr (Broke attempt), w1) \<Rightarrow>
          (if int attempt = max_retries then (Inr None, w1) else (Inr (Some (url, None, None)), w1))
      | (Inr (Ended attempt), w1) \<Rightarrow>
          (if int attempt = max_retries then (Inr None, w1) else (Inr (Some (url, None, None)), w1)))"

section \<open>Scenario worlds\<close>

definition resp_of :: "int \<Rightarrow> response" where
  "resp_of st = \<lparr>status = st, cookies = [], body = [], file_input = None\<rparr>"

definition w_flaky :: world where
  "w_flaky = (w_gen {})\<lparr>net := (\<lambda>n r. if n = 3 then Transport_error else Reply (resp_of 401))\<rparr>"

definition w_cred :: world where
  "w_cred = (w_gen {})\<lparr>net := (\<lambda>n r. Reply (resp_of (if req_auth r = Some (''tomcat'', ''tomcat'') then 200 else 401)))\<rparr>"

definition ten_passwords :: "string list" where
  "ten_passwords = [''p0'', ''p1'', ''p2'', ''p3'', ''p4'', ''p5'', ''p6'', ''p7'', ''p8'', ''p9'']"

section \<open>Lemmas\<close>

lemma on_login_exc:
  assumes "on_login uwp u p config w = (Inl e, w')"
  shows "e \<noteq> RequestException"
proof (cases "sink_ok w")
  case False
  with assms show ?thesis by (simp add: on_login_def eff_simps)
next
  case True
  let ?w0 = "w\<lparr>sink := sink w @ [uwp @ '' '' @ u @ '':'' @ p]\<rparr>"
  let ?mr = "cfg_int config [''retry'', ''deploy_godzilla_war'', ''max_retries'']"
  let ?rd = "cfg_int config [''retry'', ''deploy_godzilla_war'', ''retry_delay'']"
  obtain g w1 where g: "generate_war config ?w0 = (g, w1)" by fastforce
  show ?thesis
  proof (cases g)
    case (Inl e')
    with g have "e' \<noteq> RequestException" by (auto dest: generate_war_exc)
    with assms True g Inl show ?thesis by (simp add: on_login_def eff_simps)
  next
    case (Inr gv)
    note gr = g [unfolded Inr]
    show ?thesis
    proof (cases gv)
      case None
      with assms True gr show ?thesis by (simp add: on_login_def eff_simps)
    next
      case (Some t)
      obtain war rs sh where t: "gv = Some (war, rs, sh)" using Some by (cases t) auto
      show ?thesis
      proof (cases ?mr)
        case (Inl e1)
        with assms True gr t show ?thesis by (auto simp: on_login_def eff_simps dest: cfg_int_exc)
      next
        case (Inr dmr)
        note mr = this
        show ?thesis
        proof (cases ?rd)
          case (Inl e2)
          with assms True gr t mr show ?thesis by (auto simp: on_login_def eff_simps dest: cfg_int_exc)
        next
          case (Inr drd)
          with assms True gr t mr have "deploy_godzilla_war uwp u p war rs sh dmr drd w1 = (Inl e, w')"
            by (simp add: on_login_def eff_simps)
          from deploy_outcome [OF this] show ?thesis by auto
        qed
      qed
    qed
  qed
qed

lemma logins_Cons [simp]: "logins uwp ((u, p) # ps) = login_req uwp u p # logins uwp ps"
  by (simp add: logins_def)

lemma length_logins [simp]: "length (logins uwp ps) = length ps"
  by (simp add: logins_def)

lemma sweep_trace:
  assumes "sweep uwp config ps w = (r, w')"
  shows "(r = Inr Exhausted \<longrightarrow> w' = w\<lparr>sent := sent w @ logins uwp ps\<rparr>) \<and>
         (r = Inl RequestException \<longrightarrow>
            (\<exists>k. 1 \<le> k \<and> k \<le> length ps \<and> w' = w\<lparr>sent := sent w @ take k (logins uwp ps)\<rparr>))"
  using assms
proof (induction ps arbitrary: w r w')
  case Nil
  then show ?case by (auto simp: logins_def)
next
  case (Cons up ps)
  obtain u p where up: "up = (u, p)" by fastforce
  obtain x w1 where h: "http (login_req uwp u p) w = (x, w1)" by fastforce
  have w1: "w1 = w\<lparr>sent := sent w @ [login_req uwp u p]\<rparr>" using h by (rule http_world)
  show ?case
  proof (cases x)
    case (Inl e)
    with h have "e = RequestException" using http_Inl by blast
    with Cons.prems up h Inl w1 show ?thesis by (auto intro!: exI [of _ 1])
  next
    case (Inr resp)
    show ?thesis
    proof (cases "status resp = 200")
      case True
      obtain y w2 where ol: "on_login uwp u p config w1 = (y, w2)" by fastforce
      show ?thesis
      proof (cases y)
        case (Inl e)
        then have "e \<noteq> RequestException" using on_login_exc [of uwp u p config w1 e w2] ol by simp
        with Cons.prems up h Inr True ol Inl show ?thesis by auto
      next
        case (Inr v)
        with Cons.prems up h \<open>x = Inr resp\<close> True ol show ?thesis by auto
      qed
    next
      case False
      then have s: "sweep uwp config ps w1 = (r, w')" using Cons.prems up h Inr by simp
      note IH = Cons.IH [OF s]
      show ?thesis
      proof (intro conjI impI)
        assume "r = Inr Exhausted"
        with IH w1 show "w' = w\<lparr>sent := sent w @ logins uwp (up # ps)\<rparr>" by (simp add: up)
      next
        assume "r = Inl RequestException"
        with IH obtain k where k: "1 \<le> k" "k \<le> length ps"
          "w' = w1\<lparr>sent := sent w1 @ take k (logins uwp ps)\<rparr>" by blast
        with w1 show "\<exists>k. 1 \<le> k \<and> k \<le> length (up # ps) \<and>
                      w' = w\<lparr>sent := sent w @ take k (logins uwp (up # ps))\<rparr>"
          by (intro exI [of _ "Suc k"]) (simp add: up)
      qed
    qed
  qed
qed

lemma cwp_loop_trace:
  assumes "cwp_loop uwp config ps mr rd a w = (Inr x, w')" and "\<forall>u p. x \<noteq> Returned u p"
  shows "\<exists>ks. (\<forall>k\<in>set ks. 1 \<le> k \<and> k \<le> length ps) \<and>
           (ks \<noteq> [] \<longrightarrow> int (a + length ks) \<le> mr) \<and>
           ((x = Ended (a + length ks) \<and> mr \<le> int (a + length ks) \<and>
             w' = w\<lparr>sent := sent w @ concat (map (\<lambda>k. take k (logins uwp ps)) ks),
                    sleeps := sleeps w @ replicate (length ks) rd\<rparr>) \<or>
            (x = Broke (a + length ks) \<and> int (a + length ks) < mr \<and>
             w' = w\<lparr>sent := sent w @ concat (map (\<lambda>k. take k (logins uwp ps)) ks) @ logins uwp ps,
                    sleeps := sleeps w @ replicate (length ks) rd\<rparr>))"
  using assms
proof (induction uwp config ps mr rd a w arbitrary: x w' rule: cwp_loop.induct)
  case (1 uwp config ps mr rd a w)
  show ?case
  proof (cases "int a < mr")
    case False
    with "1.prems" show ?thesis
      by (intro exI [of _ "[]"]) (auto simp: cwp_loop.simps [of uwp config ps mr rd a w])
  next
    case True
    obtain r w1 where sw: "sweep uwp config ps w = (r, w1)" by fastforce
    note st = sweep_trace [OF sw]
    show ?thesis
    proof (cases r)
      case (Inl e)
      show ?thesis
      proof (cases "e = RequestException")
        case True': True
        from st Inl True' obtain k where k: "1 \<le> k" "k \<le> length ps"
          "w1 = w\<lparr>sent := sent w @ take k (logins uwp ps)\<rparr>" by blast
        obtain sr w2 where sl: "sleep rd w1 = (sr, w2)" by fastforce
        from "1.prems"(1) True sw Inl True' sl obtain u where sr: "sr = Inr u"
          by (cases sr) (auto simp: cwp_loop.simps [of uwp config ps mr rd a w])
        have w2: "w2 = w1\<lparr>sleeps := sleeps w1 @ [rd]\<rparr>" using sl sr by (simp add: sleep_Inr)
        have rec: "cwp_loop uwp config ps mr rd (Suc a) w2 = (Inr x, w')"
          using "1.prems"(1) True sw Inl True' sl sr by (simp add: cwp_loop.simps [of uwp config ps mr rd a w])
        from "1.IH" [OF True sw [symmetric] Inl True' sl [symmetric] sr rec "1.prems"(2)] obtain ks where
          ks: "\<forall>k\<in>set ks. 1 \<le> k \<and> k \<le> length ps"
          "ks \<noteq> [] \<longrightarrow> int (Suc a + length ks) \<le> mr"
          "(x = Ended (Suc a + length ks) \<and> mr \<le> int (Suc a + length ks) \<and>
             w' = w2\<lparr>sent := sent w2 @ concat (map (\<lambda>k. take k (logins uwp ps)) ks),
                    sleeps := sleeps w2 @ replicate (length ks) rd\<rparr>) \<or>
            (x = Broke (Suc a + length ks) \<and> int (Suc a + length ks) < mr \<and>
             w' = w2\<lparr>sent := sent w2 @ concat (map (\<lambda>k. take k (logins uwp ps)) ks) @ logins uwp ps,
                    sleeps := sleeps w2 @ replicate (length ks) rd\<rparr>)" by blast
        show ?thesis
          using ks k True w2 by (intro exI [of _ "k # ks"]) auto
      next
        case False
        with "1.prems" True sw Inl show ?thesis by (simp add: cwp_loop.simps [of uwp config ps mr rd a w])
      qed
    next
      case (Inr y)
      show ?thesis
      proof (cases y)
        case (Found u p)
        with "1.prems" True sw Inr show ?thesis by (auto simp: cwp_loop.simps [of uwp config ps mr rd a w])
      next
        case Exhausted
        with st Inr have "w1 = w\<lparr>sent := sent w @ logins uwp ps\<rparr>" by simp
        with "1.prems" True sw Inr Exhausted show ?thesis
          by (intro exI [of _ "[]"]) (auto simp: cwp_loop.simps [of uwp config ps mr rd a w])
      qed
    qed
  qed
qed

lemma sweep_first_200:
  assumes "j < length ps"
    and "\<forall>i<j. \<exists>r. net w (length (sent w) + i) (logins uwp ps ! i) = Reply r \<and> status r \<noteq> 200"
    and "net w (length (sent w) + j) (logins uwp ps ! j) = Reply r200" and "status r200 = 200"
    and "on_login uwp (fst (ps ! j)) (snd (ps ! j)) config
           (w\<lparr>sent := sent w @ take (Suc j) (logins uwp ps)\<rparr>) = (Inr (), w2)"
  shows "sweep uwp config ps w = (Inr (Found (fst (ps ! j)) (snd (ps ! j))), w2)"
  using assms
proof (induction ps arbitrary: w j)
  case Nil
  then show ?case by simp
next
  case (Cons up ps)
  obtain u p where up: "up = (u, p)" by fastforce
  show ?case
  proof (cases j)
    case 0
    with Cons.prems up show ?thesis by (simp add: http_reply)
  next
    case (Suc j')
    from Cons.prems(2) Suc obtain r0 where
      r0: "net w (length (sent w)) (login_req uwp u p) = Reply r0" "status r0 \<noteq> 200"
      using up by fastforce
    let ?w1 = "w\<lparr>sent := sent w @ [login_req uwp u p]\<rparr>"
    have "sweep uwp config ps ?w1 = (Inr (Found (fst (ps ! j')) (snd (ps ! j'))), w2)"
    proof (rule Cons.IH)
      show "j' < length ps" using Cons.prems(1) Suc by simp
      show "\<forall>i<j'. \<exists>r. net ?w1 (length (sent ?w1) + i) (logins uwp ps ! i) = Reply r \<and> status r \<noteq> 200"
      proof (intro allI impI)
        fix i assume "i < j'"
        then have "Suc i < j" using Suc by simp
        with Cons.prems(2) up show "\<exists>r. net ?w1 (length (sent ?w1) + i) (logins uwp ps ! i) = Reply r \<and> status r \<noteq> 200"
          by fastforce
      qed
      show "net ?w1 (length (sent ?w1) + j') (logins uwp ps ! j') = Reply r200"
        using Cons.prems(3) Suc up by simp
      show "status r200 = 200" by (rule Cons.prems(4))
      show "on_login uwp (fst (ps ! j')) (snd (ps ! j')) config
              (?w1\<lparr>sent := sent ?w1 @ take (Suc j') (logins uwp ps)\<rparr>) = (Inr (), w2)"
        using Cons.prems(5) Suc up by simp
    qed
    with r0 up Suc show ?thesis by (simp add: http_reply)
  qed
qed

lemma check_weak_password_loop:
  "check_weak_password url us ps mr rd config w =
     (case cwp_loop (url_with_path url) config (List.product us ps) mr rd 0 w of
        (Inl e, w1) \<Rightarrow> (Inl e, w1)
      | (Inr (Returned u p), w1) \<Rightarrow> (Inr (Some (url_with_path url, Some u, Some p)), w1)
      | (Inr (Broke a), w1) \<Rightarrow> (if int a = mr then (Inr None, w1) else (Inr (Some (url, None, None)), w1))
      | (Inr (Ended a), w1) \<Rightarrow> (if int a = mr then (Inr None, w1) else (Inr (Some (url, None, None)), w1)))"
  by (simp add: check_weak_password_def Let_def)

section \<open>Properties of the brute force\<close>

text \<open>C2: Restart from the first pair: when \<open>check_weak_password\<close> reports a target
  unreachable, it made exactly \<open>max_retries\<close> sweeps, each a non-empty prefix of the
  username-major list of login requests that starts at the first pair (a transport
  failure ends it), and slept \<open>retry_delay\<close> after each; nothing else happened.\<close>

theorem check_weak_password_unreachable:
  assumes "check_weak_password url us ps mr rd config w = (Inr None, w')"
  shows "\<exists>ks. length ks = nat mr \<and> (\<forall>k\<in>set ks. 1 \<le> k \<and> k \<le> length us * length ps) \<and>
           w' = w\<lparr>sent := sent w @ concat (map (\<lambda>k. take k (logins (url_with_path url) (List.product us ps))) ks),
                  sleeps := sleeps w @ replicate (nat mr) rd\<rparr>"
proof -
  obtain r w1 where lp: "cwp_loop (url_with_path url) config (List.product us ps) mr rd 0 w = (r, w1)"
    by fastforce
  with assms obtain x where x: "r = Inr x" by (cases r) (auto simp: check_weak_password_loop)
  have nr: "\<forall>u p. x \<noteq> Returned u p" using assms lp x by (auto simp: check_weak_password_loop)
  from cwp_loop_trace [OF lp [unfolded x] nr] obtain ks where
    ks: "\<forall>k\<in>set ks. 1 \<le> k \<and> k \<le> length (List.product us ps)"
    "ks \<noteq> [] \<longrightarrow> int (0 + length ks) \<le> mr"
    "(x = Ended (0 + length ks) \<and> mr \<le> int (0 + length ks) \<and>
        w1 = w\<lparr>sent := sent w @ concat (map (\<lambda>k. take k (logins (url_with_path url) (List.product us ps))) ks),
               sleeps := sleeps w @ replicate (length ks) rd\<rparr>) \<or>
     (x = Broke (0 + length ks) \<and> int (0 + length ks) < mr \<and>
        w1 = w\<lparr>sent := sent w @ concat (map (\<lambda>k. take k (logins (url_with_path url) (List.product us ps))) ks) @
                     logins (url_with_path url) (List.product us ps),
               sleeps := sleeps w @ replicate (length ks) rd\<rparr>)" by blast
  have "x = Ended (length ks) \<and> int (length ks) = mr \<and> w' = w1"
    using ks(3) assms lp x by (auto simp: check_weak_password_loop split: if_splits)
  with ks show ?thesis by (intro exI [of _ ks]) auto
qed

text \<open>When no credentials are found, the result carries the original URL, and either
  \<open>max_retries\<close> is negative and nothing was sent, or some sweeps (fewer than
  \<open>max_retries\<close>) failed, each restarting from the first pair, and the last sweep tried
  every pair in order.\<close>

theorem check_weak_password_no_login:
  assumes "check_weak_password url us ps mr rd config w = (Inr (Some (url', None, None)), w')"
  shows "url' = url \<and>
         ((mr < 0 \<and> w' = w) \<or>
          (\<exists>ks. length ks < nat mr \<and> (\<forall>k\<in>set ks. 1 \<le> k \<and> k \<le> length us * length ps) \<and>
             w' = w\<lparr>sent := sent w @ concat (map (\<lambda>k. take k (logins (url_with_path url) (List.product us ps))) ks)
                               @ logins (url_with_path url) (List.product us ps),
                    sleeps := sleeps w @ replicate (length ks) rd\<rparr>))"
proof -
  obtain r w1 where lp: "cwp_loop (url_with_path url) config (List.product us ps) mr rd 0 w = (r, w1)"
    by fastforce
  with assms obtain x where x: "r = Inr x" by (cases r) (auto simp: check_weak_password_loop)
  have nr: "\<forall>u p. x \<noteq> Returned u p" using assms lp x by (auto simp: check_weak_password_loop)
  from cwp_loop_trace [OF lp [unfolded x] nr] obtain ks where
    ks: "\<forall>k\<in>set ks. 1 \<le> k \<and> k \<le> length (List.product us ps)"
    "ks \<noteq> [] \<longrightarrow> int (0 + length ks) \<le> mr"
    "(x = Ended (0 + length ks) \<and> mr \<le> int (0 + length ks) \<and>
        w1 = w\<lparr>sent := sent w @ concat (map (\<lambda>k. take k (logins (url_with_path url) (List.product us ps))) ks),
               sleeps := sleeps w @ replicate (length ks) rd\<rparr>) \<or>
     (x = Broke (0 + length ks) \<and> int (0 + length ks) < mr \<and>
        w1 = w\<lparr>sent := sent w @ concat (map (\<lambda>k. take k (logins (url_with_path url) (List.product us ps))) ks) @
                     logins (url_with_path url) (List.product us ps),
               sleeps := sleeps w @ replicate (length ks) rd\<rparr>)" by blast
  have res: "url' = url \<and> w' = w1 \<and> int (length ks) \<noteq> mr"
    using assms lp x ks(3) by (auto simp: check_weak_password_loop split: if_splits)
  show ?thesis
  proof (cases "x = Ended (length ks)")
    case True
    with ks(2,3) res have "ks = [] \<and> mr < 0" by (cases ks) auto
    with ks(3) res True show ?thesis by auto
  next
    case False
    with ks(3) res have "int (length ks) < mr" "w1 = w\<lparr>sent := sent w @ concat (map (\<lambda>k. take k (logins (url_with_path url) (List.product us ps))) ks) @
                     logins (url_with_path url) (List.product us ps),
               sleeps := sleeps w @ replicate (length ks) rd\<rparr>" by auto
    with ks(1) res show ?thesis by (intro conjI disjI2 exI [of _ ks]) auto
  qed
qed

text \<open>C1: The first pair in username-major order whose login gets status 200 is returned
  with the manager URL, the later pairs are not tried, and the login line and the
  deployment are made before returning.\<close>

theorem check_weak_password_first_success:
  assumes "0 < mr" and "j < length (List.product us ps)"
    and "\<forall>i<j. \<exists>r. net w (length (sent w) + i)
            (logins (url_with_path url) (List.product us ps) ! i) = Reply r \<and> status r \<noteq> 200"
    and "net w (length (sent w) + j) (logins (url_with_path url) (List.product us ps) ! j) = Reply r200"
    and "status r200 = 200"
    and "on_login (url_with_path url) (fst (List.product us ps ! j)) (snd (List.product us ps ! j)) config
           (w\<lparr>sent := sent w @ take (Suc j) (logins (url_with_path url) (List.product us ps))\<rparr>) = (Inr (), w2)"
  shows "check_weak_password url us ps mr rd config w =
           (Inr (Some (url_with_path url, Some (fst (List.product us ps ! j)),
                       Some (snd (List.product us ps ! j)))), w2)"
proof -
  have "sweep (url_with_path url) config (List.product us ps) w =
          (Inr (Found (fst (List.product us ps ! j)) (snd (List.product us ps ! j))), w2)"
    using assms(2-6) by (rule sweep_first_200)
  with assms(1) show ?thesis
    by (simp add: check_weak_password_loop cwp_loop.simps)
qed

text \<open>With \<open>max_retries\<close> zero the target is reported unreachable (\<open>None\<close>) and
  with a negative \<open>max_retries\<close> it is reported as checked without credentials, in both
  cases without any request being sent.\<close>

theorem check_weak_password_no_attempts:
  assumes "mr \<le> 0"
  shows "check_weak_password url us ps mr rd config w =
           (Inr (if mr = 0 then None else Some (url, None, None)), w)"
  using assms by (simp add: check_weak_password_loop cwp_loop.simps)

theorem check_weak_password_unreachable_witness:
  "check_weak_password ''http://h:1'' [''admin''] [''a'', ''b''] 2 5 cfg_example (w_gen {}) =
     (Inr None, (w_gen {})\<lparr>sent := [login_req ''http://h:1/manager/html'' ''admin'' ''a'',
                                      login_req ''http://h:1/manager/html'' ''admin'' ''a''],
                           sleeps := [5, 5]\<rparr>) \<and>
   (\<exists>ks. length ks = nat 2 \<and> (\<forall>k\<in>set ks. 1 \<le> k \<and> k \<le> length [''admin''] * length [''a'', ''b'']) \<and>
      (w_gen {})\<lparr>sent := [login_req ''http://h:1/manager/html'' ''admin'' ''a'',
                           login_req ''http://h:1/manager/html'' ''admin'' ''a''],
                  sleeps := [5, 5]\<rparr> =
      (w_gen {})\<lparr>sent := sent (w_gen {}) @ concat (map (\<lambda>k. take k (logins (url_with_path ''http://h:1'')
                   (List.product [''admin''] [''a'', ''b'']))) ks),
                  sleeps := sleeps (w_gen {}) @ replicate (nat 2) 5\<rparr>)"
proof -
  have c: "check_weak_password ''http://h:1'' [''admin''] [''a'', ''b''] 2 5 cfg_example (w_gen {}) =
     (Inr None, (w_gen {})\<lparr>sent := [login_req ''http://h:1/manager/html'' ''admin'' ''a'',
                                      login_req ''http://h:1/manager/html'' ''admin'' ''a''],
                           sleeps := [5, 5]\<rparr>)"
    by (simp add: check_weak_password_def cwp_loop.simps url_with_path_def rstrip_def endswith_def
        manager_path_def w_gen_def eff_simps Let_def)
  show ?thesis using c check_weak_password_unreachable [OF c] by blast
qed

lemma w_flaky_run:
  "check_weak_password ''http://h:1'' [''admin''] ten_passwords 3 5 cfg_example w_flaky =
     (Inr (Some (''http://h:1'', None, None)),
      w_flaky\<lparr>sent := take 4 (logins ''http://h:1/manager/html'' (List.product [''admin''] ten_passwords))
                     @ logins ''http://h:1/manager/html'' (List.product [''admin''] ten_passwords),
              sleeps := [5]\<rparr>)"
  by (simp add: check_weak_password_def cwp_loop.simps url_with_path_def rstrip_def endswith_def
      manager_path_def w_flaky_def w_gen_def eff_simps Let_def ten_passwords_def logins_def resp_of_def)

theorem check_weak_password_no_login_witness:
  "check_weak_password ''http://h:1'' [''admin''] ten_passwords 3 5 cfg_example w_flaky =
     (Inr (Some (''http://h:1'', None, None)),
      w_flaky\<lparr>sent := take 4 (logins ''http://h:1/manager/html'' (List.product [''admin''] ten_passwords))
                     @ logins ''http://h:1/manager/html'' (List.product [''admin''] ten_passwords),
              sleeps := [5]\<rparr>) \<and>
   sent (w_flaky\<lparr>sent := take 4 (logins ''http://h:1/manager/html'' (List.product [''admin''] ten_passwords))
                     @ logins ''http://h:1/manager/html'' (List.product [''admin''] ten_passwords),
              sleeps := [5]\<rparr>) ! 4 = login_req ''http://h:1/manager/html'' ''admin'' ''p0'' \<and>
   (\<exists>ks. length ks < nat 3 \<and> (\<forall>k\<in>set ks. 1 \<le> k \<and> k \<le> length [''admin''] * length ten_passwords) \<and>
      w_flaky\<lparr>sent := take 4 (logins ''http://h:1/manager/html'' (List.product [''admin''] ten_passwords))
                     @ logins ''http://h:1/manager/html'' (List.product [''admin''] ten_passwords),
              sleeps := [5]\<rparr> =
      w_flaky\<lparr>sent := sent w_flaky @ concat (map (\<lambda>k. take k (logins (url_with_path ''http://h:1'')
                   (List.product [''admin''] ten_passwords))) ks)
                   @ logins (url_with_path ''http://h:1'') (List.product [''admin''] ten_passwords),
               sleeps := sleeps w_flaky @ replicate (length ks) 5\<rparr>)"
proof -
  note c = w_flaky_run
  have "sent (w_flaky\<lparr>sent := take 4 (logins ''http://h:1/manager/html'' (List.product [''admin''] ten_passwords))
                     @ logins ''http://h:1/manager/html'' (List.product [''admin''] ten_passwords),
              sleeps := [5]\<rparr>) ! 4 = login_req ''http://h:1/manager/html'' ''admin'' ''p0''"
    by (simp add: ten_passwords_def logins_def)
  moreover have "\<not> (3::int) < 0" by simp
  ultimately show ?thesis using c check_weak_password_no_login [OF c] by auto
qed

lemma w_cred_login:
  "on_login ''http://h:1/manager/html'' ''tomcat'' ''tomcat'' cfg_example
     (w_cred\<lparr>sent := sent w_cred @ take 2 (logins ''http://h:1/manager/html''
                                         (List.product [''admin'', ''tomcat''] [''tomcat'']))\<rparr>) =
   (Inr (), w_cred\<lparr>sent := logins ''http://h:1/manager/html'' (List.product [''admin'', ''tomcat''] [''tomcat''])
                            @ [manager_get ''http://h:1'' ''tomcat'' ''tomcat''],
                   sink := [''http://h:1/manager/html tomcat:tomcat''], rnd_n := 2, files := {}\<rparr>)"
  by (simp add: on_login_def eff_simps generate_war_def deploy_godzilla_war_def jsp_write_def jar_get_def
      get_jsessionid_and_csrf_nonce_def cleanup_war_def clean_url_def rstrip_def manager_path_def
      w_cred_def w_gen_def logins_def resp_of_def manager_get_def Let_def) blast

theorem check_weak_password_first_success_witness:
  "0 < (3::int) \<and> 1 < length (List.product [''admin'', ''tomcat''] [''tomcat'']) \<and>
   (\<exists>r. net w_cred (length (sent w_cred) + 0)
        (logins (url_with_path ''http://h:1'') (List.product [''admin'', ''tomcat''] [''tomcat'']) ! 0) = Reply r \<and>
        status r \<noteq> 200) \<and>
   net w_cred (length (sent w_cred) + 1)
     (logins (url_with_path ''http://h:1'') (List.product [''admin'', ''tomcat''] [''tomcat'']) ! 1) = Reply (resp_of 200) \<and>
   status (resp_of 200) = 200 \<and>
   check_weak_password ''http://h:1'' [''admin'', ''tomcat''] [''tomcat''] 3 5 cfg_example w_cred =
     (Inr (Some (''http://h:1/manager/html'', Some ''tomcat'', Some ''tomcat'')),
      w_cred\<lparr>sent := logins ''http://h:1/manager/html'' (List.product [''admin'', ''tomcat''] [''tomcat''])
                      @ [manager_get ''http://h:1'' ''tomcat'' ''tomcat''],
             sink := [''http://h:1/manager/html tomcat:tomcat''], rnd_n := 2, files := {}\<rparr>)"
proof -
  have u: "url_with_path ''http://h:1'' = ''http://h:1/manager/html''"
    by (simp add: url_with_path_def rstrip_def endswith_def manager_path_def)
  have h1: "0 < (3::int)" "1 < length (List.product [''admin'', ''tomcat''] [''tomcat''])" by simp_all
  have h2: "\<forall>i<1. \<exists>r. net w_cred (length (sent w_cred) + i)
        (logins (url_with_path ''http://h:1'') (List.product [''admin'', ''tomcat''] [''tomcat'']) ! i) = Reply r \<and>
        status r \<noteq> 200"
    by (simp add: u w_cred_def w_gen_def logins_def login_req_def resp_of_def)
  have h3: "net w_cred (length (sent w_cred) + 1)
     (logins (url_with_path ''http://h:1'') (List.product [''admin'', ''tomcat''] [''tomcat'']) ! 1) = Reply (resp_of 200)"
    by (simp add: u w_cred_def w_gen_def logins_def login_req_def)
  have h4: "status (resp_of 200) = 200" by (simp add: resp_of_def)
  have h5: "on_login (url_with_path ''http://h:1'')
      (fst (List.product [''admin'', ''tomcat''] [''tomcat''] ! 1))
      (snd (List.product [''admin'', ''tomcat''] [''tomcat''] ! 1)) cfg_example
      (w_cred\<lparr>sent := sent w_cred @ take (Suc 1) (logins (url_with_path ''http://h:1'')
                                         (List.product [''admin'', ''tomcat''] [''tomcat'']))\<rparr>) =
   (Inr (), w_cred\<lparr>sent := logins ''http://h:1/manager/html'' (List.product [''admin'', ''tomcat''] [''tomcat''])
                            @ [manager_get ''http://h:1'' ''tomcat'' ''tomcat''],
                   sink := [''http://h:1/manager/html tomcat:tomcat''], rnd_n := 2, files := {}\<rparr>)"
    using w_cred_login by (simp add: u numeral_2_eq_2)
  show ?thesis
    using h1 h2 h3 h4 check_weak_password_first_success [OF h1 h2 h3 h4 h5, of 5] by (simp add: u)
qed

theorem check_weak_password_no_attempts_witness:
  "(0::int) \<le> 0 \<and>
   check_weak_password ''http://h:1'' [''admin''] [''a''] 0 5 cfg_example (w_gen {}) = (Inr None, w_gen {})"
  using check_weak_password_no_attempts [of 0 "''http://h:1''" "[''admin'']" "[''a'']" 5 cfg_example "w_gen {}"]
  by simp

end
