(* ===== verification/Utf8.thy ===== *)
theory Utf8
  imports Struct_Codec
begin

text \<open>
  Python's strict UTF-8 decoder \<open>bytes.decode('utf-8')\<close>, which the AJP probe applies
  to every body chunk (\<open>src/TomcatScan.py\<close> line 538): well-formed sequences of one to
  four bytes, no overlong form, no surrogate, nothing above U+10FFFF; anything else
  raises \<open>UnicodeDecodeError\<close> (\<open>UnicodeError\<close> here). The theory relates the
  decoding of the body chunk by chunk to the decoding of the reassembled body.
\<close>

definition is_cont :: "byte \<Rightarrow> bool" where
  "is_cont b \<longleftrightarrow> 128 \<le> unat b \<and> unat b < 192"

definition cont_bits :: "byte \<Rightarrow> nat" where
  "cont_bits b = unat b - 128"

definition cons_r :: "'a \<Rightarrow> py_error + 'a list \<Rightarrow> py_error + 'a list" where
  "cons_r x r = (case r of Inl e \<Rightarrow> Inl e | Inr xs \<Rightarrow> Inr (x # xs))"

text \<open>A code point a str can hold: at most U+10FFFF (Python allows lone surrogates in a
  str, but they cannot be encoded).\<close>
definition valid_cp :: "nat \<Rightarrow> bool" where
  "valid_cp c \<longleftrightarrow> c < 1114112 \<and> \<not> is_surrogate c"

fun utf8_decode :: "bytes \<Rightarrow> py_error + pystr" where
  "utf8_decode [] = Inr []"
| "utf8_decode (b # bs) =
     (if unat b < 128 then cons_r (unat b) (utf8_decode bs)
      else if 194 \<le> unat b \<and> unat b < 224 then
        (case bs of
           c1 # r \<Rightarrow>
             if is_cont c1 then cons_r ((unat b - 192) * 64 + cont_bits c1) (utf8_decode r)
             else Inl UnicodeError
         | [] \<Rightarrow> Inl UnicodeError)
      else if 224 \<le> unat b \<and> unat b < 240 then
        (case bs of
           c1 # c2 # r \<Rightarrow>
             (let cp = (unat b - 224) * 4096 + cont_bits c1 * 64 + cont_bits c2 in
              if is_cont c1 \<and> is_cont c2 \<and> 2048 \<le> cp \<and> \<not> is_surrogate cp
              then cons_r cp (utf8_decode r) else Inl UnicodeError)
         | _ \<Rightarrow> Inl UnicodeError)
      else if 240 \<le> unat b \<and> unat b < 245 then
        (case bs of
           c1 # c2 # c3 # r \<Rightarrow>
             (let cp = (unat b - 240) * 262144 + cont_bits c1 * 4096 + cont_bits c2 * 64 + cont_bits c3 in
              if is_cont c1 \<and> is_cont c2 \<and> is_cont c3 \<and> 65536 \<le> cp \<and> cp < 1114112
              then cons_r cp (utf8_decode r) else Inl UnicodeError)
         | _ \<Rightarrow> Inl UnicodeError)
      else Inl UnicodeError)"

text \<open>\<open>"".join([d.data.decode('utf-8') for d in data])\<close> (line 538): every chunk is
  decoded on its own, in order, and the texts are concatenated.\<close>
fun decode_chunks :: "bytes list \<Rightarrow> py_error + pystr" where
  "decode_chunks [] = Inr []"
| "decode_chunks (d # ds) =
     (case utf8_decode d of
        Inl e \<Rightarrow> Inl e
      | Inr s \<Rightarrow> (case decode_chunks ds of Inl e \<Rightarrow> Inl e | Inr t \<Rightarrow> Inr (s @ t)))"

declare utf8_decode.simps(2) [simp del]

section \<open>Decoding the encoder's output\<close>

lemma unat_byte: "n < 256 \<Longrightarrow> unat (of_nat n :: byte) = n"
  by (simp add: unat_of_nat)

lemma digit_step: "(c::nat) div (k * 64) * (k * 64) + c div k mod 64 * k = c div k * k"
proof -
  have "c div (k * 64) * (k * 64) + c div k mod 64 * k = (c div k div 64 * 64) * k + c div k mod 64 * k"
    by (simp add: div_mult2_eq mult_ac)
  also have "\<dots> = (c div k div 64 * 64 + c div k mod 64) * k"
    by (simp only: add_mult_distrib)
  also have "\<dots> = c div k * k"
    by (simp only: div_mult_mod_eq)
  finally show ?thesis .
qed
lemma digits2: "(c::nat) div 4096 * 4096 + c div 64 mod 64 * 64 + c mod 64 = c"
  using digit_step [of c 64] div_mult_mod_eq [of c 64] by simp
lemma digits3: "(c::nat) div 262144 * 262144 + c div 4096 mod 64 * 4096 + c div 64 mod 64 * 64 + c mod 64 = c"
  using digit_step [of c 4096] digits2 [of c] by simp

lemma utf8_decode_1:
  "unat b = c \<Longrightarrow> c < 128 \<Longrightarrow> utf8_decode (b # rest) = cons_r c (utf8_decode rest)"
  by (simp add: utf8_decode.simps(2))

lemma utf8_decode_2:
  assumes "unat b1 = 192 + c div 64" "unat b2 = 128 + c mod 64" "128 \<le> c" "c < 2048"
  shows "utf8_decode (b1 # b2 # rest) = cons_r c (utf8_decode rest)"
proof -
  have "(unat b1 - 192) * 64 + cont_bits b2 = c"
    using assms by (simp add: cont_bits_def)
  moreover have "194 \<le> unat b1" "unat b1 < 224" using assms by linarith+
  moreover have "is_cont b2" using assms by (simp add: is_cont_def)
  ultimately show ?thesis by (simp add: utf8_decode.simps(2))
qed

lemma utf8_decode_3:
  assumes "unat b1 = 224 + c div 4096" "unat b2 = 128 + (c div 64) mod 64" "unat b3 = 128 + c mod 64"
    and "2048 \<le> c" "c < 65536" "\<not> is_surrogate c"
  shows "utf8_decode (b1 # b2 # b3 # rest) = cons_r c (utf8_decode rest)"
proof -
  note digits2 [of c]
  then have "(unat b1 - 224) * 4096 + cont_bits b2 * 64 + cont_bits b3 = c"
    using assms unfolding cont_bits_def by simp
  moreover have "224 \<le> unat b1" "unat b1 < 240" using assms by linarith+
  moreover have "is_cont b2" "is_cont b3" using assms by (simp_all add: is_cont_def)
  ultimately show ?thesis using assms by (simp add: utf8_decode.simps(2) Let_def)
qed

lemma utf8_decode_4:
  assumes "unat b1 = 240 + c div 262144" "unat b2 = 128 + (c div 4096) mod 64"
    and "unat b3 = 128 + (c div 64) mod 64" "unat b4 = 128 + c mod 64"
    and "65536 \<le> c" "c < 1114112"
  shows "utf8_decode (b1 # b2 # b3 # b4 # rest) = cons_r c (utf8_decode rest)"
proof -
  note digits3 [of c]
  then have "(unat b1 - 240) * 262144 + cont_bits b2 * 4096 + cont_bits b3 * 64 + cont_bits b4 = c"
    using assms unfolding cont_bits_def by simp
  moreover have "240 \<le> unat b1" "unat b1 < 245" using assms by linarith+
  moreover have "is_cont b2" "is_cont b3" "is_cont b4" using assms by (simp_all add: is_cont_def)
  ultimately show ?thesis using assms by (simp add: utf8_decode.simps(2) Let_def)
qed

lemma utf8_decode_char:
  assumes "valid_cp c"
  shows "utf8_decode (utf8_char c @ rest) = cons_r c (utf8_decode rest)"
proof -
  consider "c < 128" | "128 \<le> c" "c < 2048" | "2048 \<le> c" "c < 65536" | "65536 \<le> c" "c < 1114112"
    using assms by (force simp: valid_cp_def)
  then show ?thesis
  proof cases
    case 1
    then show ?thesis by (simp add: utf8_char.simps utf8_decode_1 unat_byte)
  next
    case 2
    then have "utf8_char c = [of_nat (192 + c div 64), of_nat (128 + c mod 64)]"
      by (simp add: utf8_char.simps)
    then show ?thesis
      by (simp only: append_Cons append_Nil) (rule utf8_decode_2; (rule unat_byte)?; use 2 in simp)
  next
    case 3
    then have "utf8_char c = [of_nat (224 + c div 4096), of_nat (128 + (c div 64) mod 64),
                              of_nat (128 + c mod 64)]"
      by (simp add: utf8_char.simps)
    then show ?thesis
      by (simp only: append_Cons append_Nil) (rule utf8_decode_3; (rule unat_byte)?; use 3 assms in \<open>simp add: valid_cp_def\<close>)
  next
    case 4
    then have "utf8_char c = [of_nat (240 + c div 262144), of_nat (128 + (c div 4096) mod 64),
                              of_nat (128 + (c div 64) mod 64), of_nat (128 + c mod 64)]"
      by (simp add: utf8_char.simps)
    then show ?thesis
      by (simp only: append_Cons append_Nil) (rule utf8_decode_4; (rule unat_byte)?; use 4 in simp)
  qed
qed


lemma cons_r_Inr [simp]: "cons_r x (Inr xs) = Inr (x # xs)" and cons_r_Inl [simp]: "cons_r x (Inl e) = Inl e"
  by (simp_all add: cons_r_def)

lemma utf8_decode_append:
  "utf8_decode xs = Inr a \<Longrightarrow>
     utf8_decode (xs @ ys) = (case utf8_decode ys of Inl e \<Rightarrow> Inl e | Inr b \<Rightarrow> Inr (a @ b))"
proof (induction xs arbitrary: a rule: utf8_decode.induct)
  case 1
  then show ?case by (simp split: sum.split)
next
  case (2 b bs)
  consider (a1) "unat b < 128" | (a2) "\<not> unat b < 128" "194 \<le> unat b \<and> unat b < 224"
    | (a3) "\<not> unat b < 128" "\<not> (194 \<le> unat b \<and> unat b < 224)" "224 \<le> unat b \<and> unat b < 240"
    | (a4) "\<not> unat b < 128" "\<not> (194 \<le> unat b \<and> unat b < 224)" "\<not> (224 \<le> unat b \<and> unat b < 240)"
        "240 \<le> unat b \<and> unat b < 245"
    | (a5) "\<not> unat b < 128" "\<not> (194 \<le> unat b \<and> unat b < 224)" "\<not> (224 \<le> unat b \<and> unat b < 240)"
        "\<not> (240 \<le> unat b \<and> unat b < 245)"
    by blast
  then show ?case
  proof cases
    case a1
    with 2 show ?thesis by (auto simp: utf8_decode.simps(2) cons_r_def split: sum.splits)
  next
    case a2
    with 2(5) obtain c1 r where bs: "bs = c1 # r"
      by (cases bs) (auto simp: utf8_decode.simps(2))
    with a2 2 show ?thesis
      by (auto simp: utf8_decode.simps(2) cons_r_def split: if_splits sum.splits)
  next
    case a3
    with 2(5) obtain c1 c2 r where bs: "bs = c1 # c2 # r"
      by (cases bs rule: remdups_adj.cases) (auto simp: utf8_decode.simps(2))
    with a3 2 show ?thesis
      by (auto simp: utf8_decode.simps(2) cons_r_def Let_def split: if_splits sum.splits)
  next
    case a4
    with 2(5) obtain c1 c2 c3 r where bs: "bs = c1 # c2 # c3 # r"
      by (auto simp: utf8_decode.simps(2) split: list.splits)
    with a4 2 show ?thesis
      by (auto simp: utf8_decode.simps(2) cons_r_def Let_def split: if_splits sum.splits)
  next
    case a5
    with 2(5) show ?thesis by (simp add: utf8_decode.simps(2))
  qed
qed

lemma utf8_decode_lone: "128 \<le> unat b \<Longrightarrow> utf8_decode [b] = Inl UnicodeError"
  by (simp add: utf8_decode.simps(2))

lemma utf8_char_lead:
  assumes "128 \<le> c" and "c < 1114112"
  shows "\<exists>b bs. utf8_char c = b # bs \<and> bs \<noteq> [] \<and> 128 \<le> unat b"
proof -
  consider "c < 2048" | "2048 \<le> c" "c < 65536" | "65536 \<le> c"
    by linarith
  then show ?thesis
  proof cases
    case 1
    with assms have "utf8_char c = [of_nat (192 + c div 64), of_nat (128 + c mod 64)]"
      by (simp add: utf8_char.simps)
    moreover have "unat (of_nat (192 + c div 64) :: byte) = 192 + c div 64"
      using 1 by (intro unat_byte) simp
    ultimately show ?thesis by simp
  next
    case 2
    then have "utf8_char c = [of_nat (224 + c div 4096), of_nat (128 + (c div 64) mod 64),
                              of_nat (128 + c mod 64)]"
      by (simp add: utf8_char.simps)
    moreover have "unat (of_nat (224 + c div 4096) :: byte) = 224 + c div 4096"
      using 2 by (intro unat_byte) simp
    ultimately show ?thesis by simp
  next
    case 3
    then have "utf8_char c = [of_nat (240 + c div 262144), of_nat (128 + (c div 4096) mod 64),
                              of_nat (128 + (c div 64) mod 64), of_nat (128 + c mod 64)]"
      by (simp add: utf8_char.simps)
    moreover have "unat (of_nat (240 + c div 262144) :: byte) = 240 + c div 262144"
      using 3 assms(2) by (intro unat_byte) simp
    ultimately show ?thesis by simp
  qed
qed

section \<open>Properties of the decoder\<close>

text \<open>C28: Decoding the body chunk by chunk, as line 538 does, never disagrees with
  decoding the reassembled body: when every chunk decodes, the concatenated texts are
  the decoding of the concatenated chunks.\<close>

theorem decode_chunks_sound:
  "decode_chunks ds = Inr s \<Longrightarrow> utf8_decode (concat ds) = Inr s"
proof (induction ds arbitrary: s)
  case Nil
  then show ?case by simp
next
  case (Cons d ds)
  then obtain a t where a: "utf8_decode d = Inr a" and t: "decode_chunks ds = Inr t" and s: "s = a @ t"
    by (auto split: sum.splits)
  from utf8_decode_append [OF a, of "concat ds"] Cons.IH [OF t] s show ?case by simp
qed

theorem decode_chunks_sound_witness:
  "decode_chunks [[104], [195, 169]] = Inr [104, 233] \<and> utf8_decode [104, 195, 169] = Inr [104, 233]"
proof -
  have d: "decode_chunks [[104], [195, 169]] = Inr [104, 233]"
    by (simp add: utf8_decode.simps(2) is_cont_def cont_bits_def cons_r_def)
  show ?thesis using d decode_chunks_sound [OF d] by simp
qed

text \<open>C27: But decoding chunk by chunk rejects bodies the reassembled decoding accepts: a
  chunk boundary inside a multi-byte character makes \<open>decode\<close> raise
  \<open>UnicodeDecodeError\<close> on the first chunk, although the whole body is valid UTF-8.\<close>

theorem decode_chunks_split_char:
  assumes "valid_cp c" and "128 \<le> c"
  shows "utf8_decode (concat [take 1 (utf8_char c), drop 1 (utf8_char c)]) = Inr [c] \<and>
         decode_chunks [take 1 (utf8_char c), drop 1 (utf8_char c)] = Inl UnicodeError"
proof -
  from assms obtain b bs where u: "utf8_char c = b # bs" and b: "128 \<le> unat b"
    using utf8_char_lead [of c] by (auto simp: valid_cp_def)
  have "utf8_decode (utf8_char c @ []) = Inr [c]"
    using utf8_decode_char [OF assms(1), of "[]"] by (simp add: cons_r_def)
  then show ?thesis using u utf8_decode_lone [OF b] by simp
qed

theorem decode_chunks_split_char_witness:
  "valid_cp 233 \<and> 128 \<le> (233::nat) \<and>
   utf8_decode [195, 169] = Inr [233] \<and> decode_chunks [[195], [169]] = Inl UnicodeError"
proof -
  have v: "valid_cp 233" by (simp add: valid_cp_def is_surrogate_def)
  have l: "128 \<le> (233::nat)" by simp
  have u: "utf8_char 233 = [195, 169]" by (simp add: utf8_char.simps)
  show ?thesis using v l decode_chunks_split_char [OF v l] by (simp add: u)
qed


end
