(* ===== verification/Ajp_Wire.thy ===== *)
theory Ajp_Wire
  imports Struct_Codec Ajp
begin

text \<open>
  The AJP13 wire format of a forward request (the spec's \<open>encodeForwardRequest\<close>,
  sections 3 and 4.1) and the reading side a container applies to it. The serialisation
  belongs to \<open>AjpForwardRequest\<close> of the \<open>tomcatscan\<close> module, which is not in the
  repository's sources; it is modelled from the spec and the AJP13 protocol over the
  source's own string codec: every string field is \<open>pack_string\<close> of
  \<open>src/TomcatScan.py\<close>, and the reader uses the source's \<open>unpack\<close> (the spec's
  \<open>decodeFixed\<close>) and \<open>unpack_string\<close> (\<open>decodeStringField\<close>). A request field
  holds a str of 8-bit characters; its bytes are read back as characters one by one,
  which is UTF-8 decoding on ASCII.
\<close>

section \<open>Encoding\<close>

definition pystr_of :: "string \<Rightarrow> pystr" where
  "pystr_of s = map of_char s"

text \<open>Python's \<open>list.index\<close>: \<open>ValueError\<close> when the element is missing.\<close>
fun py_index :: "'a list \<Rightarrow> 'a \<Rightarrow> py_error + nat" where
  "py_index [] x = Inl ValueError"
| "py_index (y # ys) x = (if y = x then Inr 0 else rbind (py_index ys x) (\<lambda>i. Inr (Suc i)))"

text \<open>The AJP13 method codes.\<close>
definition ajp_method_code :: "ajp_method \<Rightarrow> int" where
  "ajp_method_code m =
     (case m of AJP_OPTIONS \<Rightarrow> 1 | AJP_GET \<Rightarrow> 2 | AJP_HEAD \<Rightarrow> 3 | AJP_POST \<Rightarrow> 4
              | AJP_PUT \<Rightarrow> 5 | AJP_DELETE \<Rightarrow> 6 | AJP_TRACE \<Rightarrow> 7)"

text \<open>The request headers with an AJP13 code \<open>0xA0nn\<close>, \<open>nn\<close> their position.\<close>
definition common_headers :: "string list" where
  "common_headers =
     [''SC_REQ_ACCEPT'', ''SC_REQ_ACCEPT_CHARSET'', ''SC_REQ_ACCEPT_ENCODING'',
      ''SC_REQ_ACCEPT_LANGUAGE'', ''SC_REQ_AUTHORIZATION'', ''SC_REQ_CONNECTION'',
      ''SC_REQ_CONTENT_TYPE'', ''SC_REQ_CONTENT_LENGTH'', ''SC_REQ_COOKIE'', ''SC_REQ_COOKIE2'',
      ''SC_REQ_HOST'', ''SC_REQ_PRAGMA'', ''SC_REQ_REFERER'', ''SC_REQ_USER_AGENT'']"

definition pack_opt :: "string option \<Rightarrow> py_error + bytes" where
  "pack_opt s = pack_string (map_option pystr_of s)"

text \<open>A header name: the two code bytes for an \<open>SC_REQ_\<close> name, a string otherwise.\<close>
definition pack_header_name :: "string \<Rightarrow> py_error + bytes" where
  "pack_header_name n =
     (if take 6 n = ''SC_REQ''
      then rbind (py_index common_headers n) (\<lambda>i. struct_pack [F_B, F_B] [VInt 160, VInt (int i + 1)])
      else pack_opt (Some n))"

fun pack_headers :: "(string \<times> string) list \<Rightarrow> py_error + bytes" where
  "pack_headers [] = Inr []"
| "pack_headers ((n, v) # hs) =
     rbind (pack_header_name n) (\<lambda>bn. rbind (pack_opt (Some v)) (\<lambda>bv.
     rbind (pack_headers hs) (\<lambda>br. Inr (bn @ bv @ br))))"

text \<open>An attribute: its code (\<open>req_attribute\<close> is 10), its name and its value.\<close>
fun pack_attributes :: "ajp_attribute list \<Rightarrow> py_error + bytes" where
  "pack_attributes [] = Inr []"
| "pack_attributes (Req_attribute n v # as) =
     rbind (struct_pack [F_b] [VInt 10]) (\<lambda>bc. rbind (pack_opt (Some n)) (\<lambda>bn.
     rbind (pack_opt (Some v)) (\<lambda>bv. rbind (pack_attributes as) (\<lambda>br. Inr (bc @ bn @ bv @ br)))))"

text \<open>The body of a forward request: prefix code 2 and the method, the five strings,
  the port, the SSL flag, the headers with their count, the attributes and the request
  terminator \<open>0xFF\<close>.\<close>
definition encode_forward_request :: "ajp_forward_request \<Rightarrow> py_error + bytes" where
  "encode_forward_request r =
     rbind (struct_pack [F_b, F_b] [VInt 2, VInt (ajp_method_code (fr_method r))]) (\<lambda>b0.
     rbind (pack_opt (Some (fr_protocol r))) (\<lambda>b1.
     rbind (pack_opt (Some (fr_req_uri r))) (\<lambda>b2.
     rbind (pack_opt (fr_remote_addr r)) (\<lambda>b3.
     rbind (pack_opt (fr_remote_host r)) (\<lambda>b4.
     rbind (pack_opt (fr_server_name r)) (\<lambda>b5.
     rbind (struct_pack [F_h] [VInt (fr_server_port r)]) (\<lambda>b6.
     rbind (struct_pack [F_bool] [VBool (fr_is_ssl r)]) (\<lambda>b7.
     rbind (struct_pack [F_h] [VInt (int (length (fr_request_headers r)))]) (\<lambda>b8.
     rbind (pack_headers (fr_request_headers r)) (\<lambda>b9.
     rbind (pack_attributes (fr_attributes r)) (\<lambda>b10.
       Inr (b0 @ b1 @ b2 @ b3 @ b4 @ b5 @ b6 @ b7 @ b8 @ b9 @ b10 @ [255]))))))))))))"

text \<open>An AJP packet from the web server: the magic \<open>0x12 0x34\<close>, the body length as an
  unsigned 16-bit field, the body.\<close>
definition ajp_packet :: "bytes \<Rightarrow> py_error + bytes" where
  "ajp_packet body =
     rbind (struct_pack [F_b, F_b, F_H] [VInt 18, VInt 52, VInt (int (length body))]) (\<lambda>h. Inr (h @ body))"

section \<open>Reading\<close>

type_synonym 'a parser = "bytes \<Rightarrow> py_error + 'a \<times> bytes"

definition pbind :: "'a parser \<Rightarrow> ('a \<Rightarrow> 'b parser) \<Rightarrow> 'b parser" where
  "pbind p f bs = (case p bs of Inl e \<Rightarrow> Inl e | Inr (a, rest) \<Rightarrow> f a rest)"

definition pret :: "'a \<Rightarrow> 'a parser" where
  "pret a bs = Inr (a, bs)"

definition pfail :: "py_error \<Rightarrow> 'a parser" where
  "pfail e bs = Inl e"

definition str_of_bytes :: "bytes \<Rightarrow> string" where
  "str_of_bytes bs = map (\<lambda>b. char_of (unat b)) bs"

definition read_str :: "string option parser" where
  "read_str bs = (case unpack_string bs of Inl e \<Rightarrow> Inl e | Inr (r, rest) \<Rightarrow> Inr (map_option str_of_bytes r, rest))"

definition read_some_str :: "string parser" where
  "read_some_str = pbind read_str (\<lambda>s. case s of None \<Rightarrow> pfail ValueError | Some x \<Rightarrow> pret x)"

definition read_fixed :: "fmt_item list \<Rightarrow> pyval list parser" where
  "read_fixed fmt bs = unpack bs fmt"

definition read_header_name :: "string parser" where
  "read_header_name bs =
     (case bs of
        b # c # rest \<Rightarrow>
          if b = 160 then
            (if 1 \<le> unat c \<and> unat c \<le> length common_headers
             then Inr (common_headers ! (unat c - 1), rest) else Inl ValueError)
          else read_some_str bs
      | _ \<Rightarrow> Inl StructError)"

fun read_headers :: "nat \<Rightarrow> (string \<times> string) list parser" where
  "read_headers 0 = pret []"
| "read_headers (Suc n) =
     pbind read_header_name (\<lambda>k. pbind read_some_str (\<lambda>v.
     pbind (read_headers n) (\<lambda>hs. pret ((k, v) # hs))))"

definition method_of_code :: "int \<Rightarrow> ajp_method option" where
  "method_of_code c =
     (if c = 1 then Some AJP_OPTIONS else if c = 2 then Some AJP_GET else if c = 3 then Some AJP_HEAD
      else if c = 4 then Some AJP_POST else if c = 5 then Some AJP_PUT
      else if c = 6 then Some AJP_DELETE else if c = 7 then Some AJP_TRACE else None)"

lemma unpack_rest_length: "unpack bs fmt = Inr (vs, rest) \<Longrightarrow> length rest \<le> length bs"
  by (auto simp: unpack_def Let_def split: sum.splits)

lemma unpack_string_rest_length:
  "unpack_string bs = Inr (s, rest) \<Longrightarrow> length rest \<le> length bs"
  by (auto simp: unpack_string_def dest!: unpack_rest_length
           split: sum.splits list.splits pyval.splits if_splits) linarith

lemma read_some_str_rest_length:
  "read_some_str bs = Inr (s, rest) \<Longrightarrow> length rest \<le> length bs"
  by (auto simp: read_some_str_def read_str_def pbind_def pret_def pfail_def
           dest!: unpack_string_rest_length split: sum.splits option.splits)

text \<open>The attributes up to the request terminator \<open>0xFF\<close>.\<close>
function read_attributes :: "ajp_attribute list parser" where
  "read_attributes bs =
     (case bs of
        [] \<Rightarrow> Inl StructError
      | b # rest \<Rightarrow>
          if b = 255 then Inr ([], rest)
          else if b = 10 then
            (case read_some_str rest of
               Inl e \<Rightarrow> Inl e
             | Inr (n, r1) \<Rightarrow>
                 (case read_some_str r1 of
                    Inl e \<Rightarrow> Inl e
                  | Inr (v, r2) \<Rightarrow>
                      (case read_attributes r2 of
                         Inl e \<Rightarrow> Inl e
                       | Inr (as, r3) \<Rightarrow> Inr (Req_attribute n v # as, r3))))
          else Inl ValueError)"
  by auto
termination
  by (relation "measure length")
     (auto dest!: read_some_str_rest_length)

declare read_attributes.simps [simp del]

definition decode_forward_request :: "ajp_forward_request parser" where
  "decode_forward_request =
     pbind (read_fixed [F_b, F_b]) (\<lambda>vs.
       case vs of
         [VInt p, VInt mc] \<Rightarrow>
           (case (if p = 2 then method_of_code mc else None) of
              None \<Rightarrow> pfail ValueError
            | Some m \<Rightarrow>
                pbind read_some_str (\<lambda>protocol. pbind read_some_str (\<lambda>uri.
                pbind read_str (\<lambda>ra. pbind read_str (\<lambda>rh. pbind read_str (\<lambda>sn.
                pbind (read_fixed [F_h]) (\<lambda>v1. pbind (read_fixed [F_bool]) (\<lambda>v2.
                pbind (read_fixed [F_h]) (\<lambda>v3.
                  case (v1, v2, v3) of
                    ([VInt port], [VBool ssl], [VInt nh]) \<Rightarrow>
                      pbind (read_headers (nat nh)) (\<lambda>hs. pbind read_attributes (\<lambda>attrs.
                        pret \<lparr>fr_direction = SERVER_TO_CONTAINER, fr_method = m,
                              fr_protocol = protocol, fr_req_uri = uri, fr_remote_addr = ra,
                              fr_remote_host = rh, fr_server_name = sn, fr_server_port = port,
                              fr_request_headers = hs, fr_is_ssl = ssl, fr_attributes = attrs\<rparr>))
                  | _ \<Rightarrow> pfail ValueError)))))))))
       | _ \<Rightarrow> pfail ValueError)"

text \<open>An AJP packet read from a stream: the magic, the length, that many body bytes.\<close>
definition read_packet :: "bytes parser" where
  "read_packet =
     pbind (read_fixed [F_b, F_b, F_H]) (\<lambda>vs.
       case vs of
         [VInt m1, VInt m2, VInt l] \<Rightarrow>
           (\<lambda>bs. if m1 = 18 \<and> m2 = 52 \<and> nat l \<le> length bs then Inr (take (nat l) bs, drop (nat l) bs) else Inl StructError)
       | _ \<Rightarrow> pfail ValueError)"

text \<open>The requests the encoder is meant for: strings of ASCII characters that fit the
  signed length field, a port and a header count that fit theirs, \<open>SC_REQ_\<close> names that
  have a code.\<close>
definition ascii_ok :: "string \<Rightarrow> bool" where
  "ascii_ok s \<longleftrightarrow> list_all (\<lambda>c. of_char c < (128::nat)) s \<and> length s \<le> 32767"

definition header_name_ok :: "string \<Rightarrow> bool" where
  "header_name_ok n \<longleftrightarrow> (if take 6 n = ''SC_REQ'' then n \<in> set common_headers else ascii_ok n)"

definition header_ok :: "string \<times> string \<Rightarrow> bool" where
  "header_ok h \<longleftrightarrow> header_name_ok (fst h) \<and> ascii_ok (snd h)"

fun attribute_ok :: "ajp_attribute \<Rightarrow> bool" where
  "attribute_ok (Req_attribute n v) \<longleftrightarrow> ascii_ok n \<and> ascii_ok v"

definition fr_wf :: "ajp_forward_request \<Rightarrow> bool" where
  "fr_wf r \<longleftrightarrow>
     fr_direction r = SERVER_TO_CONTAINER \<and> ascii_ok (fr_protocol r) \<and> ascii_ok (fr_req_uri r) \<and>
     pred_option ascii_ok (fr_remote_addr r) \<and> pred_option ascii_ok (fr_remote_host r) \<and>
     pred_option ascii_ok (fr_server_name r) \<and>
     - 32768 \<le> fr_server_port r \<and> fr_server_port r \<le> 32767 \<and>
     length (fr_request_headers r) \<le> 32767 \<and> list_all header_ok (fr_request_headers r) \<and>
     list_all attribute_ok (fr_attributes r)"

section \<open>Field by field\<close>

lemma rbind_Inr_iff: "rbind x f = Inr y \<longleftrightarrow> (\<exists>a. x = Inr a \<and> f a = Inr y)"
  by (cases x) simp_all

lemma pbind_Inr [simp]: "p bs = Inr (a, rest) \<Longrightarrow> pbind p f bs = f a rest"
  by (simp add: pbind_def)

lemma str_of_bytes_pystr [simp]: "str_of_bytes (map of_nat (pystr_of s)) = s"
  by (simp add: str_of_bytes_def pystr_of_def unat_of_nat comp_def)

lemma ascii_pystr: "ascii_ok s \<Longrightarrow> list_all (\<lambda>c. c < 128) (pystr_of s) \<and> length (pystr_of s) \<le> 32767"
  by (simp add: ascii_ok_def pystr_of_def list_all_iff)

lemma pack_opt_ok: "pred_option ascii_ok s \<Longrightarrow> \<exists>b. pack_opt s = Inr b"
  by (cases s) (auto simp: pack_opt_def pack_string_None pack_string_Some utf8_encode_ascii dest!: ascii_pystr)

lemma read_str_pack:
  assumes "pack_opt s = Inr b" and "pred_option ascii_ok s"
  shows "read_str (b @ rest) = Inr (s, rest)"
proof (cases s)
  case None
  have "be16 (- 1) = [255, 255]" by code_simp
  with assms(1) None have "b = be16 (- 1)" by (simp add: pack_opt_def pack_string_None)
  with None show ?thesis by (simp only:) (simp add: read_str_def unpack_string_be16)
next
  case (Some x)
  with assms(2) have a: "list_all (\<lambda>c. c < 128) (pystr_of x)" "length (pystr_of x) \<le> 32767"
    by (simp_all add: ascii_pystr)
  from pack_unpack_string_prefix [OF utf8_encode_ascii [OF a(1)] a(2), of rest]
  obtain bs where "pack_string (Some (pystr_of x)) = Inr bs"
    "unpack_string (bs @ rest) = Inr (Some (take (length (pystr_of x)) (map of_nat (pystr_of x))), rest)"
    by blast
  with assms(1) Some show ?thesis by (simp add: pack_opt_def read_str_def)
qed

lemma read_some_str_pack:
  "pack_opt (Some s) = Inr b \<Longrightarrow> ascii_ok s \<Longrightarrow> read_some_str (b @ rest) = Inr (s, rest)"
  using read_str_pack [of "Some s" b rest] by (simp add: read_some_str_def pret_def)

lemma read_fixed_pack:
  assumes "struct_pack fmt vs = Inr b" and "list_all2 item_canon fmt vs"
  shows "read_fixed fmt (b @ rest) = Inr (vs, rest)"
proof -
  from struct_pack_canon [OF assms(2)] assms(1)
  have "length b = calcsize fmt" "unpack_items fmt b = vs" by auto
  then show ?thesis by (simp add: read_fixed_def unpack_def struct_unpack_def)
qed

lemma py_index_nth: "py_index xs x = Inr i \<Longrightarrow> i < length xs \<and> xs ! i = x"
  by (induction xs arbitrary: i) (auto simp: rbind_Inr_iff split: if_splits)

lemma py_index_mem: "x \<in> set xs \<Longrightarrow> \<exists>i. py_index xs x = Inr i"
  by (induction xs) auto

lemma be16_hd_small:
  assumes "l \<le> 32767"
  shows "unat (hd (be16 (word_of_nat l :: 16 word))) < 128"
proof -
  from assms have "l div 256 < 128" by simp
  moreover have "unat (word_of_nat l :: 16 word) = l" using assms by (simp add: unat_of_nat)
  ultimately show ?thesis
    by (simp only: be16_def list.sel unsigned_ucast_eq unsigned_drop_bit_eq)
       (simp add: drop_bit_eq_div take_bit_eq_mod)
qed

lemma unat_code_byte: "i < 255 \<Longrightarrow> unat (word_of_nat i + 1 :: 8 word) = Suc i"
proof -
  assume "i < 255"
  then have "unat (word_of_nat (Suc i) :: 8 word) = Suc i" by (simp only: unat_of_nat) simp
  then show ?thesis by (simp add: add.commute)
qed

lemma length_common_headers [simp]: "length common_headers = 14"
  by (simp add: common_headers_def)

lemma pack_opt_Some_ascii:
  "ascii_ok s \<Longrightarrow>
     pack_opt (Some s) = Inr (be16 (word_of_nat (length s)) @ map of_nat (pystr_of s) @ [0])"
  using ascii_pystr [of s]
  by (simp add: pack_opt_def pack_string_Some utf8_encode_ascii) (simp add: pystr_of_def)

lemma header_ok_pair [simp]: "header_ok (n, v) \<longleftrightarrow> header_name_ok n \<and> ascii_ok v"
  by (simp add: header_ok_def)

lemma pack_header_name_ok:
  assumes "header_name_ok n"
  shows "\<exists>b. pack_header_name n = Inr b"
proof (cases "take 6 n = ''SC_REQ''")
  case True
  with assms obtain i where i: "py_index common_headers n = Inr i"
    by (auto simp: header_name_ok_def dest: py_index_mem)
  from py_index_nth [OF i] have "i < 14" by simp
  with True i show ?thesis by (simp add: pack_header_name_def pack_int_def)
next
  case False
  with assms pack_opt_ok [of "Some n"] show ?thesis by (simp add: header_name_ok_def pack_header_name_def)
qed

lemma read_header_name_pack:
  assumes "pack_header_name n = Inr b" and "header_name_ok n"
  shows "read_header_name (b @ rest) = Inr (n, rest)"
proof (cases "take 6 n = ''SC_REQ''")
  case True
  with assms obtain i where i: "py_index common_headers n = Inr i"
    and b: "struct_pack [F_B, F_B] [VInt 160, VInt (int i + 1)] = Inr b"
    by (auto simp: pack_header_name_def rbind_Inr_iff)
  from py_index_nth [OF i] have "i < 14" "common_headers ! i = n" by (simp_all add: common_headers_def)
  with b show ?thesis
    by (auto simp: pack_int_def read_header_name_def unat_code_byte)
next
  case False
  with assms have a: "ascii_ok n" and b: "b = be16 (word_of_nat (length n)) @ map of_nat (pystr_of n) @ [0]"
    by (simp_all add: header_name_ok_def pack_header_name_def pack_opt_Some_ascii)
  from a have "unat (hd (be16 (word_of_nat (length n) :: 16 word))) < 128"
    by (intro be16_hd_small) (simp add: ascii_ok_def)
  moreover obtain x y where "be16 (word_of_nat (length n) :: 16 word) = [x, y]" by (simp add: be16_def)
  ultimately have "x \<noteq> 160" by auto
  moreover have "read_some_str (b @ rest) = Inr (n, rest)"
    using read_some_str_pack [of n b rest] a b pack_opt_Some_ascii [OF a] by simp
  ultimately show ?thesis using b \<open>be16 _ = [x, y]\<close> by (simp add: read_header_name_def)
qed

lemma pack_headers_ok: "list_all header_ok hs \<Longrightarrow> \<exists>b. pack_headers hs = Inr b"
proof (induction hs)
  case (Cons h hs)
  obtain n v where h: "h = (n, v)" by fastforce
  with Cons obtain bn bv br where "pack_header_name n = Inr bn" "pack_opt (Some v) = Inr bv"
    "pack_headers hs = Inr br"
    using pack_header_name_ok pack_opt_ok [of "Some v"] by fastforce
  with h show ?case by simp
qed simp

lemma read_headers_pack:
  "pack_headers hs = Inr b \<Longrightarrow> list_all header_ok hs \<Longrightarrow>
     read_headers (length hs) (b @ rest) = Inr (hs, rest)"
proof (induction hs arbitrary: b)
  case Nil
  then show ?case by (simp add: pret_def)
next
  case (Cons h hs)
  obtain n v where h: "h = (n, v)" by fastforce
  with Cons.prems obtain bn bv br where p: "pack_header_name n = Inr bn" "pack_opt (Some v) = Inr bv"
    "pack_headers hs = Inr br" "b = bn @ bv @ br"
    by (auto simp: rbind_Inr_iff)
  from Cons.prems h have ok: "header_name_ok n" "ascii_ok v" "list_all header_ok hs"
    by simp_all
  from p ok Cons.IH [OF p(3) ok(3)] h show ?case
    by (simp add: read_header_name_pack read_some_str_pack pret_def)
qed

lemma pack_attributes_ok: "list_all attribute_ok as \<Longrightarrow> \<exists>b. pack_attributes as = Inr b"
proof (induction as)
  case (Cons a as)
  obtain n v where a: "a = Req_attribute n v" by (cases a)
  with Cons have "ascii_ok n" "ascii_ok v" "\<exists>b. pack_attributes as = Inr b" by simp_all
  with pack_opt_ok [of "Some n"] pack_opt_ok [of "Some v"] a show ?case by (auto simp: pack_int_def)
qed simp

lemma read_attributes_pack:
  "pack_attributes as = Inr b \<Longrightarrow> list_all attribute_ok as \<Longrightarrow>
     read_attributes (b @ 255 # rest) = Inr (as, rest)"
proof (induction as arbitrary: b)
  case Nil
  then show ?case by (subst read_attributes.simps) simp
next
  case (Cons a as)
  obtain n v where a: "a = Req_attribute n v" by (cases a)
  with Cons.prems obtain bn bv br where p: "pack_opt (Some n) = Inr bn" "pack_opt (Some v) = Inr bv"
    "pack_attributes as = Inr br" "b = 10 # bn @ bv @ br"
    by (auto simp: rbind_Inr_iff pack_int_def)
  from Cons.prems a have ok: "ascii_ok n" "ascii_ok v" "list_all attribute_ok as" by simp_all
  from p ok Cons.IH [OF p(3) ok(3)] a show ?case
    by (subst read_attributes.simps) (simp add: read_some_str_pack)
qed

lemma method_of_code_ajp [simp]: "method_of_code (ajp_method_code m) = Some m"
  by (cases m) (simp_all add: ajp_method_code_def method_of_code_def)

lemma ajp_method_code_canon [simp]: "item_canon F_b (VInt (ajp_method_code m))"
  by (cases m) (simp_all add: ajp_method_code_def)

lemma item_canon_h [simp]: "item_canon F_h (VInt i) \<longleftrightarrow> - 32768 \<le> i \<and> i \<le> 32767"
  by simp

lemma struct_pack_ok: "list_all2 item_canon fmt vs \<Longrightarrow> \<exists>b. struct_pack fmt vs = Inr b"
  using struct_pack_canon by blast

lemma encode_forward_request_ok:
  assumes wf: "fr_wf r"
  shows "\<exists>bs. encode_forward_request r = Inr bs"
proof -
  from wf have ok: "ascii_ok (fr_protocol r)" "ascii_ok (fr_req_uri r)"
    "pred_option ascii_ok (fr_remote_addr r)" "pred_option ascii_ok (fr_remote_host r)"
    "pred_option ascii_ok (fr_server_name r)" "list_all header_ok (fr_request_headers r)"
    "list_all attribute_ok (fr_attributes r)"
    "list_all2 item_canon [F_h] [VInt (fr_server_port r)]"
    "list_all2 item_canon [F_bool] [VBool (fr_is_ssl r)]"
    "list_all2 item_canon [F_h] [VInt (int (length (fr_request_headers r)))]"
    by (simp_all add: fr_wf_def)
  have c0: "list_all2 item_canon [F_b, F_b] [VInt 2, VInt (ajp_method_code (fr_method r))]"
    using ajp_method_code_canon [of "fr_method r"] by simp
  obtain b0 b1 b2 b3 b4 b5 b6 b7 b8 b9 b10 where
    "struct_pack [F_b, F_b] [VInt 2, VInt (ajp_method_code (fr_method r))] = Inr b0"
    "pack_opt (Some (fr_protocol r)) = Inr b1" "pack_opt (Some (fr_req_uri r)) = Inr b2"
    "pack_opt (fr_remote_addr r) = Inr b3" "pack_opt (fr_remote_host r) = Inr b4"
    "pack_opt (fr_server_name r) = Inr b5" "struct_pack [F_h] [VInt (fr_server_port r)] = Inr b6"
    "struct_pack [F_bool] [VBool (fr_is_ssl r)] = Inr b7"
    "struct_pack [F_h] [VInt (int (length (fr_request_headers r)))] = Inr b8"
    "pack_headers (fr_request_headers r) = Inr b9" "pack_attributes (fr_attributes r) = Inr b10"
    using struct_pack_ok [OF c0] pack_opt_ok [of "Some (fr_protocol r)"] pack_opt_ok [of "Some (fr_req_uri r)"]
      pack_opt_ok [OF ok(3)] pack_opt_ok [OF ok(4)] pack_opt_ok [OF ok(5)]
      struct_pack_ok [OF ok(8)] struct_pack_ok [OF ok(9)] struct_pack_ok [OF ok(10)]
      pack_headers_ok [OF ok(6)] pack_attributes_ok [OF ok(7)] ok(1,2)
    by (metis option.pred_inject(2))
  then show ?thesis by (simp add: encode_forward_request_def)
qed

lemma decode_encode_forward_request:
  assumes enc: "encode_forward_request r = Inr bs" and wf: "fr_wf r"
  shows "decode_forward_request (bs @ rest) = Inr (r, rest)"
proof -
  from enc obtain b0 b1 b2 b3 b4 b5 b6 b7 b8 b9 b10 where
    p: "struct_pack [F_b, F_b] [VInt 2, VInt (ajp_method_code (fr_method r))] = Inr b0"
       "pack_opt (Some (fr_protocol r)) = Inr b1" "pack_opt (Some (fr_req_uri r)) = Inr b2"
       "pack_opt (fr_remote_addr r) = Inr b3" "pack_opt (fr_remote_host r) = Inr b4"
       "pack_opt (fr_server_name r) = Inr b5" "struct_pack [F_h] [VInt (fr_server_port r)] = Inr b6"
       "struct_pack [F_bool] [VBool (fr_is_ssl r)] = Inr b7"
       "struct_pack [F_h] [VInt (int (length (fr_request_headers r)))] = Inr b8"
       "pack_headers (fr_request_headers r) = Inr b9" "pack_attributes (fr_attributes r) = Inr b10"
       and bs: "bs = b0 @ b1 @ b2 @ b3 @ b4 @ b5 @ b6 @ b7 @ b8 @ b9 @ b10 @ [255]"
    by (auto simp: encode_forward_request_def rbind_Inr_iff)
  from wf have ok: "ascii_ok (fr_protocol r)" "ascii_ok (fr_req_uri r)"
    "pred_option ascii_ok (fr_remote_addr r)" "pred_option ascii_ok (fr_remote_host r)"
    "pred_option ascii_ok (fr_server_name r)" "list_all header_ok (fr_request_headers r)"
    "list_all attribute_ok (fr_attributes r)"
    by (simp_all add: fr_wf_def)
  note r0 = read_fixed_pack [OF p(1)] and r6 = read_fixed_pack [OF p(7)]
    and r7 = read_fixed_pack [OF p(8)] and r8 = read_fixed_pack [OF p(9)]
  have c0: "list_all2 item_canon [F_b, F_b] [VInt 2, VInt (ajp_method_code (fr_method r))]"
    using ajp_method_code_canon [of "fr_method r"] by simp
  from wf have c: "list_all2 item_canon [F_h] [VInt (fr_server_port r)]"
    "list_all2 item_canon [F_bool] [VBool (fr_is_ssl r)]"
    "list_all2 item_canon [F_h] [VInt (int (length (fr_request_headers r)))]"
    by (simp_all add: fr_wf_def)
  have "decode_forward_request (bs @ rest) =
          Inr (\<lparr>fr_direction = SERVER_TO_CONTAINER, fr_method = fr_method r,
                fr_protocol = fr_protocol r, fr_req_uri = fr_req_uri r,
                fr_remote_addr = fr_remote_addr r, fr_remote_host = fr_remote_host r,
                fr_server_name = fr_server_name r, fr_server_port = fr_server_port r,
                fr_request_headers = fr_request_headers r, fr_is_ssl = fr_is_ssl r,
                fr_attributes = fr_attributes r\<rparr>, rest)"
    unfolding bs decode_forward_request_def
    by (simp add: r0 [OF c0] r6 [OF c(1)] r7 [OF c(2)] r8 [OF c(3)]
        read_some_str_pack [OF p(2) ok(1)] read_some_str_pack [OF p(3) ok(2)]
        read_str_pack [OF p(4) ok(3)] read_str_pack [OF p(5) ok(4)] read_str_pack [OF p(6) ok(5)]
        read_headers_pack [OF p(10) ok(6)] read_attributes_pack [OF p(11) ok(7)] pret_def)
  with wf show ?thesis by (simp add: fr_wf_def)
qed

section \<open>Properties of the wire format\<close>

text \<open>C11: Round trip of the forward request: every well-formed request (ASCII strings
  that fit the signed length field, a port and a header count that fit theirs, coded
  \<open>SC_REQ_\<close> names) is encoded without an exception, and a container reading the bytes
  from a stream gets back the same request, with the stream left just after the
  request terminator.\<close>

theorem forward_request_roundtrip:
  assumes "fr_wf r"
  shows "\<exists>bs. encode_forward_request r = Inr bs \<and> decode_forward_request (bs @ rest) = Inr (r, rest)"
  using encode_forward_request_ok [OF assms] decode_encode_forward_request [OF _ assms] by blast

theorem forward_request_roundtrip_witness:
  "fr_wf ((prepare_ajp_forward_request (Some ''10.0.0.1'') ''/asdf'' AJP_GET)
            \<lparr>fr_attributes := [Req_attribute ''javax.servlet.include.path_info'' ''/WEB-INF/web.xml'']\<rparr>) \<and>
   (\<exists>bs. encode_forward_request ((prepare_ajp_forward_request (Some ''10.0.0.1'') ''/asdf'' AJP_GET)
            \<lparr>fr_attributes := [Req_attribute ''javax.servlet.include.path_info'' ''/WEB-INF/web.xml'']\<rparr>) = Inr bs \<and>
         decode_forward_request (bs @ [7]) =
           Inr ((prepare_ajp_forward_request (Some ''10.0.0.1'') ''/asdf'' AJP_GET)
            \<lparr>fr_attributes := [Req_attribute ''javax.servlet.include.path_info'' ''/WEB-INF/web.xml'']\<rparr>, [7]))"
proof -
  have wf: "fr_wf ((prepare_ajp_forward_request (Some ''10.0.0.1'') ''/asdf'' AJP_GET)
            \<lparr>fr_attributes := [Req_attribute ''javax.servlet.include.path_info'' ''/WEB-INF/web.xml'']\<rparr>)"
    by (simp add: fr_wf_def prepare_ajp_forward_request_def forward_headers_def ascii_ok_def
        header_name_ok_def common_headers_def)
  show ?thesis using forward_request_roundtrip [OF wf, of "[7]"] wf by blast
qed

text \<open>C13: Framing of an AJP packet: a body of at most 65535 bytes gets the magic
  \<open>0x12 0x34\<close> and its length in two bytes, four bytes in all, and reading the packet
  from a stream gives back exactly the body; a longer body makes \<open>struct.pack\<close> raise
  rather than wrap the length.\<close>

theorem ajp_packet_roundtrip:
  "(length body \<le> 65535 \<longrightarrow>
      (\<exists>p. ajp_packet body = Inr p \<and> length p = length body + 4 \<and> read_packet (p @ rest) = Inr (body, rest))) \<and>
   (65535 < length body \<longrightarrow> ajp_packet body = Inl StructError)"
proof (intro conjI impI)
  assume len: "length body \<le> 65535"
  then have c: "list_all2 item_canon [F_b, F_b, F_H] [VInt 18, VInt 52, VInt (int (length body))]"
    by simp
  from struct_pack_canon [OF c] obtain h where
    h: "struct_pack [F_b, F_b, F_H] [VInt 18, VInt 52, VInt (int (length body))] = Inr h"
       "length h = 4" by (auto simp: calcsize_def)
  have "read_packet ((h @ body) @ rest) = Inr (body, rest)"
    by (simp add: read_packet_def read_fixed_pack [OF h(1) c])
  with h show "\<exists>p. ajp_packet body = Inr p \<and> length p = length body + 4 \<and> read_packet (p @ rest) = Inr (body, rest)"
    by (simp add: ajp_packet_def)
next
  assume "65535 < length body"
  then show "ajp_packet body = Inl StructError" by (simp add: ajp_packet_def pack_int_def)
qed

theorem ajp_packet_roundtrip_witness:
  "ajp_packet [2, 2] = Inr [18, 52, 0, 2, 2, 2] \<and> read_packet ([18, 52, 0, 2, 2, 2] @ [9]) = Inr ([2, 2], [9]) \<and>
   ajp_packet (replicate 65536 0) = Inl StructError"
proof -
  have "ajp_packet [2, 2] = Inr [18, 52, 0, 2, 2, 2]" by code_simp
  moreover have "read_packet ([18, 52, 0, 2, 2, 2] @ [9]) = Inr ([2, 2], [9])"
    using ajp_packet_roundtrip [of "[2, 2]" "[9]"] calculation by simp
  moreover have "ajp_packet (replicate 65536 0) = Inl StructError"
    using ajp_packet_roundtrip [of "replicate 65536 0"] by simp
  ultimately show ?thesis by blast
qed

end
