(* ===== verification/Pool_Size.thy ===== *)
theory Pool_Size
  imports Prelude
begin

text \<open>
  \<open>adjust_thread_pool_size\<close> (\<open>src/TomcatScan.py\<close> lines 306-327): the size of the
  worker pool from the number of (target, username, password) combinations. Python ints
  are unbounded, so the arguments are \<open>int\<close>; \<open>//\<close> is floor division, which is
  \<open>div\<close> on \<open>int\<close>, and raises \<open>ZeroDivisionError\<close> for a zero divisor.
\<close>

definition adjust_thread_pool_size :: "int \<Rightarrow> int \<Rightarrow> int \<Rightarrow> int \<Rightarrow> py_error + int" where
  "adjust_thread_pool_size combination_count max_workers_limit min_workers combination_per_thread =
     (if combination_count \<le> 0 then Inr min_workers
      else if combination_per_thread = 0 then Inl ZeroDivisionError
      else
        (let calculated_workers =
               max ((combination_count + combination_per_thread - 1) div combination_per_thread)
                   min_workers;
             workers = min calculated_workers max_workers_limit
         in Inr workers))"

section \<open>Lemmas\<close>

text \<open>
  For a positive divisor, \<open>(c + k - 1) // k\<close> is the ceiling of \<open>c / k\<close>: the
  integer \<open>q\<close> with \<open>(q - 1) * k < c \<le> q * k\<close>.
\<close>

lemma ceil_div_int:
  fixes c k :: int
  assumes "0 < k"
  shows "((c + k - 1) div k - 1) * k < c \<and> c \<le> ((c + k - 1) div k) * k"
proof -
  let ?q = "(c + k - 1) div k" and ?r = "(c + k - 1) mod k"
  have eq: "?q * k + ?r = c + k - 1" by (rule div_mult_mod_eq)
  have r: "0 \<le> ?r" "?r < k" using assms by simp_all
  have m: "(?q - 1) * k = ?q * k - k" by (simp add: algebra_simps)
  from eq r m show ?thesis by linarith
qed

lemma ceil_div_unique:
  fixes c k q :: int
  assumes "0 < k" "(q - 1) * k < c" "c \<le> q * k"
  shows "q = (c + k - 1) div k"
proof -
  let ?Q = "(c + k - 1) div k"
  have Q: "(?Q - 1) * k < c" "c \<le> ?Q * k"
    using ceil_div_int [OF assms(1), of c] by simp_all
  have "(q - 1) * k < ?Q * k" using assms(2) Q(2) by simp
  then have "q - 1 < ?Q" using assms(1) by (simp add: mult_less_cancel_right)
  moreover have "(?Q - 1) * k < q * k" using Q(1) assms(3) by simp
  then have "?Q - 1 < q" using assms(1) by (simp add: mult_less_cancel_right)
  ultimately show ?thesis by simp
qed

section \<open>Properties of the pool sizing\<close>

text \<open>C16: With at least one combination and a positive number of combinations per thread,
  the pool size is \<open>min(max(ceil(c / k), min_workers), max_workers_limit)\<close>, the
  ceiling being the integer \<open>q\<close> with \<open>(q - 1) * k < c \<le> q * k\<close>; with no
  combination it is \<open>min_workers\<close>.\<close>

theorem adjust_thread_pool_size_ceiling:
  assumes "0 < c" and "0 < k"
  shows "\<exists>q. (q - 1) * k < c \<and> c \<le> q * k \<and>
           adjust_thread_pool_size c max_workers_limit min_workers k =
             Inr (min (max q min_workers) max_workers_limit)"
proof -
  let ?q = "(c + k - 1) div k"
  have "(?q - 1) * k < c \<and> c \<le> ?q * k" using assms(2) by (rule ceil_div_int)
  moreover have "adjust_thread_pool_size c max_workers_limit min_workers k =
                   Inr (min (max ?q min_workers) max_workers_limit)"
    using assms by (simp add: adjust_thread_pool_size_def)
  ultimately show ?thesis by blast
qed

theorem adjust_thread_pool_size_ceiling_witness:
  "(0 :: int) < 450 \<and> (0 :: int) < 200 \<and>
   adjust_thread_pool_size 450 10 1 200 = Inr 3 \<and> (3 - 1) * 200 < (450 :: int) \<and> 450 \<le> 3 * (200 :: int)"
proof -
  have h: "(0 :: int) < 450" "(0 :: int) < 200" by simp_all
  from adjust_thread_pool_size_ceiling [OF h, of 10 1] obtain q where
    q: "(q - 1) * 200 < 450" "450 \<le> q * 200"
       "adjust_thread_pool_size 450 10 1 200 = Inr (min (max q 1) 10)" by blast
  have "q = 3" using ceil_div_unique [of 200 q 450] q(1,2) by simp
  with q h show ?thesis by simp
qed

text \<open>C17: When \<open>min_workers \<le> max_workers_limit\<close>, every pool size the function
  returns lies between them.\<close>

theorem adjust_thread_pool_size_bounds:
  assumes "min_workers \<le> max_workers_limit"
    and "adjust_thread_pool_size c max_workers_limit min_workers k = Inr r"
  shows "min_workers \<le> r \<and> r \<le> max_workers_limit"
  using assms by (auto simp: adjust_thread_pool_size_def Let_def split: if_splits)

theorem adjust_thread_pool_size_bounds_witness:
  "(2 :: int) \<le> 10 \<and> adjust_thread_pool_size 5000 10 2 200 = Inr 10 \<and> 2 \<le> (10 :: int) \<and> (10 :: int) \<le> 10"
proof -
  have h: "(2 :: int) \<le> 10" "adjust_thread_pool_size 5000 10 2 200 = Inr 10"
    by (simp_all add: adjust_thread_pool_size_def)
  with adjust_thread_pool_size_bounds [OF h] show ?thesis by simp
qed

text \<open>The clamp is not checked against its bounds: when \<open>min_workers\<close> exceeds
  \<open>max_workers_limit\<close>, the pool size is \<open>max_workers_limit\<close> for every positive
  combination count and \<open>min_workers\<close> for none, so it lies outside \<open>[min, max]\<close>
  either way.\<close>

theorem adjust_thread_pool_size_min_above_max:
  assumes "max_workers_limit < min_workers" and "0 < k"
  shows "adjust_thread_pool_size c max_workers_limit min_workers k =
           Inr (if c \<le> 0 then min_workers else max_workers_limit)"
  using assms by (simp add: adjust_thread_pool_size_def)

theorem adjust_thread_pool_size_min_above_max_witness:
  "(4 :: int) < 8 \<and> (0 :: int) < 200 \<and> adjust_thread_pool_size 1000 4 8 200 = Inr 4"
  using adjust_thread_pool_size_min_above_max [of 4 8 200 1000] by simp

text \<open>A zero \<open>combination_per_thread\<close> (which \<open>validate_config\<close> does not reject)
  makes the sizing raise \<open>ZeroDivisionError\<close> as soon as there is a combination.\<close>

theorem adjust_thread_pool_size_zero_divisor:
  assumes "0 < c"
  shows "adjust_thread_pool_size c max_workers_limit min_workers 0 = Inl ZeroDivisionError"
  using assms by (simp add: adjust_thread_pool_size_def)

theorem adjust_thread_pool_size_zero_divisor_witness:
  "(0 :: int) < 12 \<and> adjust_thread_pool_size 12 10 1 0 = Inl ZeroDivisionError"
  using adjust_thread_pool_size_zero_divisor [of 12 10 1] by simp

end
