(* ===== verification/Thread_Pool.thy ===== *)
theory Thread_Pool
  imports Prelude "HOL-Library.Multiset"
begin

text \<open>
  The \<open>ThreadPoolExecutor\<close> of \<open>main\<close> (\<open>src/TomcatScan.py\<close> lines 610-617) as a
  step relation. Each task is submitted in order and is seen through the lines it
  appends to the output file, tagged with its index; the output file is the only
  resource the tasks share (spec, section 5). A pending task starts when fewer than
  \<open>workers\<close> tasks run (the executor's FIFO work queue); a running task appends its
  next line or finishes. One \<open>f.write(line + "\n")\<close> on a file opened for appending is
  one step: the model assumes, as the code does without a lock, that a line is written
  at once.
\<close>

record 'a pool =
  pending :: "(nat \<times> 'a list) list"
  running :: "(nat \<times> 'a list) list"
  out_lines :: "(nat \<times> 'a) list"

inductive pool_step :: "nat \<Rightarrow> 'a pool \<Rightarrow> 'a pool \<Rightarrow> bool" for workers where
  start: "length (running s) < workers \<Longrightarrow> pending s = t # q \<Longrightarrow>
            pool_step workers s (s\<lparr>pending := q, running := running s @ [t]\<rparr>)"
| emit: "i < length (running s) \<Longrightarrow> running s ! i = (k, l # ls) \<Longrightarrow>
            pool_step workers s (s\<lparr>running := (running s)[i := (k, ls)], out_lines := out_lines s @ [(k, l)]\<rparr>)"
| finish: "i < length (running s) \<Longrightarrow> running s ! i = (k, []) \<Longrightarrow>
            pool_step workers s (s\<lparr>running := take i (running s) @ drop (Suc i) (running s)\<rparr>)"

inductive_cases pool_stepE: "pool_step workers s s'"

text \<open>The state after \<open>executor.submit\<close> of every task, in the order of the URLs.\<close>
definition pool_init :: "'a list list \<Rightarrow> 'a pool" where
  "pool_init tasks = \<lparr>pending = zip [0..<length tasks] tasks, running = [], out_lines = []\<rparr>"

definition pool_done :: "'a pool \<Rightarrow> bool" where
  "pool_done s \<longleftrightarrow> pending s = [] \<and> running s = []"

section \<open>Lemmas\<close>

lemma split_at_nth:
  assumes "i < length r"
  shows "r @ p = take i r @ r ! i # (drop (Suc i) r @ p)"
  using id_take_nth_drop [OF assms] by (metis append.assoc append_Cons)

end
