(* ===== verification/Executor.thy ===== *)
theory Executor
  imports Thread_Pool
begin

text \<open>
  The executor of \<open>main\<close> (\<open>src/TomcatScan.py\<close> lines 610-617) with the order in
  which its futures complete, and \<open>main\<close>'s loop
  \<open>for future in as_completed(futures): result = future.result()\<close>. A state is the
  pool of \<open>Thread_Pool\<close> with the indices of the finished tasks in completion order;
  \<open>exec_step\<close> is \<open>pool_step\<close> recording each finish. \<open>as_completed\<close> first yields,
  in no fixed order, the futures already finished when it is called, then the others as
  they complete; \<open>future.result()\<close> re-raises a task's exception, so \<open>main\<close> raises
  the exception of the first failed future in that order. Leaving the \<open>with\<close> block
  waits for every task, so all tasks run to the end either way.
\<close>

record 'a exec =
  ex_pool :: "'a pool"
  done_order :: "nat list"

inductive exec_step :: "nat \<Rightarrow> 'a exec \<Rightarrow> 'a exec \<Rightarrow> bool" for workers where
  start: "length (running (ex_pool e)) < workers \<Longrightarrow> pending (ex_pool e) = t # q \<Longrightarrow>
            exec_step workers e
              (e\<lparr>ex_pool := (ex_pool e)\<lparr>pending := q, running := running (ex_pool e) @ [t]\<rparr>\<rparr>)"
| emit: "i < length (running (ex_pool e)) \<Longrightarrow> running (ex_pool e) ! i = (k, l # ls) \<Longrightarrow>
            exec_step workers e
              (e\<lparr>ex_pool := (ex_pool e)\<lparr>running := (running (ex_pool e))[i := (k, ls)],
                                         out_lines := out_lines (ex_pool e) @ [(k, l)]\<rparr>\<rparr>)"
| finish: "i < length (running (ex_pool e)) \<Longrightarrow> running (ex_pool e) ! i = (k, []) \<Longrightarrow>
            exec_step workers e
              \<lparr>ex_pool = (ex_pool e)\<lparr>running := take i (running (ex_pool e)) @ drop (Suc i) (running (ex_pool e))\<rparr>,
               done_order = done_order e @ [k]\<rparr>"

definition exec_init :: "'a list list \<Rightarrow> 'a exec" where
  "exec_init tasks = \<lparr>ex_pool = pool_init tasks, done_order = []\<rparr>"

text \<open>The task indices of a state: finished, running, pending.\<close>
definition task_ids :: "'a exec \<Rightarrow> nat list" where
  "task_ids e = done_order e @ map fst (running (ex_pool e) @ pending (ex_pool e))"

text \<open>The exception \<open>main\<close> raises when \<open>as_completed\<close> yields the futures in the order
  \<open>ord\<close>: the first failed one's (\<open>out k\<close> is the exception task \<open>k\<close> raised).\<close>
fun first_exc :: "(nat \<Rightarrow> 'e option) \<Rightarrow> nat list \<Rightarrow> 'e option" where
  "first_exc out [] = None"
| "first_exc out (k # ks) = (case out k of Some x \<Rightarrow> Some x | None \<Rightarrow> first_exc out ks)"

text \<open>The orders \<open>as_completed\<close> may yield for the completion order \<open>d\<close>: some prefix
  of \<open>d\<close> (the futures done when it is called) in any order, then the rest of \<open>d\<close>.\<close>
definition as_completed_order :: "nat list \<Rightarrow> nat list \<Rightarrow> bool" where
  "as_completed_order d ord \<longleftrightarrow>
     list_ex (\<lambda>i. mset (take i ord) = mset (take i d) \<and> drop i ord = drop i d) [0..<Suc (length d)]"

section \<open>Lemmas\<close>

lemma exec_step_pool: "exec_step workers e e' \<Longrightarrow> pool_step workers (ex_pool e) (ex_pool e')"
proof (induction rule: exec_step.induct)
  case (start e t q)
  then show ?case using pool_step.start [of "ex_pool e" workers t q] by simp
next
  case (emit i e k l ls)
  then show ?case using pool_step.emit [of i "ex_pool e" k l ls workers] by simp
next
  case (finish i e k)
  then show ?case using pool_step.finish [of i "ex_pool e" k workers] by simp
qed

lemma exec_star_pool:
  "(exec_step workers)\<^sup>*\<^sup>* e e' \<Longrightarrow> (pool_step workers)\<^sup>*\<^sup>* (ex_pool e) (ex_pool e')"
  by (induction rule: rtranclp_induct) (auto intro: rtranclp.rtrancl_into_rtrancl exec_step_pool)

lemma exec_step_ids: "exec_step workers e e' \<Longrightarrow> mset (task_ids e') = mset (task_ids e)"
proof (induction rule: exec_step.induct)
  case (start e t q)
  then show ?case by (simp add: task_ids_def)
next
  case (emit i e k l ls)
  then have "map fst ((running (ex_pool e))[i := (k, ls)]) = map fst (running (ex_pool e))"
    by (metis fst_conv list_update_id map_update)
  then show ?case by (simp add: task_ids_def)
next
  case (finish i e k)
  let ?r = "running (ex_pool e)" and ?p = "pending (ex_pool e)"
  have "?r @ ?p = take i ?r @ (k, []) # (drop (Suc i) ?r @ ?p)"
    using split_at_nth [OF finish(1), of ?p] finish(2) by simp
  then have "mset (map fst (?r @ ?p)) = mset (map fst (take i ?r @ drop (Suc i) ?r @ ?p)) + {#k#}"
    by (simp only:) simp
  then show ?case by (simp add: task_ids_def)
qed

lemma exec_star_ids:
  "(exec_step workers)\<^sup>*\<^sup>* (exec_init tasks) e \<Longrightarrow> mset (task_ids e) = mset [0..<length tasks]"
proof (induction rule: rtranclp_induct)
  case base
  then show ?case by (simp add: task_ids_def exec_init_def pool_init_def)
next
  case (step e e')
  then show ?case using exec_step_ids by metis
qed

lemma exec_done_order:
  assumes "(exec_step workers)\<^sup>*\<^sup>* (exec_init tasks) e" and "pool_done (ex_pool e)"
  shows "mset (done_order e) = mset [0..<length tasks]"
  using exec_star_ids [OF assms(1)] assms(2) by (simp add: task_ids_def pool_done_def)

lemma first_exc_None: "first_exc out ord = None \<longleftrightarrow> (\<forall>k\<in>set ord. out k = None)"
  by (induction ord) (auto split: option.splits)

lemma first_exc_Some: "first_exc out ord = Some x \<Longrightarrow> \<exists>k\<in>set ord. out k = Some x"
  by (induction ord) (auto split: option.splits if_splits)

lemma as_completed_mset: "as_completed_order d ord \<Longrightarrow> mset ord = mset d"
proof -
  assume "as_completed_order d ord"
  then obtain i where "mset (take i ord) = mset (take i d)" "drop i ord = drop i d"
    unfolding as_completed_order_def list_ex_iff by blast
  then have "mset (take i ord @ drop i ord) = mset (take i d @ drop i d)"
    by (simp only: mset_append)
  then show ?thesis by simp
qed

lemma exec_ab1_run:
  "(exec_step 1)\<^sup>*\<^sup>* (exec_init [[''a''], [''b'']])
     \<lparr>ex_pool = \<lparr>pending = [], running = [], out_lines = [(0, ''a''), (1, ''b'')]\<rparr>, done_order = [0, 1]\<rparr>"
proof -
  let ?e0 = "exec_init [[''a''], [''b'']]"
  let ?e1 = "\<lparr>ex_pool = \<lparr>pending = [(1, [''b''])], running = [(0, [''a''])], out_lines = []\<rparr>, done_order = []\<rparr>"
  let ?e2 = "\<lparr>ex_pool = \<lparr>pending = [(1, [''b''])], running = [(0, [])], out_lines = [(0, ''a'')]\<rparr>, done_order = []\<rparr>"
  let ?e3 = "\<lparr>ex_pool = \<lparr>pending = [(1, [''b''])], running = [], out_lines = [(0, ''a'')]\<rparr>, done_order = [0]\<rparr>"
  let ?e4 = "\<lparr>ex_pool = \<lparr>pending = [], running = [(1, [''b''])], out_lines = [(0, ''a'')]\<rparr>, done_order = [0]\<rparr>"
  let ?e5 = "\<lparr>ex_pool = \<lparr>pending = [], running = [(1, [])], out_lines = [(0, ''a''), (1, ''b'')]\<rparr>, done_order = [0]\<rparr>"
  have "exec_step 1 ?e0 ?e1"
    using exec_step.start [of ?e0 1 "(0, [''a''])" "[(1, [''b''])]"]
    by (simp add: exec_init_def pool_init_def)
  moreover have "exec_step 1 ?e1 ?e2"
    using exec_step.emit [of 0 ?e1 0 "''a''" "[]" 1] by simp
  moreover have "exec_step 1 ?e2 ?e3"
    using exec_step.finish [of 0 ?e2 0 1] by simp
  moreover have "exec_step 1 ?e3 ?e4"
    using exec_step.start [of ?e3 1 "(1, [''b''])" "[]"] by simp
  moreover have "exec_step 1 ?e4 ?e5"
    using exec_step.emit [of 0 ?e4 1 "''b''" "[]" 1] by simp
  moreover have "exec_step 1 ?e5
     \<lparr>ex_pool = \<lparr>pending = [], running = [], out_lines = [(0, ''a''), (1, ''b'')]\<rparr>, done_order = [0, 1]\<rparr>"
    using exec_step.finish [of 0 ?e5 1 1] by simp
  ultimately show ?thesis
    by (meson converse_rtranclp_into_rtranclp rtranclp.rtrancl_refl)
qed

section \<open>Properties of the executor and of main's loop\<close>

text \<open>C15: \<open>main\<close> raises exactly when some task raised, and only an exception one of
  the tasks raised, whatever order \<open>as_completed\<close> yields the futures in. Which one it
  raises is not fixed by the URL order: futures already done when \<open>as_completed\<close> is
  called may come in any order.\<close>

theorem main_exception:
  assumes "(exec_step workers)\<^sup>*\<^sup>* (exec_init tasks) e" and "pool_done (ex_pool e)"
    and "as_completed_order (done_order e) ord"
  shows "(first_exc out ord = None \<longleftrightarrow> (\<forall>k<length tasks. out k = None)) \<and>
         (\<forall>x. first_exc out ord = Some x \<longrightarrow> (\<exists>k<length tasks. out k = Some x))"
proof -
  have "mset ord = mset [0..<length tasks]"
    using as_completed_mset [OF assms(3)] exec_done_order [OF assms(1,2)] by simp
  then have s: "set ord = {0..<length tasks}" by (metis mset_eq_setD set_upt)
  have "first_exc out ord = None \<longleftrightarrow> (\<forall>k<length tasks. out k = None)"
    using first_exc_None [of out ord] s by auto
  moreover have "\<forall>x. first_exc out ord = Some x \<longrightarrow> (\<exists>k<length tasks. out k = Some x)"
    using first_exc_Some [of out ord] s by fastforce
  ultimately show ?thesis by blast
qed

theorem main_exception_witness:
  "as_completed_order [0, 1] [1, 0] \<and>
   first_exc (\<lambda>k. Some (k :: nat)) [1, 0] = Some 1 \<and>
   (\<exists>k<length [[''a''], [''b'']]. Some k = Some (1 :: nat))"
proof -
  have o: "as_completed_order (done_order (\<lparr>ex_pool = \<lparr>pending = [], running = [],
             out_lines = [(0, ''a''), (1, ''b'')]\<rparr>, done_order = [0, 1]\<rparr> :: string exec)) [1, 0]"
    by (simp add: as_completed_order_def)
  have d: "pool_done (\<lparr>pending = [], running = [], out_lines = [(0, ''a''), (1, ''b'')]\<rparr> :: string pool)"
    by (simp add: pool_done_def)
  from main_exception [OF exec_ab1_run _ o, of "\<lambda>k. Some k"] d o show ?thesis by simp
qed

end
