(* ===== verification/Scan_Main.thy ===== *)
theory Scan_Main
  imports Exploit Pool_Size Executor
begin

text \<open>
  \<open>main\<close> (\<open>src/TomcatScan.py\<close> lines 581-617), \<open>load_config\<close> (lines 35-46) and
  \<open>load_file\<close> (lines 50-64). \<open>main_prog\<close> loads \<open>config.yaml\<close> (the YAML parser is
  the library's, given as a function), validates it, loads the three lists, sizes the
  pool with \<open>adjust_thread_pool_size\<close> and creates the executor, which refuses a size
  below 1 (\<open>ValueError\<close>). \<open>scan_main\<close> then runs the tasks one after the other in
  submission order, keeping the first exception (\<open>run_tasks_err\<close>: the exception
  \<open>first_exc\<close> of theory \<open>Executor\<close> picks when \<open>as_completed\<close> yields the
  futures in submission order); the schedules of larger pools and the exception
  \<open>main\<close> re-raises for each of them are those of theory \<open>Executor\<close>. An exception of
  a task does not stop the others (the executor's shutdown waits for all of them).
\<close>

text \<open>The characters Python's \<open>str.strip()\<close> removes, among the 256 a char holds.\<close>
definition py_whitespace :: string where
  "py_whitespace = [CHR 0x09, CHR 0x0A, CHR 0x0B, CHR 0x0C, CHR 0x0D, CHR 0x1C, CHR 0x1D, CHR 0x1E,
                    CHR 0x1F, CHR 0x20, CHR 0x85, CHR 0xA0]"

definition py_strip :: "string \<Rightarrow> string" where
  "py_strip s = rstrip py_whitespace (dropWhile (\<lambda>c. c \<in> set py_whitespace) s)"

text \<open>A path of the file system: \<open>None\<close> when it is not a regular file
  (\<open>os.path.isfile\<close> is false); otherwise the lines \<open>readlines()\<close> returns after
  UTF-8 decoding and newline translation, or the exception opening or decoding raises
  (\<open>PermissionError\<close>, \<open>UnicodeDecodeError\<close>).\<close>
datatype file_entry = Text "string list" | Unreadable py_error

type_synonym file_system = "string \<Rightarrow> file_entry option"

text \<open>\<open>load_file(file_path)\<close> (lines 50-64): no line for a path that is not a file,
  the stripped lines otherwise.\<close>
definition load_file :: "file_system \<Rightarrow> string \<Rightarrow> py_error + string list" where
  "load_file fs file_path =
     (case fs file_path of
        None \<Rightarrow> Inr []
      | Some (Text ls) \<Rightarrow> Inr (map py_strip ls)
      | Some (Unreadable e) \<Rightarrow> Inl e)"

text \<open>\<open>load_config(config_file)\<close> (lines 35-46): \<open>open\<close> raises
  \<open>FileNotFoundError\<close> (an \<open>OSError\<close>) for a missing file; the parse is the library's
  \<open>yaml.safe_load\<close>, given as the function \<open>safe_load\<close> from the file's lines to the
  document or \<open>YAMLError\<close> (an empty file is the document \<open>None\<close>).\<close>
definition load_config :: "(string list \<Rightarrow> py_error + yval) \<Rightarrow> file_system \<Rightarrow> string \<Rightarrow> py_error + yval" where
  "load_config safe_load fs config_file =
     (case fs config_file of
        None \<Rightarrow> Inl OSError
      | Some (Text ls) \<Rightarrow> safe_load ls
      | Some (Unreadable e) \<Rightarrow> Inl e)"

record scan_plan =
  plan_urls :: "string list"
  plan_usernames :: "string list"
  plan_passwords :: "string list"
  plan_workers :: int

text \<open>Lines 586-610 up to the creation of the executor: \<open>None\<close> when the configuration
  is rejected.\<close>
definition main_setup :: "yval \<Rightarrow> file_system \<Rightarrow> py_error + scan_plan option" where
  "main_setup config fs =
     rbind (validate_config config) (\<lambda>ok.
     if \<not> ok then Inr None else
     rbind (rbind (rbind (lookup_path config [''files'', ''url_file'']) yval_str) (load_file fs)) (\<lambda>urls.
     rbind (rbind (rbind (lookup_path config [''files'', ''user_file'']) yval_str) (load_file fs)) (\<lambda>usernames.
     rbind (rbind (rbind (lookup_path config [''files'', ''passwd_file'']) yval_str) (load_file fs)) (\<lambda>passwords.
     rbind (lookup_path config [''files'', ''output_file'']) (\<lambda>output_file.
     rbind (cfg_int config [''thread_pool'', ''max_workers_limit'']) (\<lambda>max_workers_limit.
     rbind (cfg_int config [''thread_pool'', ''min_workers'']) (\<lambda>min_workers.
     rbind (rbind (py_getitem config ''thread_pool'') (\<lambda>tp.
              rbind (py_get tp ''combination_per_thread'' (YInt 200)) yval_int)) (\<lambda>combination_per_thread.
       (let combination_count = int (length urls * length usernames * length passwords)
        in rbind (adjust_thread_pool_size combination_count max_workers_limit min_workers
                    combination_per_thread) (\<lambda>workers.
             if workers \<le> 0 then Inl ValueError
             else Inr (Some \<lparr>plan_urls = urls, plan_usernames = usernames,
                             plan_passwords = passwords, plan_workers = workers\<rparr>)))))))))))"

text \<open>The tasks run in order; every task runs whatever the others raised, and the first
  exception is kept.\<close>
fun run_tasks :: "(string \<Rightarrow> unit eff) \<Rightarrow> string list \<Rightarrow> py_error option \<Rightarrow> world \<Rightarrow>
    py_error option \<times> world" where
  "run_tasks task [] err w = (err, w)"
| "run_tasks task (url # urls) err w =
     (case task url w of
        (Inl e, w1) \<Rightarrow> run_tasks task urls (case err of None \<Rightarrow> Some e | Some e0 \<Rightarrow> Some e0) w1
      | (Inr u, w1) \<Rightarrow> run_tasks task urls err w1)"

definition scan_main :: "yval \<Rightarrow> file_system \<Rightarrow> unit eff" where
  "scan_main config fs w =
     (case main_setup config fs of
        Inl e \<Rightarrow> (Inl e, w)
      | Inr None \<Rightarrow> (Inr (), w)
      | Inr (Some plan) \<Rightarrow>
          (case run_tasks (\<lambda>url. detect_and_check url (plan_usernames plan) (plan_passwords plan) config)
                  (plan_urls plan) None w of
             (None, w') \<Rightarrow> (Inr (), w')
           | (Some e, w') \<Rightarrow> (Inl e, w')))"


text \<open>\<open>main()\<close> from its first line: the configuration is loaded from
  \<open>config.yaml\<close>, then as in \<open>scan_main\<close>.\<close>
definition main_prog :: "(string list \<Rightarrow> py_error + yval) \<Rightarrow> file_system \<Rightarrow> unit eff" where
  "main_prog safe_load fs w =
     (case load_config safe_load fs ''config.yaml'' of
        Inl e \<Rightarrow> (Inl e, w)
      | Inr config \<Rightarrow> scan_main config fs w)"

text \<open>The outcome of each task of the sequential run: the exception it raised, if any.\<close>
fun seq_outcomes :: "(string \<Rightarrow> unit eff) \<Rightarrow> string list \<Rightarrow> world \<Rightarrow> py_error option list" where
  "seq_outcomes task [] w = []"
| "seq_outcomes task (url # urls) w =
     (case task url w of
        (Inl e, w1) \<Rightarrow> Some e # seq_outcomes task urls w1
      | (Inr u, w1) \<Rightarrow> None # seq_outcomes task urls w1)"

section \<open>Scenario\<close>

text \<open>A file system with a URL list ending in a blank line.\<close>
definition fs_demo :: file_system where
  "fs_demo p =
     (if p = ''url.txt'' then Some (Text [''http://10.0.0.1:8080\<newline>'', ''\<newline>''])
      else if p = ''user.txt'' then Some (Text [''admin\<newline>''])
      else if p = ''passwd.txt'' then Some (Text [''a\<newline>'', ''b''])
      else None)"

section \<open>Lemmas\<close>

lemma py_getitem_get: "py_getitem v k = Inr x \<Longrightarrow> py_get v k d = Inr x"
  by (cases v) (auto split: option.splits)

lemma length_seq_outcomes [simp]: "length (seq_outcomes task urls w) = length urls"
  by (induction urls arbitrary: w) (auto split: prod.split sum.split)

lemma first_exc_map_Suc: "first_exc out (map Suc ks) = first_exc (\<lambda>k. out (Suc k)) ks"
  by (induction ks) (auto split: option.split)

lemma first_exc_nth_Cons:
  "first_exc (\<lambda>k. (x # xs) ! k) [0..<Suc n] =
     (case x of Some e \<Rightarrow> Some e | None \<Rightarrow> first_exc (\<lambda>k. xs ! k) [0..<n])"
proof -
  have "[0..<Suc n] = 0 # map Suc [0..<n]" by (simp add: map_Suc_upt upt_conv_Cons)
  then have "first_exc (\<lambda>k. (x # xs) ! k) [0..<Suc n] = first_exc (\<lambda>k. (x # xs) ! k) (0 # map Suc [0..<n])"
    by (simp only:)
  then show ?thesis by (simp add: first_exc_map_Suc del: upt_Suc split: option.split)
qed

lemma run_tasks_err:
  "fst (run_tasks task urls err w) =
     (case err of Some e \<Rightarrow> Some e | None \<Rightarrow> first_exc (\<lambda>k. seq_outcomes task urls w ! k) [0..<length urls])"
proof (induction urls arbitrary: err w)
  case Nil
  then show ?case by (simp split: option.split)
next
  case (Cons url urls)
  show ?case
    by (cases "task url w") (auto simp: Cons.IH first_exc_nth_Cons simp del: upt_Suc split: sum.split option.split)
qed

section \<open>Properties of main\<close>

text \<open>When \<open>main\<close> gets past the creation of the executor, the pool size is
  positive and is \<open>adjust_thread_pool_size\<close> of the product of the three list lengths
  with the configured limits.\<close>

theorem main_setup_plan:
  assumes "main_setup config fs = Inr (Some plan)"
  shows "0 < plan_workers plan \<and>
         (\<exists>max_workers_limit min_workers k.
            cfg_int config [''thread_pool'', ''max_workers_limit''] = Inr max_workers_limit \<and>
            cfg_int config [''thread_pool'', ''min_workers''] = Inr min_workers \<and>
            adjust_thread_pool_size
              (int (length (plan_urls plan) * length (plan_usernames plan) * length (plan_passwords plan)))
              max_workers_limit min_workers k = Inr (plan_workers plan))"
  using assms
  by (auto simp: main_setup_def rbind_def Let_def split: sum.splits if_splits)

text \<open>C32: A configuration that \<open>validate_config\<close> accepts can still make \<open>main\<close>
  crash before any scan: whenever the three lists are non-empty, a
  \<open>combination_per_thread\<close> of zero raises \<open>ZeroDivisionError\<close> in the pool sizing,
  whatever the other settings.\<close>

theorem main_setup_validated_crash:
  assumes "validate_config config = Inr True"
    and "lookup_path config [''files'', ''url_file''] = Inr (YStr uf)" and "load_file fs uf = Inr urls"
    and "lookup_path config [''files'', ''user_file''] = Inr (YStr nf)" and "load_file fs nf = Inr usernames"
    and "lookup_path config [''files'', ''passwd_file''] = Inr (YStr pf)" and "load_file fs pf = Inr passwords"
    and "lookup_path config [''files'', ''output_file''] = Inr output_file"
    and "cfg_int config [''thread_pool'', ''max_workers_limit''] = Inr max_workers_limit"
    and "cfg_int config [''thread_pool'', ''min_workers''] = Inr min_workers"
    and "lookup_path config [''thread_pool'', ''combination_per_thread''] = Inr k" and "yval_int k = Inr 0"
    and "urls \<noteq> []" and "usernames \<noteq> []" and "passwords \<noteq> []"
  shows "main_setup config fs = Inl ZeroDivisionError"
proof -
  obtain tp where tp: "py_getitem config ''thread_pool'' = Inr tp"
    and k: "py_getitem tp ''combination_per_thread'' = Inr k"
    using assms(11) by (cases "py_getitem config ''thread_pool''") (auto split: sum.splits)
  from k have g: "py_get tp ''combination_per_thread'' (YInt 200) = Inr k" by (rule py_getitem_get)
  have "0 < int (length urls * length usernames * length passwords)" using assms(13-15) by simp
  with assms(1-10,12) tp g show ?thesis
    by (simp add: main_setup_def adjust_thread_pool_size_def)
qed

theorem main_setup_validated_crash_witness:
  "main_setup cfg_minimal fs_demo = Inl ZeroDivisionError"
proof -
  have v: "validate_config cfg_minimal = Inr True"
    by (simp add: validate_config_def required_fields_def cfg_minimal_def)
  have f: "lookup_path cfg_minimal [''files'', ''url_file''] = Inr (YStr ''url.txt'')"
    "load_file fs_demo ''url.txt'' = Inr [''http://10.0.0.1:8080'', '''']"
    "lookup_path cfg_minimal [''files'', ''user_file''] = Inr (YStr ''user.txt'')"
    "load_file fs_demo ''user.txt'' = Inr [''admin'']"
    "lookup_path cfg_minimal [''files'', ''passwd_file''] = Inr (YStr ''passwd.txt'')"
    "load_file fs_demo ''passwd.txt'' = Inr [''a'', ''b'']"
    "lookup_path cfg_minimal [''files'', ''output_file''] = Inr (YStr ''success.txt'')"
    "cfg_int cfg_minimal [''thread_pool'', ''max_workers_limit''] = Inr 50"
    "cfg_int cfg_minimal [''thread_pool'', ''min_workers''] = Inr 5"
    "lookup_path cfg_minimal [''thread_pool'', ''combination_per_thread''] = Inr (YInt 0)"
    "yval_int (YInt 0) = Inr 0"
    by (simp_all add: cfg_minimal_def load_file_def fs_demo_def cfg_int_def py_strip_def py_whitespace_def
        rstrip_def)
  show ?thesis by (rule main_setup_validated_crash [OF v f]) simp_all
qed

text \<open>A blank line of a list file is kept as an empty entry: it is scanned as a
  target (or tried as a credential) and counted in the pool sizing.\<close>

theorem main_setup_blank_target:
  "main_setup cfg_example fs_demo =
     Inr (Some \<lparr>plan_urls = [''http://10.0.0.1:8080'', ''''], plan_usernames = [''admin''],
                plan_passwords = [''a'', ''b''], plan_workers = 5\<rparr>)"
  by (simp add: validate_config_def required_fields_def cfg_example_def main_setup_def cfg_int_def
      load_file_def fs_demo_def adjust_thread_pool_size_def py_strip_def py_whitespace_def rstrip_def)

text \<open>C31: A \<open>config.yaml\<close> whose document is not a mapping but \<open>None\<close> (an
  empty file), a boolean or a number makes \<open>main\<close> crash with \<open>TypeError\<close> in
  \<open>validate_config\<close> (\<open>'files' in config\<close>) instead of reporting the configuration
  invalid, before any list is read and any request sent.\<close>

theorem main_prog_scalar_config:
  assumes "fs ''config.yaml'' = Some (Text ls)" and "safe_load ls = Inr v"
    and "v = YNone \<or> (\<exists>b. v = YBool b) \<or> (\<exists>i. v = YInt i)"
  shows "main_prog safe_load fs w = (Inl TypeError, w)"
  using assms
  by (auto simp: main_prog_def load_config_def scan_main_def main_setup_def validate_config_def
      required_fields_def)

theorem main_prog_scalar_config_witness:
  "main_prog (\<lambda>ls. Inr YNone) (\<lambda>p. if p = ''config.yaml'' then Some (Text []) else None) (w_gen {}) =
     (Inl TypeError, w_gen {})"
  using main_prog_scalar_config [of "\<lambda>p. if p = ''config.yaml'' then Some (Text []) else None" "[]"
      "\<lambda>ls. Inr YNone" YNone "w_gen {}"]
  by simp

end
