(* ===== verification/Spec2Isabelle.thy ===== *)
theory Spec2Isabelle
  imports Struct_Codec Brute_Force Scan_Main
begin

text \<open>
  \<^bold>\<open>A verification library for TomcatScan.\<close>

  The program (\<open>src/TomcatScan.py\<close>, one Python file) reads a list of Tomcat targets,
  sizes a thread pool from the number of (target, username, password) combinations and
  runs one task per target. A task (\<open>detect_and_check\<close>) first probes the target for
  CVE-2017-12615 (PUT upload of a JSP) and for CNVD-2020-10487 (AJP file inclusion,
  through the AJP13 string codec \<open>pack_string\<close>/\<open>unpack_string\<close>), then runs
  \<open>check_weak_password\<close>, a brute force of the manager console; a successful login
  builds a WAR (\<open>generate_war\<close>) and deploys it as a webshell
  (\<open>deploy_godzilla_war\<close>). All tasks append their results to one output file.

  \<^bold>\<open>Theories and what they model.\<close>
  \<^item> \<open>Prelude\<close>: bytes as \<open>8 word\<close> lists, Python \<open>str\<close> as code-point lists, the
    Python exceptions as \<open>py_error\<close>, big-endian 16-bit fields (\<open>be16\<close>,
    \<open>word16_of\<close>) and Python's \<open>rstrip\<close>, \<open>endswith\<close> and \<open>split\<close>.
  \<^item> \<open>Struct_Codec\<close>: the subset of Python's \<open>struct\<close> module the code uses
    (\<open>struct_pack\<close>, \<open>struct_unpack\<close>), UTF-8 encoding, and the source's
    \<open>pack_string\<close>, \<open>unpack\<close> and \<open>unpack_string\<close> (lines 358-405), a stream being
    the list of its unread bytes.
  \<^item> \<open>Url\<close>: \<open>clean_url\<close> (lines 67-78), the manager-URL normalisation of
    \<open>check_weak_password\<close> (\<open>url_with_path\<close>, lines 255-259), the host of a result
    line (\<open>target_host\<close>, line 569).
  \<^item> \<open>Pool_Size\<close>: \<open>adjust_thread_pool_size\<close> (lines 306-327) over unbounded
    \<open>int\<close>, with \<open>ZeroDivisionError\<close> for a zero divisor.
  \<^item> \<open>World\<close>: the environment as a record: a network oracle giving the reply to the
    n-th request, the requests sent, the output file's lines, the working directory's
    files and those whose deletion is refused, the random source, the sleeps and the
    library's body encoding; the primitives \<open>http\<close>, \<open>append_line\<close>,
    \<open>write_file\<close>, \<open>remove_file\<close>, \<open>sleep\<close> raise as the Python calls do; an operation is a function from the world
    to a result (\<open>Inl\<close> an exception) and the new world.
  \<^item> \<open>Webshell\<close>: \<open>generate_war\<close> (with \<open>jsp_write\<close>),
    \<open>get_jsessionid_and_csrf_nonce\<close> (with the cookie jar's \<open>jar_get\<close> and the
    CSRF-nonce regular expression as \<open>csrf_nonce_search\<close>), the upload retry loop
    \<open>upload_loop\<close> and \<open>deploy_godzilla_war\<close> (lines 96-235).
  \<^item> \<open>Brute_Force\<close>: \<open>check_weak_password\<close> (lines 239-302) as one sweep function
    \<open>sweep\<close> over \<open>List.product usernames passwords\<close> and the retry loop
    \<open>cwp_loop\<close>.
  \<^item> \<open>Config\<close>: the YAML values the code reads (\<open>yval\<close>), Python's \<open>in\<close>,
    \<open>[]\<close> and \<open>get\<close> on them, and \<open>validate_config\<close> (lines 330-354);
    \<open>cfg_example\<close> is the spec's configuration.
  \<^item> \<open>Utf8\<close>: a strict UTF-8 decoder (\<open>bytes.decode('utf-8')\<close>) and the
    per-chunk decoding of the AJP body (\<open>decode_chunks\<close>, line 539).
  \<^item> \<open>Ajp\<close>: the AJP13 forward request of \<open>prepare_ajp_forward_request\<close>
    (lines 408-463). The \<open>tomcatscan\<close> client module it builds on is not in the
    sources; its message types are modelled from the spec, and an exchange is a call of
    the world's AJP oracle (\<open>ajp_net\<close>, \<open>ajp_exchange\<close> in \<open>World\<close>).
  \<^item> \<open>Ajp_Wire\<close>: the AJP13 serialisation of a forward request
    (\<open>encode_forward_request\<close>) and the packet framing (\<open>ajp_packet\<close>) of the
    \<open>tomcatscan\<close> module, modelled from the spec (sections 3 and 4.1) and the AJP13
    protocol over the source's \<open>pack_string\<close>, and a container-side reader
    (\<open>decode_forward_request\<close>, \<open>read_packet\<close>) built on the source's
    \<open>unpack\<close> and \<open>unpack_string\<close>.
  \<^item> \<open>Exploit\<close>: \<open>check_cve_2017_12615_and_cnvd_2020_10487\<close> (lines 467-550):
    the body \<open>requests.put\<close> sends for the payload (\<open>put_body\<close>), the three PUT
    techniques with their verifying GET (\<open>cve_attempts\<close>), hostname
    parsing (\<open>url_hostname\<close>), the AJP inclusion probe (\<open>cnvd_probe\<close>) and both
    exception handlers; and the per-target task \<open>detect_and_check\<close> (lines 554-577).
  \<^item> \<open>Thread_Pool\<close>: the \<open>ThreadPoolExecutor\<close> of \<open>main\<close> as an inductive step
    relation \<open>pool_step\<close> over pending and running tasks, each task being the list of
    lines it appends to the output file.
  \<^item> \<open>Executor\<close>: the executor with the completion order of its futures
    (\<open>exec_step\<close>, each of whose steps is a \<open>pool_step\<close>) and \<open>main\<close>'s
    \<open>as_completed\<close>/\<open>future.result()\<close> loop (\<open>first_exc\<close> over the orders
    \<open>as_completed_order\<close> allows).
  \<^item> \<open>Scan_Main\<close>: \<open>load_config\<close> (lines 35-46) with \<open>yaml.safe_load\<close> as a given
    function, \<open>load_file\<close> (lines 50-64) over a file system whose entries are a file's
    lines or the exception reading it raises, \<open>main\<close> (\<open>main_prog\<close>, \<open>main_setup\<close>,
    \<open>scan_main\<close>) and the run of all tasks by one worker (\<open>run_tasks\<close>).
  This theory holds the properties of the webshell path of a login, which span
  \<open>Brute_Force\<close> and \<open>Webshell\<close>, and of the probe's AJP request.

  \<^bold>\<open>What is proved.\<close> The codec round-trips ASCII strings of up to 32767 code points
  and fails explicitly on short streams; it truncates strings with non-ASCII characters
  (the length counts code points, the field bytes), cannot read back strings longer than
  32767 code points (unsigned length written, signed length read) and does not check the
  terminator. The chunk-wise decoding of the AJP body agrees with decoding the whole
  body unless a character is split across chunks, which raises. Every well-formed
  forward request is serialised without an exception and read back unchanged; the
  probe's request is well formed for ASCII hosts and file paths; a packet frames bodies
  up to 65535 bytes and raises beyond. \<open>url_with_path\<close> is idempotent and
  \<open>clean_url\<close> cuts into hosts ending in one of \<open>/ m a n g e r h t l\<close>. The pool
  size is the spec's clamp of the ceiling, within bounds when \<open>min \<le> max\<close> and not
  otherwise. \<open>validate_config\<close> accepts exactly the configurations with the required
  sections and fields; a validated configuration with a \<open>combination_per_thread\<close> of 0
  makes \<open>main\<close> raise \<open>ZeroDivisionError\<close> for all non-empty lists, and a
  \<open>config.yaml\<close> holding \<open>None\<close> (an empty file), a bool or a number makes it raise
  \<open>TypeError\<close> before any request. The exploit probe lets only the exceptions of
  reading and encoding the payload escape, reports CVE-2017-12615 only after a 201/204
  PUT and a 200 GET, falls back to CNVD-2020-10487 when every PUT is refused and reports
  it with the fixed path \<open>/WEB-INF/web.xml\<close>, and skips the AJP probe after a
  transport error. \<open>generate_war\<close> leaves the JSP behind when the WAR cannot be
  created or the shell content is not a str. A deployment that returns normally deletes
  the WAR unless the system refuses; the exceptions that leave it are listed, and an
  unwritable output file or a duplicated session cookie leaks the WAR. An upload
  answered with an error status is retried \<open>max_retries\<close> times. The brute force
  returns the first pair in username-major order that logs in, and a target reported
  unreachable had exactly \<open>max_retries\<close> sweeps restarting at the first pair; after a
  login the documented webshell line is written for every cooperating server, and
  unreadable deployment settings raise after the WAR is built, leaving it on disk.
  \<open>main\<close> raises exactly when a task raised, but which exception is not fixed by the
  URL order.

  \<^bold>\<open>Bounds and loops.\<close> Both retry loops are \<open>function\<close>s with the measure
  \<open>max_retries - attempt\<close>, so they terminate for every input; no fuel is needed.
  \<open>time.sleep\<close> is modelled with CPython's bound \<open>sleep_max\<close> (a delay in nanoseconds
  must fit a signed 64-bit integer) and its \<open>ValueError\<close> for negative delays.
  Witnesses run the operations on small concrete worlds (\<open>w_gen\<close>, \<open>w_status\<close>,
  \<open>w_login\<close>, \<open>w_two_cookies\<close>, \<open>w_ajp\<close>, \<open>w_cve\<close>, \<open>w_e2e\<close>) by
  simplification.

  \<^bold>\<open>Not modelled.\<close> The colour logger (lines 29-31 and every \<open>logger\<close> call)
  only writes to the console. YAML parsing is the library's \<open>yaml.safe_load\<close>, a
  parameter of \<open>load_config\<close>; the configuration enters as a \<open>yval\<close>. The form
  encoding \<open>requests\<close> applies to a non-str PUT body is the world's \<open>body_encode\<close>,
  and which deletions the system refuses is its \<open>rm_denied\<close>. The WAR's zip content,
  HTTP headers and timeouts are not modelled; a timeout is a transport error of the
  oracle, and \<open>http\<close> raises only \<open>RequestException\<close>. \<open>url_hostname\<close> does not
  parse IPv6 zone identifiers. The \<open>tomcatscan\<close> client's socket exchange is the
  world's AJP oracle; its serialisation is modelled from the spec in \<open>Ajp_Wire\<close>, not
  linked to the oracle, and its response parsing is not modelled (the oracle returns the
  body chunks). With several workers the completion order of the tasks is modelled, not
  the interleaving of their HTTP traffic on one world: the oracle answers the n-th
  request of the run, so what a task receives depends on the schedule; the executor's
  property holds for whatever outcomes the tasks have. A retry setting is converted to
  an int where the source reads it (\<open>cfg_int\<close>, floats not modelled), so a setting
  that is not a number raises \<open>TypeError\<close> there rather than at its first comparison
  or sleep.
\<close>

section \<open>The webshell path of a successful login\<close>

definition w_e2e :: world where
  "w_e2e = \<lparr>net = (\<lambda>n r. Reply \<lparr>status = 200, cookies = [(''JSESSIONID'', ''5F3A'')], body = [],
                                   file_input = None\<rparr>),
            sent = [], sink = [], sink_ok = True, files = {}, fs_ro = {},
            rnd = (\<lambda>n. if n = 0 then ''abc123'' else ''def456''), rnd_n = 0, sleeps = [],
            ajp_net = (\<lambda>n c. Ajp_failure), ajp_sent = [], rm_denied = {},
            body_encode = (\<lambda>v. Inl ValueError)\<rparr>"


text \<open>C20: The spec's webshell path after a successful login, for every server that
  accepts the manager login (a session cookie, no error status), accepts the upload and
  serves the shell with 200: \<open>on_login\<close> appends the login line and then the
  documented webshell line \<open>"<url> <username>:<password> - Webshell: <shell_url>"\<close>
  for the cleaned URL, the random context path and the JSP's name, returns normally,
  and leaves neither the WAR nor the JSP in the working directory.\<close>

theorem on_login_webshell:
  assumes "sink_ok w" and "shell_content config = Inr (YStr s)"
    and "rnd w (Suc (rnd_n w)) @ ''.jsp'' \<notin> fs_ro w" and "rnd w (rnd_n w) @ ''.war'' \<notin> fs_ro w"
    and "rnd w (Suc (rnd_n w)) @ ''.jsp'' \<notin> rm_denied w" and "rnd w (rnd_n w) @ ''.war'' \<notin> rm_denied w"
    and "cfg_int config [''retry'', ''deploy_godzilla_war'', ''max_retries''] = Inr mr" and "0 < mr"
    and "cfg_int config [''retry'', ''deploy_godzilla_war'', ''retry_delay''] = Inr rd"
    and "net w (length (sent w)) (manager_get (clean_url uwp) u p) = Reply r1" and "status r1 < 400"
    and "jar_get (cookies r1) ''JSESSIONID'' = Inr (Some j)" and "j \<noteq> []"
    and "file_input r1 \<noteq> Some None"
    and "\<forall>n req. req_method req = POST \<longrightarrow> (\<exists>r. net w n req = Reply r \<and> status r < 400)"
    and "\<forall>n req. req_method req = GET \<and> req_cookie req = Some j \<longrightarrow> net w n req = Reply r200"
    and "status r200 = 200"
  shows "fst (on_login uwp u p config w) = Inr () \<and>
         sink (snd (on_login uwp u p config w)) =
           sink w @ [uwp @ '' '' @ u @ '':'' @ p,
                     clean_url uwp @ '' '' @ u @ '':'' @ p @ '' - Webshell: '' @ clean_url uwp @ ''/'' @
                       rnd w (rnd_n w) @ ''/'' @ rnd w (Suc (rnd_n w)) @ ''.jsp''] \<and>
         files (snd (on_login uwp u p config w)) =
           files w - {rnd w (rnd_n w) @ ''.war'', rnd w (Suc (rnd_n w)) @ ''.jsp''}"
proof -
  let ?war = "rnd w (rnd_n w) @ ''.war''" and ?jsp = "rnd w (Suc (rnd_n w)) @ ''.jsp''"
  let ?w0 = "w\<lparr>sink := sink w @ [uwp @ '' '' @ u @ '':'' @ p]\<rparr>"
  let ?w1 = "?w0\<lparr>rnd_n := Suc (Suc (rnd_n w)), files := insert ?war (files w - {?jsp})\<rparr>"
  have g: "generate_war config ?w0 = (Inr (Some (?war, rnd w (rnd_n w), ?jsp)), ?w1)"
    using generate_war_ok [of config s ?w0] assms(2-5) by simp
  let ?w2 = "?w1\<lparr>sent := sent ?w1 @ [manager_get (clean_url uwp) u p]\<rparr>"
  let ?f = "case file_input r1 of Some (Some n) \<Rightarrow> n | _ \<Rightarrow> ''file''"
  let ?c = "\<lparr>d_url = clean_url uwp, d_username = u, d_password = p, d_jsessionid = Some j,
             d_csrf_nonce = csrf_nonce_search (body r1), d_file_field = Some ?f, d_war = ?war,
             d_random = rnd w (rnd_n w), d_shell = ?jsp\<rparr>"
  have tok: "get_jsessionid_and_csrf_nonce (clean_url uwp) u p ?w1 =
               (Inr (Some j, csrf_nonce_search (body r1), Some ?f, True), ?w2)"
    using assms(10-14) by (intro get_tokens_ok) simp_all
  obtain r2 where r2: "net ?w2 (length (sent ?w2)) (upload_req ?c) = Reply r2" "status r2 < 400"
    using assms(15) [rule_format, of "upload_req ?c" "length (sent ?w2)"] by (auto simp: upload_req_def)
  have sh: "net ?w2 (Suc (length (sent ?w2))) (shell_get ?c) = Reply r200"
    using assms(16) by (simp add: shell_get_def)
  have "upload_once ?c ?w2 =
          (Inr (), ?w2\<lparr>sent := sent ?w2 @ [upload_req ?c, shell_get ?c], sink := sink ?w2 @ [webshell_line ?c]\<rparr>)"
    using assms(1,17) r2 sh by (intro upload_once_ok) simp_all
  then have lp: "upload_loop ?c mr rd 0 ?w2 =
          (Inr (), ?w2\<lparr>sent := sent ?w2 @ [upload_req ?c, shell_get ?c], sink := sink ?w2 @ [webshell_line ?c]\<rparr>)"
    using assms(8) by (simp add: upload_loop.simps)
  have "?war \<noteq> ?jsp" by (rule war_jsp_distinct)
  then have "insert ?war (files w - {?jsp}) - {?war} = files w - {?war, ?jsp}"
    "files w - {?jsp} - {?war} = files w - {?war, ?jsp}" by auto
  with g tok lp assms(1,6,7,9) show ?thesis
    by (simp add: on_login_def eff_simps deploy_godzilla_war_def cleanup_war_result Let_def
        webshell_line_def shell_url_def)
qed

theorem on_login_webshell_witness:
  "fst (on_login ''http://10.0.0.2:8080/manager/html'' ''tomcat'' ''tomcat'' cfg_example w_e2e) = Inr () \<and>
   sink (snd (on_login ''http://10.0.0.2:8080/manager/html'' ''tomcat'' ''tomcat'' cfg_example w_e2e)) =
     [''http://10.0.0.2:8080/manager/html tomcat:tomcat'',
      ''http://10.0.0.2:8080 tomcat:tomcat - Webshell: http://10.0.0.2:8080/abc123/def456.jsp''] \<and>
   files (snd (on_login ''http://10.0.0.2:8080/manager/html'' ''tomcat'' ''tomcat'' cfg_example w_e2e)) = {}"
proof -
  let ?r = "\<lparr>status = 200, cookies = [(''JSESSIONID'', ''5F3A'')], body = [], file_input = None\<rparr>"
  have u: "clean_url ''http://10.0.0.2:8080/manager/html'' = ''http://10.0.0.2:8080''"
    by (simp add: clean_url_def rstrip_def manager_path_def)
  have s: "shell_content cfg_example = Inr (YStr ''<%-- shell --%>'')" by simp
  have h: "sink_ok w_e2e" "shell_content cfg_example = Inr (YStr ''<%-- shell --%>'')"
    "rnd w_e2e (Suc (rnd_n w_e2e)) @ ''.jsp'' \<notin> fs_ro w_e2e" "rnd w_e2e (rnd_n w_e2e) @ ''.war'' \<notin> fs_ro w_e2e"
    "rnd w_e2e (Suc (rnd_n w_e2e)) @ ''.jsp'' \<notin> rm_denied w_e2e" "rnd w_e2e (rnd_n w_e2e) @ ''.war'' \<notin> rm_denied w_e2e"
    "cfg_int cfg_example [''retry'', ''deploy_godzilla_war'', ''max_retries''] = Inr 3" "(0::int) < 3"
    "cfg_int cfg_example [''retry'', ''deploy_godzilla_war'', ''retry_delay''] = Inr 1"
    "net w_e2e (length (sent w_e2e)) (manager_get (clean_url ''http://10.0.0.2:8080/manager/html'') ''tomcat'' ''tomcat'') = Reply ?r"
    "status ?r < 400" "jar_get (cookies ?r) ''JSESSIONID'' = Inr (Some ''5F3A'')" "''5F3A'' \<noteq> []"
    "file_input ?r \<noteq> Some None"
    "\<forall>n req. req_method req = POST \<longrightarrow> (\<exists>r. net w_e2e n req = Reply r \<and> status r < 400)"
    "\<forall>n req. req_method req = GET \<and> req_cookie req = Some ''5F3A'' \<longrightarrow> net w_e2e n req = Reply ?r"
    "status ?r = 200"
    using s by (simp_all add: w_e2e_def cfg_int_def cfg_example_def jar_get_def del: shell_content_example)
  have r: "rnd w_e2e (rnd_n w_e2e) = ''abc123''" "rnd w_e2e (Suc (rnd_n w_e2e)) = ''def456''"
    "sink w_e2e = []" "files w_e2e = {}" by (simp_all add: w_e2e_def)
  show ?thesis using on_login_webshell [OF h] u r by simp
qed



text \<open>C12: The forward request the CNVD-2020-10487 probe hands to the AJP client
  (\<open>prepare_ajp_forward_request\<close> with the three include attributes) is well formed
  for the wire format when the host and the configured file path are ASCII strings of
  at most 32767 characters: every header name it uses has an AJP13 code or is sent as a
  string, and every field fits its length field.\<close>

theorem include_call_wf:
  assumes "ascii_ok h" and "ascii_ok fp"
  shows "fr_wf (ajp_request (include_call h p fp))"
  using assms
  by (simp add: include_call_def fr_wf_def prepare_ajp_forward_request_def forward_headers_def
      include_attributes_def header_name_ok_def common_headers_def ascii_ok_def)

theorem include_call_wf_witness:
  "ascii_ok ''10.0.0.1'' \<and> ascii_ok ''/WEB-INF/web.xml'' \<and>
   fr_wf (ajp_request (include_call ''10.0.0.1'' 8009 ''/WEB-INF/web.xml''))"
proof -
  have h: "ascii_ok ''10.0.0.1''" "ascii_ok ''/WEB-INF/web.xml''" by (simp_all add: ascii_ok_def)
  show ?thesis using include_call_wf [OF h, of 8009] h by simp
qed

end
